theory Spec2Isabelle
  imports Main "HOL-Library.Word" "HOL-Library.Monad_Syntax"
begin

unbundle bit_operations_syntax

section \<open>Machine model\<close>

text \<open>
  The embedding fixes the LP64 target the sentinel arrays of \<^verbatim>\<open>emb_alloc.c\<close> are sized
  for: \<^verbatim>\<open>size_t\<close> is a 64-bit word (arithmetic wraps), a byte is an 8-bit word, and
  \<^verbatim>\<open>EMB_ALLOC_ALIGN_AMOUNT = 2 * sizeof (size_t) = 16\<close>.  A pointer is the natural number
  of its address, \<^verbatim>\<open>NULL\<close> is 0, and the memory is a total map from addresses to bytes.
  A \<^verbatim>\<open>size_t\<close> is stored little-endian in eight consecutive bytes.
\<close>

type_synonym byte = "8 word"
type_synonym size_t = "64 word"
type_synonym addr = nat
type_synonym memory = "addr \<Rightarrow> byte"

definition size_t_bytes :: "size_t \<Rightarrow> byte list" where
  "size_t_bytes v = map (\<lambda>i. ucast (drop_bit (8 * i) v)) [0..<8]"

definition bytes_size_t :: "byte list \<Rightarrow> size_t" where
  "bytes_size_t bs = foldr (\<lambda>b acc. ucast b OR push_bit 8 acc) bs 0"

text \<open>\<^verbatim>\<open>memset (a, v, n)\<close>.\<close>

definition memset :: "memory \<Rightarrow> addr \<Rightarrow> byte \<Rightarrow> nat \<Rightarrow> memory" where
  "memset m a v n = (\<lambda>x. if a \<le> x \<and> x < a + n then v else m x)"

text \<open>\<^verbatim>\<open>memcpy (a, bs, length bs)\<close> from a constant array \<open>bs\<close>.\<close>

primrec store_bytes :: "memory \<Rightarrow> addr \<Rightarrow> byte list \<Rightarrow> memory" where
  "store_bytes m a [] = m"
| "store_bytes m a (b # bs) = store_bytes (m(a := b)) (Suc a) bs"

text \<open>\<^verbatim>\<open>memcpy (dst, src, n)\<close> between two regions of the memory.\<close>

definition memcpy :: "memory \<Rightarrow> addr \<Rightarrow> addr \<Rightarrow> nat \<Rightarrow> memory" where
  "memcpy m dst src n = (\<lambda>x. if dst \<le> x \<and> x < dst + n then m (src + (x - dst)) else m x)"

text \<open>\<^verbatim>\<open>0 == memcmp (a, bs, length bs)\<close> against a constant array \<open>bs\<close>.\<close>

primrec bytes_at :: "memory \<Rightarrow> addr \<Rightarrow> byte list \<Rightarrow> bool" where
  "bytes_at m a [] = True"
| "bytes_at m a (b # bs) = (m a = b \<and> bytes_at m (Suc a) bs)"

text \<open>\<^verbatim>\<open>0 == memcmp (a, b, n)\<close> between two regions of the memory.\<close>

primrec memcmp_eq :: "memory \<Rightarrow> addr \<Rightarrow> addr \<Rightarrow> nat \<Rightarrow> bool" where
  "memcmp_eq m a b 0 = True"
| "memcmp_eq m a b (Suc n) = (m a = m b \<and> memcmp_eq m (Suc a) (Suc b) n)"

text \<open>Reading and writing a \<^verbatim>\<open>size_t\<close> through a \<^verbatim>\<open>size_t*\<close>.\<close>

definition rd_size_t :: "memory \<Rightarrow> addr \<Rightarrow> size_t" where
  "rd_size_t m a = bytes_size_t (map m [a..<a + 8])"

definition wr_size_t :: "memory \<Rightarrow> addr \<Rightarrow> size_t \<Rightarrow> memory" where
  "wr_size_t m a v = store_bytes m a (size_t_bytes v)"

text \<open>
  A pointer plus a \<^verbatim>\<open>size_t\<close>, as the operations on an existing pool compute it from
  counters and sizes.  The address space is flat and 64 bits wide, so the sum is taken
  modulo \<open>2^64\<close>: an offset that has wrapped around in \<^verbatim>\<open>size_t\<close> (\<open>(0 - 1) * stride\<close>, say)
  moves the pointer backwards.  \<^verbatim>\<open>EmbAllocCreate\<close> alone is modelled with the plain sum: it
  fills the region the host has just handed out from front to back, and the two sums
  agree on every address of a region that lies inside the address space.
\<close>

definition ptr_add :: "addr \<Rightarrow> size_t \<Rightarrow> addr" where
  "ptr_add p n = (p + unat n) mod 2 ^ 64"

section \<open>The overflow verifier (emb\_alloc\_util.c)\<close>

text \<open>
  \<^verbatim>\<open>EmbAllocCheckBuffer\<close>: true for a null buffer or a zero size; otherwise the first byte
  is compared with the reference value and the buffer with itself shifted by one byte
  over \<^verbatim>\<open>size - 1\<close> bytes.
\<close>

definition EmbAllocCheckBuffer :: "memory \<Rightarrow> addr \<Rightarrow> size_t \<Rightarrow> byte \<Rightarrow> bool" where
  "EmbAllocCheckBuffer m buffer sz reference_value =
     (if buffer = 0 \<or> sz = 0 then True
      else (m buffer = reference_value \<and>
            memcmp_eq m buffer (buffer + 1) (unat (sz - 1))))"

section \<open>Constants and data types (emb\_alloc.h, emb\_alloc\_internal.h)\<close>

abbreviation (input) EMB_ALLOC_VALUE_NOT_SET :: size_t where
  "EMB_ALLOC_VALUE_NOT_SET \<equiv> - 1"

abbreviation (input) EMB_ALLOC_INIT_VALUE :: byte where
  "EMB_ALLOC_INIT_VALUE \<equiv> 0xAC"

abbreviation (input) EMB_ALLOC_ALIGN_AMOUNT :: nat where
  "EMB_ALLOC_ALIGN_AMOUNT \<equiv> 16"

abbreviation (input) EMB_ALLOC_NUM_BLOCK_CATEGORIES :: nat where
  "EMB_ALLOC_NUM_BLOCK_CATEGORIES \<equiv> 8"

text \<open>\<^verbatim>\<open>EMB_ALLOC_BLOCK_CONTROL_ALIGN_SIZE = 3 * EMB_ALLOC_ALIGN_AMOUNT\<close>, a \<^verbatim>\<open>size_t\<close>.\<close>

abbreviation (input) EMB_ALLOC_BLOCK_CONTROL_ALIGN_SIZE :: size_t where
  "EMB_ALLOC_BLOCK_CONTROL_ALIGN_SIZE \<equiv> 48"

abbreviation (input) EMB_ALLOC_BLOCK_START_CONTROL_ALIGN_SIZE :: nat where
  "EMB_ALLOC_BLOCK_START_CONTROL_ALIGN_SIZE \<equiv> 32"

definition EMB_ALLOC_BLOCK_TOTAL_ALIGN_SIZE :: "size_t \<Rightarrow> size_t" where
  "EMB_ALLOC_BLOCK_TOTAL_ALIGN_SIZE data_size = data_size + EMB_ALLOC_BLOCK_CONTROL_ALIGN_SIZE"

text \<open>
  The aligned sizes of the three control structures.  \<^verbatim>\<open>sizeof (EmbAllocBlockCategory)\<close>
  is 56 (seven 8-byte fields); the settings are 211 bytes of fields, 216 with padding,
  224 aligned; the auxiliary data (a 40-byte \<^verbatim>\<open>pthread_mutex_t\<close>, the flag, the error code
  and the 512-byte message) is 560 bytes.
\<close>

abbreviation (input) EMB_ALLOC_MEMPOOL_SETTINGS_ALIGN_SIZE :: nat where
  "EMB_ALLOC_MEMPOOL_SETTINGS_ALIGN_SIZE \<equiv> 224"

abbreviation (input) sizeof_EmbAllocBlockCategory :: nat where
  "sizeof_EmbAllocBlockCategory \<equiv> 56"

abbreviation (input) EMB_ALLOC_BLOCK_CATEGORY_ALIGN_SIZE :: nat where
  "EMB_ALLOC_BLOCK_CATEGORY_ALIGN_SIZE \<equiv> 448"

abbreviation (input) EMB_ALLOC_MEMPOOL_AUX_DATA_ALIGN_SIZE :: nat where
  "EMB_ALLOC_MEMPOOL_AUX_DATA_ALIGN_SIZE \<equiv> 560"

text \<open>\<^verbatim>\<open>EMB_ALLOC_MEMPOOL_CONTROL_ALIGN_SIZE\<close>: both pool markers and the three structures.\<close>

abbreviation (input) EMB_ALLOC_MEMPOOL_CONTROL_ALIGN_SIZE :: size_t where
  "EMB_ALLOC_MEMPOOL_CONTROL_ALIGN_SIZE \<equiv> 1264"

definition kEmbAllocMempoolStart :: "byte list" where
  "kEmbAllocMempoolStart =
     [0xDE, 0xCE, 0xCA, 0xDE, 0xF0, 0xCA, 0xAC, 0xDC,
      0xF0, 0x0D, 0xFA, 0xCE, 0xDE, 0xAD, 0xBE, 0xEF]"

definition kEmbAllocMempoolEnd :: "byte list" where
  "kEmbAllocMempoolEnd =
     [0xDE, 0xAD, 0xBE, 0xEF, 0xF0, 0x0D, 0xFA, 0xCE,
      0xAC, 0xDC, 0xDE, 0xCE, 0xCA, 0xDE, 0xF0, 0xCA]"

definition kEmbAllocBlockStart :: "byte list" where
  "kEmbAllocBlockStart =
     [0xF0, 0x0D, 0xFA, 0xCE, 0xDE, 0xAD, 0xBE, 0xEF,
      0xDE, 0xCE, 0xCA, 0xDE, 0xF0, 0xCA, 0xAC, 0xDC]"

definition kEmbAllocBlockEnd :: "byte list" where
  "kEmbAllocBlockEnd =
     [0xAC, 0xDC, 0xDE, 0xCE, 0xCA, 0xDE, 0xF0, 0xCA,
      0xDE, 0xAD, 0xBE, 0xEF, 0xF0, 0x0D, 0xFA, 0xCE]"

datatype EmbAllocErrors =
    kEmbAllocNoErr
  | kEmbAllocInconsistentSettings
  | kEmbAllocThreadSyncError
  | kEmbAllocOutputParamError
  | kEmbAllocInvalidMempool
  | kEmbAllocNoMemory
  | kEmbAllocOverflow
  | kEmbAllocInconsistentBlocks
  | kEmbAllocPointerParamError

text \<open>
  The settings.  \<open>error_callback_fn\<close> is the function pointer (0 is \<^verbatim>\<open>NULL\<close>); what the
  callback is called with is recorded in the state below.
\<close>

record EmbAllocMemPoolSettings =
  total_size :: size_t
  num_32_bytes_blocks :: size_t
  num_64_bytes_blocks :: size_t
  num_128_bytes_blocks :: size_t
  num_256_bytes_blocks :: size_t
  num_512_bytes_blocks :: size_t
  num_1k_bytes_blocks :: size_t
  num_2k_bytes_blocks :: size_t
  num_4k_bytes_blocks :: size_t
  error_callback_fn :: addr
  threadsafe :: bool
  full_overflow_checks :: bool
  init_allocated_memory :: bool
  error_dump_file_name :: string

record EmbAllocBlockCategory =
  start_address :: addr
  first_free_address :: addr
  last_free_address :: addr
  last_address :: addr
  block_data_size :: size_t
  total_blocks :: size_t
  occupied_blocks :: size_t

text \<open>
  The last error message is the text copied from the error string and, when a memory
  location is given, its rendering by \<^verbatim>\<open>EMB_ALLOC_MEMORY_LOCATION_ERROR_FORMAT\<close>
  (\<^verbatim>\<open>printf\<close> with \<^verbatim>\<open>%p\<close>, implementation-defined).  The model keeps the text and the
  location (0 for none) side by side.
\<close>

type_synonym error_message = "string \<times> addr"

record EmbAllocMempoolAuxData =
  thread_sync_mutex_initialized :: bool
  last_error :: EmbAllocErrors
  last_error_message :: error_message

text \<open>
  The state an operation works on: the pool handle \<open>mempool\<close>, the three control
  structures that live at fixed offsets behind it, the bytes of the memory, the list of
  calls made to the error callback so far (oldest first), and the return codes the
  host's mutex gives to lock and unlock.  Writing the error dump file is not modelled.
\<close>

record mempool_state =
  mempool :: addr
  settings :: EmbAllocMemPoolSettings
  categories :: "EmbAllocBlockCategory list"
  aux_data :: EmbAllocMempoolAuxData
  mem :: memory
  callback_calls :: "(EmbAllocErrors \<times> error_message) list"
  lock_mutex_rc :: int
  unlock_mutex_rc :: int

definition EMB_ALLOC_INCONSISTENT_SETTINGS :: string where
  "EMB_ALLOC_INCONSISTENT_SETTINGS = ''The mempool settings are inconsistent.''"

definition EMB_ALLOC_NOT_A_MEMPOOL_ERROR :: string where
  "EMB_ALLOC_NOT_A_MEMPOOL_ERROR = ''The mempool is invalid.''"

definition EMB_ALLOC_NOT_ENOUGH_MEMORY_ERROR :: string where
  "EMB_ALLOC_NOT_ENOUGH_MEMORY_ERROR = ''The mempool is full. Cannot allocate memory.''"

definition EMB_ALLOC_CANNOT_CREATE_MEMPOOL_ERROR :: string where
  "EMB_ALLOC_CANNOT_CREATE_MEMPOOL_ERROR = ''The mempool cannot be allocated.''"

definition EMB_ALLOC_OVERFLOW_ERROR :: string where
  "EMB_ALLOC_OVERFLOW_ERROR = ''Memory overflow detected.''"

definition EMB_ALLOC_BLOCK_INCONSISTENCY_ERROR :: string where
  "EMB_ALLOC_BLOCK_INCONSISTENCY_ERROR =
     ''Inconsistency found in the data blocks management section.''"

definition EMB_ALLOC_MUTEX_LOCK_ERROR :: string where
  "EMB_ALLOC_MUTEX_LOCK_ERROR = ''Could not lock the threadsync mutex.''"

definition EMB_ALLOC_MUTEX_UNLOCK_ERROR :: string where
  "EMB_ALLOC_MUTEX_UNLOCK_ERROR = ''Could not unlock the threadsync mutex.''"

definition EMB_ALLOC_INVALID_POINTER_PARAM_ERROR :: string where
  "EMB_ALLOC_INVALID_POINTER_PARAM_ERROR = ''Invalid pointer input parameter.''"

subsection \<open>Pointer macros\<close>

abbreviation (input) EMB_ALLOC_GET_MEMPOOL_FIRST_BLOCK_PTR :: "addr \<Rightarrow> addr" where
  "EMB_ALLOC_GET_MEMPOOL_FIRST_BLOCK_PTR p \<equiv>
     p + EMB_ALLOC_ALIGN_AMOUNT + EMB_ALLOC_MEMPOOL_SETTINGS_ALIGN_SIZE +
     EMB_ALLOC_BLOCK_CATEGORY_ALIGN_SIZE + EMB_ALLOC_MEMPOOL_AUX_DATA_ALIGN_SIZE"

text \<open>The address of \<^verbatim>\<open>categories + i\<close>, used as an error location.\<close>

definition category_ptr :: "mempool_state \<Rightarrow> nat \<Rightarrow> addr" where
  "category_ptr s i =
     mempool s + EMB_ALLOC_ALIGN_AMOUNT + EMB_ALLOC_MEMPOOL_SETTINGS_ALIGN_SIZE +
     i * sizeof_EmbAllocBlockCategory"

abbreviation (input) EMB_ALLOC_GET_BLOCK_FROM_PTR :: "addr \<Rightarrow> addr" where
  "EMB_ALLOC_GET_BLOCK_FROM_PTR pointer \<equiv> pointer - 2 * EMB_ALLOC_ALIGN_AMOUNT"

abbreviation (input) EMB_ALLOC_GET_PTR_FROM_BLOCK :: "addr \<Rightarrow> addr" where
  "EMB_ALLOC_GET_PTR_FROM_BLOCK block \<equiv> block + 2 * EMB_ALLOC_ALIGN_AMOUNT"

abbreviation (input) EMB_ALLOC_GET_BLOCK_USE_COUNT_FROM_BLOCK :: "addr \<Rightarrow> addr" where
  "EMB_ALLOC_GET_BLOCK_USE_COUNT_FROM_BLOCK block \<equiv> block + EMB_ALLOC_ALIGN_AMOUNT"

abbreviation (input) EMB_ALLOC_GET_MEMORY_USE_COUNT_FROM_BLOCK :: "addr \<Rightarrow> addr" where
  "EMB_ALLOC_GET_MEMORY_USE_COUNT_FROM_BLOCK block \<equiv> block + (EMB_ALLOC_ALIGN_AMOUNT + 8)"

abbreviation (input) EMB_ALLOC_GET_END_PADDING_FROM_BLOCK :: "addr \<Rightarrow> size_t \<Rightarrow> addr" where
  "EMB_ALLOC_GET_END_PADDING_FROM_BLOCK block sz \<equiv>
     block + 2 * EMB_ALLOC_ALIGN_AMOUNT + unat sz"

definition EMB_ALLOC_PTR_IS_BLOCK :: "memory \<Rightarrow> addr \<Rightarrow> bool" where
  "EMB_ALLOC_PTR_IS_BLOCK m pointer =
     bytes_at m (EMB_ALLOC_GET_BLOCK_FROM_PTR pointer) kEmbAllocBlockStart"

definition EMB_ALLOC_PTR_IS_MEMPOOL :: "mempool_state \<Rightarrow> bool" where
  "EMB_ALLOC_PTR_IS_MEMPOOL s = bytes_at (mem s) (mempool s) kEmbAllocMempoolStart"

definition EMB_ALLOC_CAN_ALLOC_IN_A_BLOCK :: "EmbAllocBlockCategory \<Rightarrow> size_t \<Rightarrow> bool" where
  "EMB_ALLOC_CAN_ALLOC_IN_A_BLOCK category sz =
     (block_data_size category \<ge> sz \<and> occupied_blocks category < total_blocks category)"

text \<open>\<^verbatim>\<open>categories [i] = c\<close>.\<close>

definition set_category :: "mempool_state \<Rightarrow> nat \<Rightarrow> EmbAllocBlockCategory \<Rightarrow> mempool_state" where
  "set_category s i c = s\<lparr>categories := (categories s)[i := c]\<rparr>"

text \<open>The three assignments that mark a category as full.\<close>

definition saturate :: "EmbAllocBlockCategory \<Rightarrow> EmbAllocBlockCategory" where
  "saturate c = c\<lparr>occupied_blocks := total_blocks c,
                  first_free_address := 0, last_free_address := 0\<rparr>"

section \<open>The error recorder (emb\_alloc.c)\<close>

definition ClearMempoolErrorInternal :: "mempool_state \<Rightarrow> mempool_state" where
  "ClearMempoolErrorInternal s =
     s\<lparr>aux_data := (aux_data s)\<lparr>last_error := kEmbAllocNoErr, last_error_message := ([], 0)\<rparr>\<rparr>"

text \<open>
  \<^verbatim>\<open>EmbAllocSetErrorInternal\<close>: the error overwrites the last one, and the callback, when
  set, is called with it.
\<close>

definition EmbAllocSetErrorInternal ::
  "mempool_state \<Rightarrow> EmbAllocErrors \<Rightarrow> string \<Rightarrow> addr \<Rightarrow> mempool_state" where
  "EmbAllocSetErrorInternal s error error_message error_memory_location =
     (let s1 = s\<lparr>aux_data := (aux_data s)\<lparr>last_error := error,
                  last_error_message := (error_message, error_memory_location)\<rparr>\<rparr>
      in if error_callback_fn (settings s1) \<noteq> 0
         then s1\<lparr>callback_calls := callback_calls s1 @
                   [(last_error (aux_data s1), last_error_message (aux_data s1))]\<rparr>
         else s1)"

text \<open>The guarded lock and unlock of the public operations.\<close>

definition lock_mutex :: "mempool_state \<Rightarrow> mempool_state" where
  "lock_mutex s =
     (if thread_sync_mutex_initialized (aux_data s) \<and> lock_mutex_rc s \<noteq> 0
      then EmbAllocSetErrorInternal s kEmbAllocThreadSyncError EMB_ALLOC_MUTEX_LOCK_ERROR 0
      else s)"

definition unlock_mutex :: "mempool_state \<Rightarrow> mempool_state" where
  "unlock_mutex s =
     (if thread_sync_mutex_initialized (aux_data s) \<and> unlock_mutex_rc s \<noteq> 0
      then EmbAllocSetErrorInternal s kEmbAllocThreadSyncError EMB_ALLOC_MUTEX_UNLOCK_ERROR 0
      else s)"

section \<open>Lifecycle (emb\_alloc.c)\<close>

text \<open>
  \<^verbatim>\<open>EmbAllocSanitizeSettingsInternal\<close> returns whether the declared total size was the sum
  of the class capacities, together with the settings it has rewritten.  Removing the
  dump file is not modelled.
\<close>

definition EmbAllocSanitizeSettingsInternal ::
  "EmbAllocMemPoolSettings \<Rightarrow> bool \<times> EmbAllocMemPoolSettings" where
  "EmbAllocSanitizeSettingsInternal st =
     (let initial_total_size = total_size st;
          st' = st\<lparr>total_size :=
                  num_32_bytes_blocks st * 32 + num_64_bytes_blocks st * 64 +
                  num_128_bytes_blocks st * 128 + num_256_bytes_blocks st * 256 +
                  num_512_bytes_blocks st * 512 + num_1k_bytes_blocks st * 1024 +
                  num_2k_bytes_blocks st * 2048 + num_4k_bytes_blocks st * 4096\<rparr>
      in (total_size st' = initial_total_size, st'))"

definition EmbAllocGetMemoryRequirementsInternal :: "EmbAllocMemPoolSettings \<Rightarrow> size_t" where
  "EmbAllocGetMemoryRequirementsInternal st =
     (let total_num_blocks =
            num_32_bytes_blocks st + num_64_bytes_blocks st + num_128_bytes_blocks st +
            num_256_bytes_blocks st + num_512_bytes_blocks st + num_1k_bytes_blocks st +
            num_2k_bytes_blocks st + num_4k_bytes_blocks st
      in EMB_ALLOC_MEMPOOL_CONTROL_ALIGN_SIZE +
         EMB_ALLOC_BLOCK_CONTROL_ALIGN_SIZE * total_num_blocks + total_size st)"

text \<open>The block data size and the block count of the category \<open>idx\<close>.\<close>

definition EmbAllocGetCategorySettingsInternal ::
  "EmbAllocMemPoolSettings \<Rightarrow> nat \<Rightarrow> size_t \<times> size_t" where
  "EmbAllocGetCategorySettingsInternal st idx =
     (if idx = 0 then (32, num_32_bytes_blocks st)
      else if idx = 1 then (64, num_64_bytes_blocks st)
      else if idx = 2 then (128, num_128_bytes_blocks st)
      else if idx = 3 then (256, num_256_bytes_blocks st)
      else if idx = 4 then (512, num_512_bytes_blocks st)
      else if idx = 5 then (1024, num_1k_bytes_blocks st)
      else if idx = 6 then (2048, num_2k_bytes_blocks st)
      else if idx = 7 then (4096, num_4k_bytes_blocks st)
      else (0, 0))"

text \<open>
  The loop of \<^verbatim>\<open>EmbAllocInitializeBlockCategoriesInternal\<close> over the category indices,
  carrying \<^verbatim>\<open>current_start_address\<close>.
\<close>

fun init_block_categories ::
  "EmbAllocMemPoolSettings \<Rightarrow> addr \<Rightarrow> nat list \<Rightarrow> EmbAllocBlockCategory list" where
  "init_block_categories st current_start_address [] = []"
| "init_block_categories st current_start_address (i # rest) =
     (let (d, n) = EmbAllocGetCategorySettingsInternal st i;
          last = current_start_address + unat ((n - 1) * EMB_ALLOC_BLOCK_TOTAL_ALIGN_SIZE d);
          c = (if n \<noteq> 0
               then \<lparr>start_address = current_start_address,
                     first_free_address = current_start_address,
                     last_free_address = last, last_address = last,
                     block_data_size = d, total_blocks = n, occupied_blocks = 0\<rparr>
               else \<lparr>start_address = 0, first_free_address = 0,
                     last_free_address = 0, last_address = 0,
                     block_data_size = d, total_blocks = n, occupied_blocks = 0\<rparr>)
      in c # init_block_categories st
               (current_start_address + unat (n * EMB_ALLOC_BLOCK_TOTAL_ALIGN_SIZE d)) rest)"

definition EmbAllocInitializeBlockCategoriesInternal :: "mempool_state \<Rightarrow> mempool_state" where
  "EmbAllocInitializeBlockCategoriesInternal s =
     s\<lparr>categories := init_block_categories (settings s)
         (EMB_ALLOC_GET_MEMPOOL_FIRST_BLOCK_PTR (mempool s)) [0..<EMB_ALLOC_NUM_BLOCK_CATEGORIES]\<rparr>"

definition EmbAllocInitializeAuxDataInternal :: "int \<Rightarrow> mempool_state \<Rightarrow> mempool_state" where
  "EmbAllocInitializeAuxDataInternal init_mutex_rc s =
     ClearMempoolErrorInternal
       (s\<lparr>aux_data := (aux_data s)\<lparr>thread_sync_mutex_initialized :=
            (threadsafe (settings s) \<and> init_mutex_rc = 0)\<rparr>\<rparr>)"

text \<open>The body of the inner loop of \<^verbatim>\<open>EmbAllocInitializeDataBlocksInternal\<close>.\<close>

definition init_data_block :: "EmbAllocBlockCategory \<Rightarrow> nat \<Rightarrow> memory \<Rightarrow> memory" where
  "init_data_block c j m =
     (let current_block_address = start_address c +
            unat (of_nat j * EMB_ALLOC_BLOCK_TOTAL_ALIGN_SIZE (block_data_size c));
          m1 = store_bytes m current_block_address kEmbAllocBlockStart;
          m2 = store_bytes m1
                 (EMB_ALLOC_GET_END_PADDING_FROM_BLOCK current_block_address (block_data_size c))
                 kEmbAllocBlockEnd;
          m3 = wr_size_t m2 (EMB_ALLOC_GET_BLOCK_USE_COUNT_FROM_BLOCK current_block_address)
                 EMB_ALLOC_VALUE_NOT_SET
      in wr_size_t m3 (EMB_ALLOC_GET_MEMORY_USE_COUNT_FROM_BLOCK current_block_address)
           EMB_ALLOC_VALUE_NOT_SET)"

definition EmbAllocInitializeDataBlocksInternal :: "mempool_state \<Rightarrow> mempool_state" where
  "EmbAllocInitializeDataBlocksInternal s =
     s\<lparr>mem := fold (\<lambda>c m. fold (init_data_block c) [0..<unat (total_blocks c)] m)
                 (categories s) (mem s)\<rparr>"

text \<open>
  What the host gives to \<^verbatim>\<open>EmbAllocCreate\<close>: the address \<^verbatim>\<open>malloc\<close> returns (0 when it
  fails), the memory as it is before the call, and the return codes of the mutex
  functions.
\<close>

record host =
  malloc_result :: addr
  host_memory :: memory
  init_mutex_result :: int
  lock_mutex_result :: int
  unlock_mutex_result :: int

definition EmbAllocInitializeInternal ::
  "host \<Rightarrow> addr \<Rightarrow> size_t \<Rightarrow> EmbAllocMemPoolSettings \<Rightarrow> mempool_state" where
  "EmbAllocInitializeInternal h pool allocated_size st =
     (let m1 = memset (host_memory h) pool EMB_ALLOC_INIT_VALUE (unat allocated_size);
          m2 = store_bytes m1 pool kEmbAllocMempoolStart;
          m3 = store_bytes m2 (pool + unat allocated_size - EMB_ALLOC_ALIGN_AMOUNT)
                 kEmbAllocMempoolEnd;
          s0 = \<lparr>mempool = pool, settings = st, categories = [],
                aux_data = \<lparr>thread_sync_mutex_initialized = False,
                             last_error = kEmbAllocNoErr, last_error_message = ([], 0)\<rparr>,
                mem = m3, callback_calls = [],
                lock_mutex_rc = lock_mutex_result h,
                unlock_mutex_rc = unlock_mutex_result h\<rparr>
      in EmbAllocInitializeDataBlocksInternal
           (EmbAllocInitializeAuxDataInternal (init_mutex_result h)
              (EmbAllocInitializeBlockCategoriesInternal s0)))"

text \<open>
  \<^verbatim>\<open>EmbAllocCreate\<close>: \<open>None\<close> for a null settings pointer.  The result is the new pool
  (\<open>None\<close> for \<^verbatim>\<open>NULL\<close>) and the calls made to the error callback while no pool exists.
\<close>

definition EmbAllocCreate ::
  "host \<Rightarrow> EmbAllocMemPoolSettings option \<Rightarrow>
   mempool_state option \<times> (EmbAllocErrors \<times> error_message) list" where
  "EmbAllocCreate h settings_ptr =
     (case settings_ptr of
        None \<Rightarrow> (None, [])
      | Some st \<Rightarrow>
          (let (consistent_settings, sanitized_settings) = EmbAllocSanitizeSettingsInternal st;
               allocated_size = EmbAllocGetMemoryRequirementsInternal sanitized_settings;
               return_value = malloc_result h
           in if return_value \<noteq> 0 then
                (let s = EmbAllocInitializeInternal h return_value allocated_size
                           sanitized_settings
                 in (Some (if \<not> consistent_settings
                           then EmbAllocSetErrorInternal s kEmbAllocInconsistentSettings
                                  EMB_ALLOC_INCONSISTENT_SETTINGS 0
                           else s), []))
              else if error_callback_fn sanitized_settings \<noteq> 0 then
                (None, [(kEmbAllocNoMemory, (EMB_ALLOC_CANNOT_CREATE_MEMPOOL_ERROR, 0))])
              else (None, [])))"

definition EmbAllocGetLastErrorCode :: "mempool_state \<Rightarrow> EmbAllocErrors" where
  "EmbAllocGetLastErrorCode s =
     (if EMB_ALLOC_PTR_IS_MEMPOOL s then last_error (aux_data s) else kEmbAllocInvalidMempool)"

definition EmbAllocGetLastErrorMessage :: "mempool_state \<Rightarrow> error_message" where
  "EmbAllocGetLastErrorMessage s =
     (if EMB_ALLOC_PTR_IS_MEMPOOL s then last_error_message (aux_data s)
      else (EMB_ALLOC_NOT_A_MEMPOOL_ERROR, 0))"

section \<open>Allocation (emb\_alloc.c)\<close>

text \<open>
  The statements the allocator is built from.  A sentinel or counter check reports
  \<^verbatim>\<open>kEmbAllocOverflow\<close> at the offending location and leaves the memory alone; the payload
  check of \<^verbatim>\<open>EmbAllocMergeFreeBlocksInternal\<close> also refills the payload.

  From here on a \<^verbatim>\<open>size_t\<close> is added to a pointer with \<open>ptr_add\<close>; in particular
  \<^verbatim>\<open>EMB_ALLOC_GET_END_PADDING_FROM_BLOCK (block, size)\<close> is
  \<open>ptr_add (EMB_ALLOC_GET_PTR_FROM_BLOCK block) size\<close>.
\<close>

definition check_marker :: "byte list \<Rightarrow> addr \<Rightarrow> mempool_state \<Rightarrow> mempool_state" where
  "check_marker marker a s =
     (if bytes_at (mem s) a marker then s
      else EmbAllocSetErrorInternal s kEmbAllocOverflow EMB_ALLOC_OVERFLOW_ERROR a)"

definition check_not_set :: "addr \<Rightarrow> mempool_state \<Rightarrow> mempool_state" where
  "check_not_set a s =
     (if rd_size_t (mem s) a = EMB_ALLOC_VALUE_NOT_SET then s
      else EmbAllocSetErrorInternal s kEmbAllocOverflow EMB_ALLOC_OVERFLOW_ERROR a)"

definition check_payload :: "addr \<Rightarrow> size_t \<Rightarrow> mempool_state \<Rightarrow> mempool_state" where
  "check_payload data_pointer d s =
     (if full_overflow_checks (settings s) \<and>
         \<not> EmbAllocCheckBuffer (mem s) data_pointer d EMB_ALLOC_INIT_VALUE
      then (EmbAllocSetErrorInternal s kEmbAllocOverflow EMB_ALLOC_OVERFLOW_ERROR data_pointer)
           \<lparr>mem := memset (mem s) data_pointer EMB_ALLOC_INIT_VALUE (unat d)\<rparr>
      else s)"

text \<open>
  The two writes that end the loop body of \<^verbatim>\<open>EmbAllocMergeFreeBlocksInternal\<close>: the start
  control part of the block (kept, and reset, only for the first block under
  \<open>keep_start\<close>) and its end padding (kept only for the last block under \<open>keep_end\<close>).
\<close>

definition write_block_controls ::
  "bool \<Rightarrow> bool \<Rightarrow> addr \<Rightarrow> size_t \<Rightarrow> memory \<Rightarrow> memory" where
  "write_block_controls first_kept last_kept current_block d m =
     (let m6 = (if first_kept
                then wr_size_t
                       (wr_size_t (store_bytes m current_block kEmbAllocBlockStart)
                          (EMB_ALLOC_GET_BLOCK_USE_COUNT_FROM_BLOCK current_block)
                          EMB_ALLOC_VALUE_NOT_SET)
                       (EMB_ALLOC_GET_MEMORY_USE_COUNT_FROM_BLOCK current_block)
                       EMB_ALLOC_VALUE_NOT_SET
                else memset m current_block EMB_ALLOC_INIT_VALUE
                       EMB_ALLOC_BLOCK_START_CONTROL_ALIGN_SIZE)
      in if last_kept
         then store_bytes m6 (ptr_add (EMB_ALLOC_GET_PTR_FROM_BLOCK current_block) d)
                kEmbAllocBlockEnd
         else memset m6 (ptr_add (EMB_ALLOC_GET_PTR_FROM_BLOCK current_block) d)
                EMB_ALLOC_INIT_VALUE EMB_ALLOC_ALIGN_AMOUNT)"

text \<open>
  The body of the loop of \<^verbatim>\<open>EmbAllocMergeFreeBlocksInternal\<close> for the block \<open>i\<close> of the run:
  the checks of the start padding, the end padding, the use count and the data size,
  the payload check, then the two writes.
\<close>

definition merge_free_block ::
  "addr \<Rightarrow> size_t \<Rightarrow> bool \<Rightarrow> bool \<Rightarrow> size_t \<Rightarrow> nat \<Rightarrow> mempool_state \<Rightarrow> mempool_state" where
  "merge_free_block block blocks_count keep_start keep_end d i s =
     (let current_block = ptr_add block (of_nat i * EMB_ALLOC_BLOCK_TOTAL_ALIGN_SIZE d);
          s5 = check_payload (EMB_ALLOC_GET_PTR_FROM_BLOCK current_block) d
                 (check_not_set (EMB_ALLOC_GET_MEMORY_USE_COUNT_FROM_BLOCK current_block)
                    (check_not_set (EMB_ALLOC_GET_BLOCK_USE_COUNT_FROM_BLOCK current_block)
                       (check_marker kEmbAllocBlockEnd
                          (ptr_add (EMB_ALLOC_GET_PTR_FROM_BLOCK current_block) d)
                          (check_marker kEmbAllocBlockStart current_block s))))
      in s5\<lparr>mem := write_block_controls (keep_start \<and> i = 0)
                       (keep_end \<and> blocks_count - 1 = of_nat i) current_block d (mem s5)\<rparr>)"

definition EmbAllocMergeFreeBlocksInternal ::
  "mempool_state \<Rightarrow> nat \<Rightarrow> addr \<Rightarrow> size_t \<Rightarrow> bool \<Rightarrow> bool \<Rightarrow> mempool_state" where
  "EmbAllocMergeFreeBlocksInternal s ci block blocks_count keep_start keep_end =
     fold (merge_free_block block blocks_count keep_start keep_end
             (block_data_size (categories s ! ci)))
       [0..<unat blocks_count] s"

text \<open>
  The loop that moves \<^verbatim>\<open>first_free_address\<close> forward after an allocation: it steps
  \<open>block\<close> by one block while \<open>block\<close> is not past \<^verbatim>\<open>last_free_address\<close> and stops at
  the first block whose use count is unset.  The result is the new
  \<^verbatim>\<open>first_free_address\<close> (\<open>ffa\<close> when the loop ends without a find).
\<close>

partial_function (option) advance_first_free ::
  "memory \<Rightarrow> size_t \<Rightarrow> addr \<Rightarrow> addr \<Rightarrow> addr \<Rightarrow> addr option" where
  "advance_first_free m d lfa block ffa =
     (if block \<le> lfa then
        (let block' = ptr_add block (EMB_ALLOC_BLOCK_TOTAL_ALIGN_SIZE d)
         in if rd_size_t m (EMB_ALLOC_GET_BLOCK_USE_COUNT_FROM_BLOCK block') =
               EMB_ALLOC_VALUE_NOT_SET
            then Some block'
            else advance_first_free m d lfa block' ffa)
      else Some ffa)"

declare advance_first_free.simps [code]

text \<open>
  The three statements that follow the merge in both allocation functions: the optional
  zero fill of the requested bytes and the two counters.
\<close>

definition mark_allocated :: "addr \<Rightarrow> size_t \<Rightarrow> size_t \<Rightarrow> mempool_state \<Rightarrow> mempool_state" where
  "mark_allocated block blocks_count sz s =
     s\<lparr>mem := wr_size_t
                (wr_size_t
                   (if init_allocated_memory (settings s)
                    then memset (mem s) (EMB_ALLOC_GET_PTR_FROM_BLOCK block) 0 (unat sz)
                    else mem s)
                   (EMB_ALLOC_GET_BLOCK_USE_COUNT_FROM_BLOCK block) blocks_count)
                (EMB_ALLOC_GET_MEMORY_USE_COUNT_FROM_BLOCK block) sz\<rparr>"

text \<open>The safety net behind the cursor loop: both cursors are nulled when it found nothing.\<close>

definition after_advance :: "addr \<Rightarrow> addr \<Rightarrow> EmbAllocBlockCategory \<Rightarrow> EmbAllocBlockCategory" where
  "after_advance initial_block ffa c =
     (if ffa = initial_block
      then c\<lparr>first_free_address := 0, last_free_address := 0\<rparr>
      else c\<lparr>first_free_address := ffa\<rparr>)"

text \<open>
  \<^verbatim>\<open>EmbAllocMallocOneBlockInternal\<close> on the category \<open>ci\<close>.  The result is the returned
  pointer (0 for \<^verbatim>\<open>NULL\<close>) and the new state; \<open>None\<close> when the cursor loop does not end.
\<close>

definition EmbAllocMallocOneBlockInternal ::
  "mempool_state \<Rightarrow> nat \<Rightarrow> size_t \<Rightarrow> (addr \<times> mempool_state) option" where
  "EmbAllocMallocOneBlockInternal s ci sz =
     (let category = categories s ! ci;
          free_block = first_free_address category
      in if total_blocks category \<le> occupied_blocks category then
           Some (0, EmbAllocSetErrorInternal s kEmbAllocInconsistentBlocks
                      EMB_ALLOC_BLOCK_INCONSISTENCY_ERROR (category_ptr s ci))
         else if first_free_address category = 0 \<or> last_free_address category = 0 then
           Some (0, set_category
                      (EmbAllocSetErrorInternal s kEmbAllocInconsistentBlocks
                         EMB_ALLOC_BLOCK_INCONSISTENCY_ERROR (category_ptr s ci))
                      ci (saturate category))
         else
           (let s1 = mark_allocated free_block 1 sz
                       (EmbAllocMergeFreeBlocksInternal s ci free_block 1 True True);
                c1 = category\<lparr>occupied_blocks := occupied_blocks category + 1\<rparr>
            in if occupied_blocks c1 < total_blocks c1 then
                 do {
                   ffa \<leftarrow> advance_first_free (mem s1) (block_data_size c1)
                            (last_free_address c1) free_block (first_free_address c1);
                   Some (EMB_ALLOC_GET_PTR_FROM_BLOCK free_block,
                         set_category s1 ci (after_advance free_block ffa c1))
                 }
               else Some (EMB_ALLOC_GET_PTR_FROM_BLOCK free_block,
                          set_category s1 ci (saturate c1))))"

text \<open>
  The scan loop of \<^verbatim>\<open>EmbAllocCanAllocInMultipleBlocksInternal\<close>: \<open>verified_block\<close> walks the
  blocks up to \<^verbatim>\<open>last_free_address\<close>, \<open>block\<close> is the start of the current run of free
  blocks (0 when there is none) and \<open>counter\<close> its length.  The result is the returned
  flag and the final \<^verbatim>\<open>*block\<close>; \<open>None\<close> when the loop does not end or divides by zero.
\<close>

partial_function (option) scan_free_run ::
  "memory \<Rightarrow> size_t \<Rightarrow> addr \<Rightarrow> size_t \<Rightarrow> addr \<Rightarrow> addr \<Rightarrow> size_t \<Rightarrow> (bool \<times> addr) option" where
  "scan_free_run m d lfa blocks_count verified_block block counter =
     (if verified_block \<le> lfa then
        (if rd_size_t m (EMB_ALLOC_GET_BLOCK_USE_COUNT_FROM_BLOCK verified_block) =
            EMB_ALLOC_VALUE_NOT_SET
         then
           (let block' = (if block = 0 then verified_block else block);
                counter' = counter + 1
            in if counter' \<ge> blocks_count then Some (True, block')
               else scan_free_run m d lfa blocks_count
                      (ptr_add verified_block (EMB_ALLOC_BLOCK_TOTAL_ALIGN_SIZE d))
                      block' counter')
         else
           (if EMB_ALLOC_BLOCK_TOTAL_ALIGN_SIZE d = 0 then None
            else if (lfa - verified_block) div unat (EMB_ALLOC_BLOCK_TOTAL_ALIGN_SIZE d)
                    > unat blocks_count
            then Some (False, 0)
            else scan_free_run m d lfa blocks_count
                   (ptr_add verified_block (EMB_ALLOC_BLOCK_TOTAL_ALIGN_SIZE d)) 0 0))
      else Some (False, 0))"

declare scan_free_run.simps [code]

text \<open>The number of blocks a request of \<open>sz\<close> bytes needs in a category of data size \<open>d\<close>.\<close>

definition required_blocks_count :: "size_t \<Rightarrow> size_t \<Rightarrow> size_t" where
  "required_blocks_count sz d =
     EMB_ALLOC_BLOCK_TOTAL_ALIGN_SIZE sz div EMB_ALLOC_BLOCK_TOTAL_ALIGN_SIZE d +
     (if EMB_ALLOC_BLOCK_TOTAL_ALIGN_SIZE sz mod EMB_ALLOC_BLOCK_TOTAL_ALIGN_SIZE d \<noteq> 0
      then 1 else 0)"

text \<open>
  \<^verbatim>\<open>EmbAllocCanAllocInMultipleBlocksInternal\<close> on the category \<open>ci\<close>: the returned flag, the
  output parameters \<^verbatim>\<open>*block\<close> and \<^verbatim>\<open>*blocks_count\<close>, and the new state.
\<close>

definition EmbAllocCanAllocInMultipleBlocksInternal ::
  "mempool_state \<Rightarrow> nat \<Rightarrow> size_t \<Rightarrow> (bool \<times> addr \<times> size_t \<times> mempool_state) option" where
  "EmbAllocCanAllocInMultipleBlocksInternal s ci sz =
     (let category = categories s ! ci;
          verified_block = first_free_address category
      in if total_blocks category \<le> occupied_blocks category then
           Some (False, 0, 0,
                 EmbAllocSetErrorInternal s kEmbAllocInconsistentBlocks
                   EMB_ALLOC_BLOCK_INCONSISTENCY_ERROR (category_ptr s ci))
         else if first_free_address category = 0 \<or> last_free_address category = 0 then
           Some (False, 0, 0,
                 set_category
                   (EmbAllocSetErrorInternal s kEmbAllocInconsistentBlocks
                      EMB_ALLOC_BLOCK_INCONSISTENCY_ERROR (category_ptr s ci))
                   ci (saturate category))
         else if EMB_ALLOC_BLOCK_TOTAL_ALIGN_SIZE (block_data_size category) = 0 then None
         else
           (let blocks_count = required_blocks_count sz (block_data_size category)
            in if occupied_blocks category + blocks_count > total_blocks category
               then Some (False, 0, blocks_count, s)
               else do {
                 (found, block) \<leftarrow> scan_free_run (mem s) (block_data_size category)
                                     (last_free_address category) blocks_count
                                     verified_block 0 0;
                 Some (found, block, blocks_count, s)
               }))"

text \<open>
  \<^verbatim>\<open>EmbAllocMallocMultiBlocksInternal\<close> on the category \<open>ci\<close>, for the run of
  \<open>blocks_count\<close> blocks that starts at \<open>block\<close>.
\<close>

definition EmbAllocMallocMultiBlocksInternal ::
  "mempool_state \<Rightarrow> nat \<Rightarrow> size_t \<Rightarrow> addr \<Rightarrow> size_t \<Rightarrow> (addr \<times> mempool_state) option" where
  "EmbAllocMallocMultiBlocksInternal s ci sz block blocks_count =
     (let category = categories s ! ci
      in if total_blocks category \<le> occupied_blocks category then
           Some (0, EmbAllocSetErrorInternal s kEmbAllocInconsistentBlocks
                      EMB_ALLOC_BLOCK_INCONSISTENCY_ERROR (category_ptr s ci))
         else if block = 0 \<or> first_free_address category = 0 \<or>
                 last_free_address category = 0 then
           Some (0, set_category
                      (EmbAllocSetErrorInternal s kEmbAllocInconsistentBlocks
                         EMB_ALLOC_BLOCK_INCONSISTENCY_ERROR (category_ptr s ci))
                      ci (saturate category))
         else
           (let s1 = mark_allocated block blocks_count sz
                       (EmbAllocMergeFreeBlocksInternal s ci block blocks_count True True);
                c1 = category\<lparr>occupied_blocks := occupied_blocks category + blocks_count\<rparr>
            in if occupied_blocks c1 < total_blocks c1 then
                 (if first_free_address c1 = block then
                    do {
                      ffa \<leftarrow> advance_first_free (mem s1) (block_data_size c1)
                               (last_free_address c1)
                               (ptr_add block ((blocks_count - 1) *
                                   EMB_ALLOC_BLOCK_TOTAL_ALIGN_SIZE (block_data_size c1)))
                               (first_free_address c1);
                      Some (EMB_ALLOC_GET_PTR_FROM_BLOCK block,
                            set_category s1 ci (after_advance block ffa c1))
                    }
                  else Some (EMB_ALLOC_GET_PTR_FROM_BLOCK block, set_category s1 ci c1))
               else Some (EMB_ALLOC_GET_PTR_FROM_BLOCK block,
                          set_category s1 ci (saturate c1))))"

text \<open>
  The descending loop of \<^verbatim>\<open>EmbAllocMallocInternal\<close> over the categories 7 to 1.  It ends
  with a pointer returned from inside the loop, or with the loop's variables: the two
  candidate indices, the output parameters of the last multi-block check, and the loop
  counter \<open>i\<close>.
\<close>

datatype scan_outcome =
    Returned addr mempool_state
  | Candidates nat nat addr size_t nat mempool_state

fun scan_categories ::
  "nat \<Rightarrow> mempool_state \<Rightarrow> size_t \<Rightarrow> nat \<Rightarrow> addr \<Rightarrow> size_t \<Rightarrow> scan_outcome option" where
  "scan_categories 0 s sz large_size_block_idx multi_block_alloc_address multi_block_alloc_count =
     Some (Candidates large_size_block_idx EMB_ALLOC_NUM_BLOCK_CATEGORIES
             multi_block_alloc_address multi_block_alloc_count 0 s)"
| "scan_categories (Suc j) s sz large_size_block_idx multi_block_alloc_address
     multi_block_alloc_count =
     (let i = Suc j in
      if occupied_blocks (categories s ! i) < total_blocks (categories s ! i) then
        (if EMB_ALLOC_CAN_ALLOC_IN_A_BLOCK (categories s ! i) sz then
           (if block_data_size (categories s ! (i - 1)) < sz then
              do {
                (p, s') \<leftarrow> EmbAllocMallocOneBlockInternal s i sz;
                Some (Returned p s')
              }
            else scan_categories j s sz i multi_block_alloc_address multi_block_alloc_count)
         else
           do {
             (found, block, blocks_count, s') \<leftarrow>
               EmbAllocCanAllocInMultipleBlocksInternal s i sz;
             if found then Some (Candidates large_size_block_idx i block blocks_count i s')
             else scan_categories j s' sz large_size_block_idx block blocks_count
           })
      else scan_categories j s sz large_size_block_idx multi_block_alloc_address
             multi_block_alloc_count)"

text \<open>
  What the code does between the loop and the decision: when no small category was
  found, it tries a run in category 0 and, on success, sets
  \<^verbatim>\<open>small_size_block_idx = i\<close>.
\<close>

definition try_first_category ::
  "scan_outcome \<Rightarrow> size_t \<Rightarrow> scan_outcome option" where
  "try_first_category r sz =
     (case r of
        Returned p s \<Rightarrow> Some (Returned p s)
      | Candidates large_idx small_idx maddr mcount i s \<Rightarrow>
          (if small_idx = EMB_ALLOC_NUM_BLOCK_CATEGORIES \<and>
              occupied_blocks (categories s ! 0) < total_blocks (categories s ! 0)
           then do {
             (found, block, blocks_count, s') \<leftarrow>
               EmbAllocCanAllocInMultipleBlocksInternal s 0 sz;
             Some (Candidates large_idx (if found then i else small_idx)
                     block blocks_count i s')
           }
           else Some (Candidates large_idx small_idx maddr mcount i s)))"

text \<open>The candidates the decision of \<^verbatim>\<open>EmbAllocMallocInternal\<close> starts from.\<close>

definition malloc_candidates :: "mempool_state \<Rightarrow> size_t \<Rightarrow> scan_outcome option" where
  "malloc_candidates s sz =
     do {
       r \<leftarrow> scan_categories (EMB_ALLOC_NUM_BLOCK_CATEGORIES - 1) s sz
              EMB_ALLOC_NUM_BLOCK_CATEGORIES 0 0;
       try_first_category r sz
     }"

definition EmbAllocMallocInternal ::
  "mempool_state \<Rightarrow> size_t \<Rightarrow> (addr \<times> mempool_state) option" where
  "EmbAllocMallocInternal s sz =
     (if EMB_ALLOC_CAN_ALLOC_IN_A_BLOCK (categories s ! 0) sz
      then EmbAllocMallocOneBlockInternal s 0 sz
      else
        do {
          r \<leftarrow> malloc_candidates s sz;
          (case r of
             Returned p s' \<Rightarrow> Some (p, s')
           | Candidates large_size_block_idx small_size_block_idx
               multi_block_alloc_address multi_block_alloc_count i s' \<Rightarrow>
               (if large_size_block_idx \<noteq> EMB_ALLOC_NUM_BLOCK_CATEGORIES \<and>
                      small_size_block_idx \<noteq> EMB_ALLOC_NUM_BLOCK_CATEGORIES then
                     (let cl = categories s' ! large_size_block_idx;
                          cs = categories s' ! small_size_block_idx
                      in if block_data_size cl *
                              (total_blocks cl - occupied_blocks cl - 1) >
                            block_data_size cs *
                              (total_blocks cs - occupied_blocks cs - multi_block_alloc_count)
                         then EmbAllocMallocOneBlockInternal s' large_size_block_idx sz
                         else EmbAllocMallocMultiBlocksInternal s' small_size_block_idx sz
                                multi_block_alloc_address multi_block_alloc_count)
                   else if large_size_block_idx \<noteq> EMB_ALLOC_NUM_BLOCK_CATEGORIES then
                     EmbAllocMallocOneBlockInternal s' large_size_block_idx sz
                   else if small_size_block_idx \<noteq> EMB_ALLOC_NUM_BLOCK_CATEGORIES then
                     EmbAllocMallocMultiBlocksInternal s' small_size_block_idx sz
                       multi_block_alloc_address multi_block_alloc_count
                   else
                     Some (0, EmbAllocSetErrorInternal s' kEmbAllocNoMemory
                                EMB_ALLOC_NOT_ENOUGH_MEMORY_ERROR 0)))
        })"

definition EmbAllocMalloc :: "mempool_state \<Rightarrow> size_t \<Rightarrow> (addr \<times> mempool_state) option" where
  "EmbAllocMalloc s sz =
     (if EMB_ALLOC_PTR_IS_MEMPOOL s then
        (let s1 = ClearMempoolErrorInternal s
         in if sz \<noteq> 0 then
              do {
                (return_value, s2) \<leftarrow> EmbAllocMallocInternal (lock_mutex s1) sz;
                Some (return_value, unlock_mutex s2)
              }
            else Some (0, s1))
      else Some (0, s))"

section \<open>Free (emb\_alloc.c)\<close>

text \<open>
  The sentinel checks of \<^verbatim>\<open>EmbAllocGetCategoryForPtr\<close> report the overflow and write the
  sentinel back.
\<close>

definition repair_marker :: "byte list \<Rightarrow> addr \<Rightarrow> mempool_state \<Rightarrow> mempool_state" where
  "repair_marker marker a s =
     (if bytes_at (mem s) a marker then s
      else (EmbAllocSetErrorInternal s kEmbAllocOverflow EMB_ALLOC_OVERFLOW_ERROR a)
           \<lparr>mem := store_bytes (mem s) a marker\<rparr>)"

text \<open>The first category whose address range holds \<open>block\<close>.\<close>

definition find_category :: "EmbAllocBlockCategory list \<Rightarrow> addr \<Rightarrow> nat option" where
  "find_category cs block =
     find (\<lambda>i. start_address (cs ! i) \<le> block \<and> last_address (cs ! i) \<ge> block)
       [0..<EMB_ALLOC_NUM_BLOCK_CATEGORIES]"

text \<open>The payload size of a run of \<open>used\<close> blocks of data size \<open>d\<close>.\<close>

definition run_data_size :: "size_t \<Rightarrow> size_t \<Rightarrow> size_t" where
  "run_data_size d used = d + (used - 1) * EMB_ALLOC_BLOCK_TOTAL_ALIGN_SIZE d"

text \<open>
  \<^verbatim>\<open>EmbAllocGetCategoryForPtr\<close>: the index of the category that holds the block of \<open>ptr\<close>
  (\<open>None\<close> for \<^verbatim>\<open>NULL\<close>), and the new state.
\<close>

definition EmbAllocGetCategoryForPtr :: "mempool_state \<Rightarrow> addr \<Rightarrow> nat option \<times> mempool_state" where
  "EmbAllocGetCategoryForPtr s ptr =
     (let block = EMB_ALLOC_GET_BLOCK_FROM_PTR ptr;
          used_block_count = EMB_ALLOC_GET_BLOCK_USE_COUNT_FROM_BLOCK block;
          data_size = EMB_ALLOC_GET_MEMORY_USE_COUNT_FROM_BLOCK block;
          s1 = repair_marker kEmbAllocBlockStart block s
      in if rd_size_t (mem s1) used_block_count = EMB_ALLOC_VALUE_NOT_SET then
           (None, EmbAllocSetErrorInternal
                    (s1\<lparr>mem := wr_size_t (mem s1) data_size EMB_ALLOC_VALUE_NOT_SET\<rparr>)
                    kEmbAllocOverflow EMB_ALLOC_OVERFLOW_ERROR used_block_count)
         else if rd_size_t (mem s1) data_size = EMB_ALLOC_VALUE_NOT_SET then
           (None, EmbAllocSetErrorInternal
                    (s1\<lparr>mem := wr_size_t (mem s1) used_block_count EMB_ALLOC_VALUE_NOT_SET\<rparr>)
                    kEmbAllocOverflow EMB_ALLOC_OVERFLOW_ERROR data_size)
         else
           (case find_category (categories s1) block of
              None \<Rightarrow> (None, s1)
            | Some i \<Rightarrow>
                (Some i,
                 repair_marker kEmbAllocBlockEnd
                   (ptr_add (EMB_ALLOC_GET_PTR_FROM_BLOCK block)
                      (run_data_size (block_data_size (categories s1 ! i))
                         (rd_size_t (mem s1) used_block_count)))
                   s1)))"

text \<open>The body of the loop of \<^verbatim>\<open>EmbAllocFreeBlockInternal\<close> that restores the block \<open>i\<close>.\<close>

definition restore_freed_block :: "addr \<Rightarrow> size_t \<Rightarrow> nat \<Rightarrow> memory \<Rightarrow> memory" where
  "restore_freed_block block d i m =
     (let freed_block = ptr_add block (of_nat i * EMB_ALLOC_BLOCK_TOTAL_ALIGN_SIZE d);
          m1 = store_bytes m freed_block kEmbAllocBlockStart;
          m2 = store_bytes m1 (ptr_add (EMB_ALLOC_GET_PTR_FROM_BLOCK freed_block) d)
                 kEmbAllocBlockEnd;
          m3 = wr_size_t m2 (EMB_ALLOC_GET_BLOCK_USE_COUNT_FROM_BLOCK freed_block)
                 EMB_ALLOC_VALUE_NOT_SET
      in wr_size_t m3 (EMB_ALLOC_GET_MEMORY_USE_COUNT_FROM_BLOCK freed_block)
           EMB_ALLOC_VALUE_NOT_SET)"

text \<open>
  The check of the unused tail of a run under \<open>full_overflow_checks\<close>, as
  \<^verbatim>\<open>EmbAllocFreeBlockInternal\<close> does it: the overflow is reported and nothing is written.
\<close>

definition check_unused_tail :: "addr \<Rightarrow> size_t \<Rightarrow> size_t \<Rightarrow> mempool_state \<Rightarrow> mempool_state" where
  "check_unused_tail ptr data_size block_data_size' s =
     (if full_overflow_checks (settings s) \<and>
         \<not> EmbAllocCheckBuffer (mem s) (ptr_add ptr data_size)
             (block_data_size' - data_size) EMB_ALLOC_INIT_VALUE
      then EmbAllocSetErrorInternal s kEmbAllocOverflow EMB_ALLOC_OVERFLOW_ERROR
             (ptr_add ptr data_size)
      else s)"

text \<open>The relaxation of the two free cursors at the end of \<^verbatim>\<open>EmbAllocFreeBlockInternal\<close>.\<close>

definition relax_cursors :: "addr \<Rightarrow> EmbAllocBlockCategory \<Rightarrow> EmbAllocBlockCategory" where
  "relax_cursors block c =
     (let c2 = (if first_free_address c = 0 \<or> first_free_address c > block
                then c\<lparr>first_free_address := block\<rparr> else c)
      in if last_free_address c2 = 0 \<or> last_free_address c2 < block
         then c2\<lparr>last_free_address := block\<rparr> else c2)"

definition EmbAllocFreeBlockInternal :: "mempool_state \<Rightarrow> nat \<Rightarrow> addr \<Rightarrow> mempool_state" where
  "EmbAllocFreeBlockInternal s ci ptr =
     (let category = categories s ! ci;
          block = EMB_ALLOC_GET_BLOCK_FROM_PTR ptr;
          used_block_count =
            rd_size_t (mem s) (EMB_ALLOC_GET_BLOCK_USE_COUNT_FROM_BLOCK block);
          data_size = rd_size_t (mem s) (EMB_ALLOC_GET_MEMORY_USE_COUNT_FROM_BLOCK block);
          block_data_size' = run_data_size (block_data_size category) used_block_count;
          s1 = check_unused_tail ptr data_size block_data_size' s;
          m3 = fold (restore_freed_block block (block_data_size category))
                 [0..<unat used_block_count]
                 (memset (mem s1) ptr EMB_ALLOC_INIT_VALUE (unat block_data_size'))
      in set_category (s1\<lparr>mem := m3\<rparr>) ci
           (relax_cursors block
              (category\<lparr>occupied_blocks := occupied_blocks category - used_block_count\<rparr>)))"

definition EmbAllocFreeInternal :: "mempool_state \<Rightarrow> addr \<Rightarrow> mempool_state" where
  "EmbAllocFreeInternal s ptr =
     (case EmbAllocGetCategoryForPtr s ptr of
        (Some ci, s1) \<Rightarrow> EmbAllocFreeBlockInternal s1 ci ptr
      | (None, s1) \<Rightarrow>
          EmbAllocSetErrorInternal s1 kEmbAllocPointerParamError
            EMB_ALLOC_INVALID_POINTER_PARAM_ERROR 0)"

definition EmbAllocFree :: "mempool_state \<Rightarrow> addr \<Rightarrow> mempool_state" where
  "EmbAllocFree s ptr =
     (if EMB_ALLOC_PTR_IS_MEMPOOL s then
        (let s1 = ClearMempoolErrorInternal s
         in if ptr \<noteq> 0 then
              (let s2 = lock_mutex s1;
                   s3 = (if EMB_ALLOC_PTR_IS_BLOCK (mem s2) ptr
                         then EmbAllocFreeInternal s2 ptr
                         else EmbAllocSetErrorInternal s2 kEmbAllocPointerParamError
                                EMB_ALLOC_INVALID_POINTER_PARAM_ERROR 0)
               in unlock_mutex s3)
            else s1)
      else s)"

section \<open>Realloc (emb\_alloc.c)\<close>

text \<open>
  The number of extra blocks \<^verbatim>\<open>EmbAllocReallocBlockInternal\<close> asks for, and its test that
  the blocks behind the run are free.
\<close>

definition required_extra_blocks :: "size_t \<Rightarrow> size_t \<Rightarrow> size_t \<Rightarrow> size_t" where
  "required_extra_blocks sz block_data_size' d =
     (sz - block_data_size') div EMB_ALLOC_BLOCK_TOTAL_ALIGN_SIZE d +
     (if (sz - block_data_size') mod EMB_ALLOC_BLOCK_TOTAL_ALIGN_SIZE d \<noteq> 0 then 1 else 0)"

definition can_realloc_continously ::
  "memory \<Rightarrow> addr \<Rightarrow> size_t \<Rightarrow> size_t \<Rightarrow> size_t \<Rightarrow> bool" where
  "can_realloc_continously m block used d extra =
     list_all
       (\<lambda>i. rd_size_t m (EMB_ALLOC_GET_BLOCK_USE_COUNT_FROM_BLOCK
                (ptr_add block ((used + of_nat i) * EMB_ALLOC_BLOCK_TOTAL_ALIGN_SIZE d))) =
             EMB_ALLOC_VALUE_NOT_SET)
       [0..<unat extra]"

text \<open>The in-place extension of the run of \<open>ptr\<close> by \<open>extra\<close> blocks.\<close>

definition realloc_extend ::
  "mempool_state \<Rightarrow> nat \<Rightarrow> addr \<Rightarrow> size_t \<Rightarrow> size_t \<Rightarrow> size_t \<Rightarrow> mempool_state" where
  "realloc_extend s ci ptr sz block_data_size' extra =
     (let block = EMB_ALLOC_GET_BLOCK_FROM_PTR ptr;
          used_block_count = EMB_ALLOC_GET_BLOCK_USE_COUNT_FROM_BLOCK block;
          data_size = EMB_ALLOC_GET_MEMORY_USE_COUNT_FROM_BLOCK block;
          d = block_data_size (categories s ! ci);
          block_end_padding = ptr_add (EMB_ALLOC_GET_PTR_FROM_BLOCK block) block_data_size';
          s1 = EmbAllocMergeFreeBlocksInternal s ci
                 (ptr_add block (rd_size_t (mem s) used_block_count *
                                 EMB_ALLOC_BLOCK_TOTAL_ALIGN_SIZE d))
                 extra False True;
          m2 = memset (mem s1) block_end_padding EMB_ALLOC_INIT_VALUE EMB_ALLOC_ALIGN_AMOUNT;
          m3 = (if init_allocated_memory (settings s1)
                then memset m2 (ptr_add ptr (rd_size_t m2 data_size)) 0
                       (unat (sz - rd_size_t m2 data_size))
                else m2);
          m4 = wr_size_t m3 used_block_count (rd_size_t m3 used_block_count + extra);
          m5 = wr_size_t m4 data_size sz;
          category = categories s1 ! ci;
          c1 = category\<lparr>occupied_blocks := occupied_blocks category + extra\<rparr>;
          c2 = (if occupied_blocks c1 \<ge> total_blocks c1 then saturate c1 else c1)
      in set_category (s1\<lparr>mem := m5\<rparr>) ci c2)"

text \<open>Malloc, copy and free: the last resort of \<^verbatim>\<open>EmbAllocReallocBlockInternal\<close>.\<close>

definition realloc_relocate ::
  "mempool_state \<Rightarrow> nat \<Rightarrow> addr \<Rightarrow> size_t \<Rightarrow> (addr \<times> mempool_state) option" where
  "realloc_relocate s ci ptr sz =
     do {
       (return_value, s1) \<leftarrow> EmbAllocMallocInternal s sz;
       let data_size = rd_size_t (mem s1)
             (EMB_ALLOC_GET_MEMORY_USE_COUNT_FROM_BLOCK (EMB_ALLOC_GET_BLOCK_FROM_PTR ptr));
       let s2 = (if return_value \<noteq> 0
                 then s1\<lparr>mem := memcpy (mem s1) return_value ptr (unat data_size)\<rparr>
                 else s1);
       Some (return_value, EmbAllocFreeBlockInternal s2 ci ptr)
     }"

text \<open>
  The check of the unused tail of a run at the entry of
  \<^verbatim>\<open>EmbAllocReallocBlockInternal\<close>: the overflow is reported and the tail is refilled.
\<close>

definition repair_unused_tail :: "addr \<Rightarrow> size_t \<Rightarrow> size_t \<Rightarrow> mempool_state \<Rightarrow> mempool_state" where
  "repair_unused_tail ptr data_size block_data_size' s =
     (if full_overflow_checks (settings s) \<and>
         \<not> EmbAllocCheckBuffer (mem s) (ptr_add ptr data_size)
             (block_data_size' - data_size) EMB_ALLOC_INIT_VALUE
      then (EmbAllocSetErrorInternal s kEmbAllocOverflow EMB_ALLOC_OVERFLOW_ERROR
              (ptr_add ptr data_size))
           \<lparr>mem := memset (mem s) (ptr_add ptr data_size) EMB_ALLOC_INIT_VALUE
                     (unat (block_data_size' - data_size))\<rparr>
      else s)"

text \<open>
  The two branches of \<^verbatim>\<open>EmbAllocReallocBlockInternal\<close> that only rewrite the data size: the
  shrink refills the bytes given up, the growth inside the run zeroes the bytes gained
  under \<open>init_allocated_memory\<close>.
\<close>

definition realloc_shrink :: "addr \<Rightarrow> size_t \<Rightarrow> mempool_state \<Rightarrow> mempool_state" where
  "realloc_shrink ptr sz s =
     (let data_size = EMB_ALLOC_GET_MEMORY_USE_COUNT_FROM_BLOCK (EMB_ALLOC_GET_BLOCK_FROM_PTR ptr)
      in s\<lparr>mem := wr_size_t
                     (memset (mem s) (ptr_add ptr sz) EMB_ALLOC_INIT_VALUE
                        (unat (rd_size_t (mem s) data_size - sz)))
                     data_size sz\<rparr>)"

definition realloc_grow_inside :: "addr \<Rightarrow> size_t \<Rightarrow> mempool_state \<Rightarrow> mempool_state" where
  "realloc_grow_inside ptr sz s =
     (let data_size = EMB_ALLOC_GET_MEMORY_USE_COUNT_FROM_BLOCK (EMB_ALLOC_GET_BLOCK_FROM_PTR ptr)
      in s\<lparr>mem := wr_size_t
                     (if init_allocated_memory (settings s)
                      then memset (mem s) (ptr_add ptr (rd_size_t (mem s) data_size)) 0
                             (unat (sz - rd_size_t (mem s) data_size))
                      else mem s)
                     data_size sz\<rparr>)"

definition EmbAllocReallocBlockInternal ::
  "mempool_state \<Rightarrow> nat \<Rightarrow> addr \<Rightarrow> size_t \<Rightarrow> (addr \<times> mempool_state) option" where
  "EmbAllocReallocBlockInternal s ci ptr sz =
     (let category = categories s ! ci;
          block = EMB_ALLOC_GET_BLOCK_FROM_PTR ptr;
          used_block_count = EMB_ALLOC_GET_BLOCK_USE_COUNT_FROM_BLOCK block;
          data_size = EMB_ALLOC_GET_MEMORY_USE_COUNT_FROM_BLOCK block;
          d = block_data_size category;
          block_data_size' = run_data_size d (rd_size_t (mem s) used_block_count);
          s1 = repair_unused_tail ptr (rd_size_t (mem s) data_size) block_data_size' s
      in if sz = rd_size_t (mem s1) data_size then Some (ptr, s1)
         else if sz < rd_size_t (mem s1) data_size then Some (ptr, realloc_shrink ptr sz s1)
         else if sz < block_data_size' then Some (ptr, realloc_grow_inside ptr sz s1)
         else if EMB_ALLOC_BLOCK_TOTAL_ALIGN_SIZE d = 0 then None
         else
           (let extra = required_extra_blocks sz block_data_size' d
            in if extra \<le> total_blocks category - occupied_blocks category \<and>
                  can_realloc_continously (mem s1) block
                    (rd_size_t (mem s1) used_block_count) d extra
               then Some (ptr, realloc_extend s1 ci ptr sz block_data_size' extra)
               else realloc_relocate s1 ci ptr sz))"

definition EmbAllocReallocInternal ::
  "mempool_state \<Rightarrow> addr \<Rightarrow> size_t \<Rightarrow> (addr \<times> mempool_state) option" where
  "EmbAllocReallocInternal s ptr sz =
     (case EmbAllocGetCategoryForPtr s ptr of
        (Some ci, s1) \<Rightarrow> EmbAllocReallocBlockInternal s1 ci ptr sz
      | (None, s1) \<Rightarrow>
          Some (0, EmbAllocSetErrorInternal s1 kEmbAllocPointerParamError
                     EMB_ALLOC_INVALID_POINTER_PARAM_ERROR 0))"

definition EmbAllocRealloc ::
  "mempool_state \<Rightarrow> addr \<Rightarrow> size_t \<Rightarrow> (addr \<times> mempool_state) option" where
  "EmbAllocRealloc s ptr sz =
     (if EMB_ALLOC_PTR_IS_MEMPOOL s then
        (let s1 = ClearMempoolErrorInternal s
         in if \<not> (ptr = 0 \<and> sz = 0) then
              do {
                let s2 = lock_mutex s1;
                (return_value, s3) \<leftarrow>
                  (if ptr = 0 then
                     (if sz \<noteq> 0 then EmbAllocMallocInternal s2 sz else Some (0, s2))
                   else if EMB_ALLOC_PTR_IS_BLOCK (mem s2) ptr then
                     (if sz = 0 then Some (0, EmbAllocFreeInternal s2 ptr)
                      else EmbAllocReallocInternal s2 ptr sz)
                   else Some (0, EmbAllocSetErrorInternal s2 kEmbAllocPointerParamError
                                   EMB_ALLOC_INVALID_POINTER_PARAM_ERROR 0));
                Some (return_value, unlock_mutex s3)
              }
            else Some (0, s1))
      else Some (0, s))"

section \<open>Reference quantities and example pools\<close>

text \<open>
  The sum of the per-class capacities and the number of blocks of a settings record, as
  natural numbers (no wrap-around), for comparison with what the code computes in
  \<^verbatim>\<open>size_t\<close>.
\<close>

definition sum_of_class_capacities :: "EmbAllocMemPoolSettings \<Rightarrow> nat" where
  "sum_of_class_capacities st =
     unat (num_32_bytes_blocks st) * 32 + unat (num_64_bytes_blocks st) * 64 +
     unat (num_128_bytes_blocks st) * 128 + unat (num_256_bytes_blocks st) * 256 +
     unat (num_512_bytes_blocks st) * 512 + unat (num_1k_bytes_blocks st) * 1024 +
     unat (num_2k_bytes_blocks st) * 2048 + unat (num_4k_bytes_blocks st) * 4096"

definition number_of_blocks :: "EmbAllocMemPoolSettings \<Rightarrow> nat" where
  "number_of_blocks st =
     unat (num_32_bytes_blocks st) + unat (num_64_bytes_blocks st) +
     unat (num_128_bytes_blocks st) + unat (num_256_bytes_blocks st) +
     unat (num_512_bytes_blocks st) + unat (num_1k_bytes_blocks st) +
     unat (num_2k_bytes_blocks st) + unat (num_4k_bytes_blocks st)"

text \<open>
  A host whose \<^verbatim>\<open>malloc\<close> returns the address 4096 and whose mutex never fails, and
  settings without blocks, with an error callback, without the optional checks.
\<close>

definition example_host :: host where
  "example_host = \<lparr>malloc_result = 4096, host_memory = (\<lambda>_. 0), init_mutex_result = 0,
     lock_mutex_result = 0, unlock_mutex_result = 0\<rparr>"

definition no_blocks :: EmbAllocMemPoolSettings where
  "no_blocks = \<lparr>total_size = 0, num_32_bytes_blocks = 0, num_64_bytes_blocks = 0,
     num_128_bytes_blocks = 0, num_256_bytes_blocks = 0, num_512_bytes_blocks = 0,
     num_1k_bytes_blocks = 0, num_2k_bytes_blocks = 0, num_4k_bytes_blocks = 0,
     error_callback_fn = 1, threadsafe = False, full_overflow_checks = False,
     init_allocated_memory = False, error_dump_file_name = []\<rparr>"

text \<open>The pool \<^verbatim>\<open>EmbAllocCreate\<close> makes on the example host.\<close>

definition created :: "EmbAllocMemPoolSettings \<Rightarrow> mempool_state" where
  "created st = the (fst (EmbAllocCreate example_host (Some st)))"

text \<open>
  The state of a free block (invariant I2 of the pool): the start sentinel, both counters
  unset, the payload filled with the fill value, the end sentinel.  \<open>free_image d\<close> is the
  byte a free block of data size \<open>d\<close> holds at each offset.
\<close>

definition free_block :: "memory \<Rightarrow> addr \<Rightarrow> size_t \<Rightarrow> bool" where
  "free_block m b d =
     (bytes_at m b kEmbAllocBlockStart \<and>
      rd_size_t m (b + 16) = EMB_ALLOC_VALUE_NOT_SET \<and>
      rd_size_t m (b + 24) = EMB_ALLOC_VALUE_NOT_SET \<and>
      (\<forall>i<unat d. m (b + 32 + i) = EMB_ALLOC_INIT_VALUE) \<and>
      bytes_at m (b + 32 + unat d) kEmbAllocBlockEnd)"

definition free_image :: "size_t \<Rightarrow> nat \<Rightarrow> byte" where
  "free_image d i =
     (if i < 16 then kEmbAllocBlockStart ! i
      else if i < 32 then 0xFF
      else if i < 32 + unat d then EMB_ALLOC_INIT_VALUE
      else kEmbAllocBlockEnd ! (i - (32 + unat d)))"

text \<open>
  The pool of five 32-byte blocks that \<^verbatim>\<open>EmbAllocCreate\<close> makes on the example host: the pool
  starts at 4096, its blocks at 5344, 5424, 5504, 5584 and 5664 (80 bytes apart), and the
  payload of the block at \<open>b\<close> is at \<open>b + 32\<close>.  \<open>first_category\<close> is its category of 32-byte
  blocks as created, \<open>empty_category d\<close> a category without blocks.
\<close>

definition five_blocks :: EmbAllocMemPoolSettings where
  "five_blocks = no_blocks\<lparr>num_32_bytes_blocks := 5, total_size := 160\<rparr>"

definition fresh_pool :: mempool_state where
  "fresh_pool = created five_blocks"

definition empty_category :: "size_t \<Rightarrow> EmbAllocBlockCategory" where
  "empty_category d = \<lparr>start_address = 0, first_free_address = 0, last_free_address = 0,
     last_address = 0, block_data_size = d, total_blocks = 0, occupied_blocks = 0\<rparr>"

definition first_category :: EmbAllocBlockCategory where
  "first_category = \<lparr>start_address = 5344, first_free_address = 5344,
     last_free_address = 5664, last_address = 5664, block_data_size = 32,
     total_blocks = 5, occupied_blocks = 0\<rparr>"

text \<open>The pool a call of \<^verbatim>\<open>EmbAllocMalloc\<close> or \<^verbatim>\<open>EmbAllocRealloc\<close> leaves.\<close>

definition after_malloc :: "mempool_state \<Rightarrow> size_t \<Rightarrow> mempool_state" where
  "after_malloc s n = snd (the (EmbAllocMalloc s n))"

definition after_realloc :: "mempool_state \<Rightarrow> addr \<Rightarrow> size_t \<Rightarrow> mempool_state" where
  "after_realloc s p n = snd (the (EmbAllocRealloc s p n))"

text \<open>
  The new pool after two calls \<^verbatim>\<open>Malloc (32)\<close> (the blocks 0 and 1 are live), and after the
  first of the two pointers is freed again (block 0 free, block 1 live, blocks 2 to 4
  free).
\<close>

definition two_live_blocks :: mempool_state where
  "two_live_blocks = after_malloc (after_malloc fresh_pool 32) 32"

definition fragmented_pool :: mempool_state where
  "fragmented_pool = EmbAllocFree two_live_blocks 5376"

section \<open>Verification\<close>

subsection \<open>Bytes and words in memory\<close>

lemma upt8: "[0..<8] = [0,1,2,3,4,5,6,7]"
  by (simp add: upt_rec)

lemma oct_cases:
  "n < 64 \<Longrightarrow> n < 8 \<or> (8 \<le> n \<and> n < 16) \<or> (16 \<le> n \<and> n < 24) \<or> (24 \<le> n \<and> n < 32) \<or>
     (32 \<le> n \<and> n < 40) \<or> (40 \<le> n \<and> n < 48) \<or> (48 \<le> n \<and> n < 56) \<or> (56 \<le> (n::nat) \<and> n < 64)"
  by linarith

lemma bytes_size_t_inverse: "bytes_size_t (size_t_bytes v) = v"
  apply (simp add: size_t_bytes_def bytes_size_t_def upt8)
  apply (rule bit_eqI)
  subgoal for n
    apply (simp add: bit_simps cong: conj_cong)
    apply (cases "bit v n"; simp)
    apply (drule oct_cases)
    apply (elim disjE conjE; simp add: less_diff_conv2)
    done
  done

lemma bit_byte_high: "8 \<le> n \<Longrightarrow> \<not> bit (b::byte) n"
  by (simp add: bit_word_iff_drop_bit_and not_less)

lemma size_t_bytes_inverse8:
  "size_t_bytes (bytes_size_t [b0,b1,b2,b3,b4,b5,b6,b7]) = [b0,b1,b2,b3,b4,b5,b6,b7]"
  apply (simp add: size_t_bytes_def bytes_size_t_def upt8)
  apply (intro conjI; rule bit_eqI; simp add: bit_simps bit_byte_high)
  done

lemma length_size_t_bytes [simp]: "length (size_t_bytes v) = 8"
  by (simp add: size_t_bytes_def)

lemma store_bytes_apply:
  "store_bytes m a bs x = (if a \<le> x \<and> x < a + length bs then bs ! (x - a) else m x)"
proof (induction bs arbitrary: m a)
  case Nil
  show ?case by auto
next
  case (Cons b bs)
  have IH: "store_bytes (m(a := b)) (Suc a) bs x =
      (if Suc a \<le> x \<and> x < Suc a + length bs then bs ! (x - Suc a) else (m(a := b)) x)"
    by (rule Cons.IH)
  show ?case
  proof (cases "x = a")
    case True
    then show ?thesis using IH by simp
  next
    case False
    then show ?thesis
      using IH by (auto simp: nth_Cons' Suc_diff_le)
  qed
qed

lemma bytes_at_iff: "bytes_at m a bs = (\<forall>i<length bs. m (a + i) = bs ! i)"
proof (induction bs arbitrary: a)
  case Nil
  show ?case by simp
next
  case (Cons b bs)
  have "(\<forall>i<Suc (length bs). m (a + i) = (b # bs) ! i) =
        (m a = b \<and> (\<forall>i<length bs. m (Suc a + i) = bs ! i))"
    (is "?L = ?R")
  proof
    assume L: ?L
    have "m a = b" using L [rule_format, of 0] by simp
    moreover have "m (Suc a + i) = bs ! i" if "i < length bs" for i
      using L [rule_format, of "Suc i"] that by simp
    ultimately show ?R by blast
  next
    assume R: ?R
    show ?L
    proof (intro allI impI)
      fix i assume "i < Suc (length bs)"
      then show "m (a + i) = (b # bs) ! i"
        using R by (cases i) auto
    qed
  qed
  then show ?case by (simp add: Cons.IH)
qed


lemma rd_size_t_cong:
  assumes "\<And>i. i < 8 \<Longrightarrow> m (a + i) = m' (a + i)"
  shows "rd_size_t m a = rd_size_t m' a"
proof -
  have "map m [a..<a + 8] = map m' [a..<a + 8]"
    by (rule nth_equalityI) (simp_all add: assms)
  then show ?thesis unfolding rd_size_t_def by (rule arg_cong)
qed

lemma map_store_bytes_same: "map (store_bytes m a bs) [a..<a + length bs] = bs"
  by (rule nth_equalityI) (simp_all add: store_bytes_apply)

lemma rd_wr_same [simp]: "rd_size_t (wr_size_t m a v) a = v"
proof -
  have "map (store_bytes m a (size_t_bytes v)) [a..<a + 8] = size_t_bytes v"
    using map_store_bytes_same [of m a "size_t_bytes v"] by simp
  then have "bytes_size_t (map (store_bytes m a (size_t_bytes v)) [a..<a + 8]) =
      bytes_size_t (size_t_bytes v)"
    by (rule arg_cong)
  then show ?thesis
    unfolding rd_size_t_def wr_size_t_def by (simp only: bytes_size_t_inverse)
qed

lemma wr_size_t_apply:
  "wr_size_t m a v x = (if a \<le> x \<and> x < a + 8 then size_t_bytes v ! (x - a) else m x)"
  by (simp add: wr_size_t_def store_bytes_apply)

lemma rd_wr_other:
  "a + 8 \<le> b \<or> b + 8 \<le> a \<Longrightarrow> rd_size_t (wr_size_t m b v) a = rd_size_t m a"
  by (rule rd_size_t_cong) (auto simp: wr_size_t_apply)

lemma rd_store_other:
  "a + 8 \<le> b \<or> b + length bs \<le> a \<Longrightarrow> rd_size_t (store_bytes m b bs) a = rd_size_t m a"
  by (rule rd_size_t_cong) (auto simp: store_bytes_apply)

lemma rd_memset_other:
  "a + 8 \<le> b \<or> b + n \<le> a \<Longrightarrow> rd_size_t (memset m b v n) a = rd_size_t m a"
  by (rule rd_size_t_cong) (auto simp: memset_def)

lemma rd_memset_inside:
  "b \<le> a \<Longrightarrow> a + 8 \<le> b + n \<Longrightarrow> rd_size_t (memset m b v n) a = bytes_size_t (replicate 8 v)"
proof -
  assume "b \<le> a" "a + 8 \<le> b + n"
  then have "map (memset m b v n) [a..<a + 8] = replicate 8 v"
    by (intro nth_equalityI) (auto simp: memset_def)
  then show ?thesis unfolding rd_size_t_def by (rule arg_cong)
qed

lemma rd_memcpy_other:
  "a + 8 \<le> b \<or> b + n \<le> a \<Longrightarrow> rd_size_t (memcpy m b src n) a = rd_size_t m a"
  by (rule rd_size_t_cong) (auto simp: memcpy_def)

lemma bytes_at_cong:
  "(\<And>i. i < length bs \<Longrightarrow> m (a + i) = m' (a + i)) \<Longrightarrow> bytes_at m a bs = bytes_at m' a bs"
  by (simp add: bytes_at_iff)

lemma bytes_at_store_same [simp]: "bytes_at (store_bytes m a bs) a bs"
  by (simp add: bytes_at_iff store_bytes_apply)

lemma bytes_at_store_other:
  "a + length bs \<le> b \<or> b + length cs \<le> a \<Longrightarrow>
   bytes_at (store_bytes m b cs) a bs = bytes_at m a bs"
  by (rule bytes_at_cong) (auto simp: store_bytes_apply)

lemma bytes_at_wr_other:
  "a + length bs \<le> b \<or> b + 8 \<le> a \<Longrightarrow> bytes_at (wr_size_t m b v) a bs = bytes_at m a bs"
  by (rule bytes_at_cong) (auto simp: wr_size_t_apply)

lemma bytes_at_memset_other:
  "a + length bs \<le> b \<or> b + n \<le> a \<Longrightarrow> bytes_at (memset m b v n) a bs = bytes_at m a bs"
  by (rule bytes_at_cong) (auto simp: memset_def)

lemma bytes_at_memset_inside:
  "b \<le> a \<Longrightarrow> a + length bs \<le> b + n \<Longrightarrow>
   bytes_at (memset m b v n) a bs = list_all (\<lambda>x. x = v) bs"
  by (auto simp: bytes_at_iff memset_def list_all_length)

lemma bytes_at_memcpy_other:
  "a + length bs \<le> b \<or> b + n \<le> a \<Longrightarrow> bytes_at (memcpy m b src n) a bs = bytes_at m a bs"
  by (rule bytes_at_cong) (auto simp: memcpy_def)

lemma replicate8: "replicate 8 v = [v, v, v, v, v, v, v, v]"
  by (simp add: numeral_eq_Suc)

lemma poison_word: "bytes_size_t (replicate 8 0xAC) = 0xACACACACACACACAC"
  by (simp add: replicate8 bytes_size_t_def)

subsection \<open>The overflow verifier\<close>

lemma memcmp_eq_shift:
  "memcmp_eq m a (Suc a) n = (\<forall>i\<le>n. m (a + i) = m a)"
proof (induction n arbitrary: a)
  case 0
  show ?case by simp
next
  case (Suc n)
  have "(\<forall>i\<le>Suc n. m (a + i) = m a) = (m (Suc a) = m a \<and> (\<forall>i\<le>n. m (Suc a + i) = m (Suc a)))"
    (is "?L = ?R")
  proof
    assume L: ?L
    have 1: "m (Suc a) = m a" using L [rule_format, of 1] by simp
    have "m (Suc a + i) = m (Suc a)" if "i \<le> n" for i
      using L [rule_format, of "Suc i"] that 1 by simp
    with 1 show ?R by blast
  next
    assume R: ?R
    show ?L
    proof (intro allI impI)
      fix i assume "i \<le> Suc n"
      show "m (a + i) = m a"
      proof (cases i)
        case 0 then show ?thesis by simp
      next
        case (Suc j)
        with \<open>i \<le> Suc n\<close> R show ?thesis by auto
      qed
    qed
  qed
  then show ?case
    using Suc.IH [of "Suc a"] by auto
qed

lemma list_all_map_upt:
  "list_all P (map m [a..<a + k]) = (\<forall>i<k. P (m (a + i)))"
proof -
  have "(\<forall>x\<in>{a..<a + k}. P (m x)) = (\<forall>i<k. P (m (a + i)))"
  proof
    assume L: "\<forall>x\<in>{a..<a + k}. P (m x)"
    show "\<forall>i<k. P (m (a + i))" using L by auto
  next
    assume R: "\<forall>i<k. P (m (a + i))"
    show "\<forall>x\<in>{a..<a + k}. P (m x)"
    proof
      fix x assume "x \<in> {a..<a + k}"
      then have "x - a < k" "a + (x - a) = x" by auto
      with R show "P (m x)" by metis
    qed
  qed
  then show ?thesis by (simp add: list_all_iff)
qed

text \<open>
  C9, as the code has it: the verifier answers true exactly when the buffer is null, or
  the size is zero, or the first byte is the reference value and every byte of the
  buffer equals the first one.  Only the null buffer and the zero size are accepted
  without looking at the bytes.
\<close>

theorem C9_check_buffer_iff:
  "EmbAllocCheckBuffer m buffer sz reference_value =
     (buffer = 0 \<or> sz = 0 \<or>
      (m buffer = reference_value \<and>
       list_all (\<lambda>b. b = m buffer) (map m [buffer..<buffer + unat sz])))"
proof (cases "buffer = 0 \<or> sz = 0")
  case True
  then show ?thesis by (auto simp: EmbAllocCheckBuffer_def)
next
  case False
  then have "sz \<noteq> 0" by simp
  then have "unat sz \<noteq> 0" by (simp add: unat_eq_zero)
  moreover have "unat (sz - 1) = unat sz - 1"
    using \<open>sz \<noteq> 0\<close> by (simp add: unat_minus_one)
  ultimately have "(i \<le> unat (sz - 1)) = (i < unat sz)" for i
    by arith
  then have "(\<forall>i\<le>unat (sz - 1). m (buffer + i) = m buffer) =
      (\<forall>i<unat sz. m (buffer + i) = m buffer)"
    by simp
  with False show ?thesis
    by (simp add: EmbAllocCheckBuffer_def memcmp_eq_shift list_all_map_upt)
qed

text \<open>
  C9, as the claim states it, fails: a one-byte buffer (size 1, so "size at most 1")
  whose byte is not the reference value is rejected.
\<close>

theorem C9_size_one_counterexample:
  "\<not> EmbAllocCheckBuffer (\<lambda>_. 0) 100 1 0xAC"
  by (simp add: EmbAllocCheckBuffer_def)

subsection \<open>Lifecycle\<close>

lemma marker_lengths [simp]:
  "length kEmbAllocBlockStart = 16" "length kEmbAllocBlockEnd = 16"
  "length kEmbAllocMempoolStart = 16" "length kEmbAllocMempoolEnd = 16"
  by (simp_all add: kEmbAllocBlockStart_def kEmbAllocBlockEnd_def
      kEmbAllocMempoolStart_def kEmbAllocMempoolEnd_def)

lemma init_data_block_frame:
  "x < start_address c \<Longrightarrow> init_data_block c j m x = m x"
  by (simp add: init_data_block_def Let_def wr_size_t_apply store_bytes_apply)

lemma fold_init_data_block_frame:
  "x < start_address c \<Longrightarrow> fold (init_data_block c) js m x = m x"
  by (induction js arbitrary: m) (simp_all add: init_data_block_frame)

lemma fold_categories_frame:
  "(\<And>c. c \<in> set cs \<Longrightarrow> total_blocks c \<noteq> 0 \<Longrightarrow> x < start_address c) \<Longrightarrow>
   fold (\<lambda>c m. fold (init_data_block c) [0..<unat (total_blocks c)] m) cs m x = m x"
proof (induction cs arbitrary: m)
  case Nil
  show ?case by simp
next
  case (Cons c cs)
  have "fold (init_data_block c) [0..<unat (total_blocks c)] m x = m x"
  proof (cases "total_blocks c = 0")
    case True
    then show ?thesis by simp
  next
    case False
    then show ?thesis using Cons.prems [of c] by (simp add: fold_init_data_block_frame)
  qed
  then show ?case using Cons by simp
qed

lemma init_block_categories_start:
  "c \<in> set (init_block_categories st cur is) \<Longrightarrow> total_blocks c \<noteq> 0 \<Longrightarrow>
   cur \<le> start_address c"
proof (induction "is" arbitrary: cur)
  case Nil
  then show ?case by simp
next
  case (Cons i rest)
  obtain d n where dn: "EmbAllocGetCategorySettingsInternal st i = (d, n)"
    by (cases "EmbAllocGetCategorySettingsInternal st i")
  from Cons.prems show ?case
    using Cons.IH [of "cur + unat (n * EMB_ALLOC_BLOCK_TOTAL_ALIGN_SIZE d)"]
    by (auto simp: dn Let_def split: if_splits)
qed


lemma unat_sum8:
  fixes a b c d e f g h :: size_t
  assumes "unat a * 32 + unat b * 64 + unat c * 128 + unat d * 256 + unat e * 512 +
           unat f * 1024 + unat g * 2048 + unat h * 4096 < 2 ^ 64"
  shows "unat (a * 32 + b * 64 + c * 128 + d * 256 + e * 512 + f * 1024 + g * 2048 + h * 4096) =
         unat a * 32 + unat b * 64 + unat c * 128 + unat d * 256 + unat e * 512 +
           unat f * 1024 + unat g * 2048 + unat h * 4096"
proof -
  have "unat (a * 32 + b * 64 + c * 128 + d * 256 + e * 512 + f * 1024 + g * 2048 + h * 4096) =
        (unat a * 32 + unat b * 64 + unat c * 128 + unat d * 256 + unat e * 512 +
           unat f * 1024 + unat g * 2048 + unat h * 4096) mod 2 ^ 64"
    by (simp add: unat_word_ariths mod_simps)
  with assms show ?thesis by simp
qed

lemma sanitized_total_size:
  assumes "sum_of_class_capacities st < 2 ^ 64"
  shows "unat (total_size (snd (EmbAllocSanitizeSettingsInternal st))) = sum_of_class_capacities st"
  using assms unat_sum8 [of "num_32_bytes_blocks st" "num_64_bytes_blocks st"
      "num_128_bytes_blocks st" "num_256_bytes_blocks st" "num_512_bytes_blocks st"
      "num_1k_bytes_blocks st" "num_2k_bytes_blocks st" "num_4k_bytes_blocks st"]
  by (simp add: EmbAllocSanitizeSettingsInternal_def Let_def sum_of_class_capacities_def)

lemma memory_requirements_ge:
  assumes "1264 + 48 * number_of_blocks st + unat (total_size st) < 2 ^ 64"
  shows "unat (EmbAllocGetMemoryRequirementsInternal st) =
         1264 + 48 * number_of_blocks st + unat (total_size st)"
proof -
  have "unat (EmbAllocGetMemoryRequirementsInternal st) =
        (1264 + 48 * number_of_blocks st + unat (total_size st)) mod 2 ^ 64"
    by (simp add: EmbAllocGetMemoryRequirementsInternal_def Let_def number_of_blocks_def
        unat_word_ariths mod_simps)
  with assms show ?thesis by simp
qed

lemma init_mem_frame:
  assumes "x < cur"
  shows "fold (\<lambda>c m. fold (init_data_block c) [0..<unat (total_blocks c)] m)
           (init_block_categories st cur is) m x = m x"
proof (rule fold_categories_frame)
  fix c assume "c \<in> set (init_block_categories st cur is)" "total_blocks c \<noteq> 0"
  then have "cur \<le> start_address c" by (rule init_block_categories_start)
  with assms show "x < start_address c" by simp
qed

lemma mem_EmbAllocInitializeInternal:
  "mem (EmbAllocInitializeInternal h pool allocated_size st) =
     fold (\<lambda>c m. fold (init_data_block c) [0..<unat (total_blocks c)] m)
       (init_block_categories st (EMB_ALLOC_GET_MEMPOOL_FIRST_BLOCK_PTR pool) [0..<8])
       (store_bytes
          (store_bytes (memset (host_memory h) pool 0xAC (unat allocated_size))
             pool kEmbAllocMempoolStart)
          (pool + unat allocated_size - 16) kEmbAllocMempoolEnd)"
  by (simp add: EmbAllocInitializeInternal_def Let_def
      EmbAllocInitializeDataBlocksInternal_def EmbAllocInitializeAuxDataInternal_def
      EmbAllocInitializeBlockCategoriesInternal_def ClearMempoolErrorInternal_def)

lemma mempool_EmbAllocInitializeInternal [simp]:
  "mempool (EmbAllocInitializeInternal h pool allocated_size st) = pool"
  "settings (EmbAllocInitializeInternal h pool allocated_size st) = st"
  "last_error (aux_data (EmbAllocInitializeInternal h pool allocated_size st)) = kEmbAllocNoErr"
  "last_error_message (aux_data (EmbAllocInitializeInternal h pool allocated_size st)) = ([], 0)"
  "callback_calls (EmbAllocInitializeInternal h pool allocated_size st) = []"
  by (simp_all add: EmbAllocInitializeInternal_def Let_def
      EmbAllocInitializeDataBlocksInternal_def EmbAllocInitializeAuxDataInternal_def
      EmbAllocInitializeBlockCategoriesInternal_def ClearMempoolErrorInternal_def)

lemma create_is_mempool:
  assumes "32 \<le> unat allocated_size"
  shows "EMB_ALLOC_PTR_IS_MEMPOOL (EmbAllocInitializeInternal h pool allocated_size st)"
proof -
  let ?m3 = "store_bytes
          (store_bytes (memset (host_memory h) pool 0xAC (unat allocated_size))
             pool kEmbAllocMempoolStart)
          (pool + unat allocated_size - 16) kEmbAllocMempoolEnd"
  have "bytes_at ?m3 pool kEmbAllocMempoolStart"
    using assms by (simp add: bytes_at_store_other)
  moreover have "bytes_at (mem (EmbAllocInitializeInternal h pool allocated_size st))
      pool kEmbAllocMempoolStart = bytes_at ?m3 pool kEmbAllocMempoolStart"
  proof (rule bytes_at_cong)
    fix i assume "i < length kEmbAllocMempoolStart"
    then have "pool + i < EMB_ALLOC_GET_MEMPOOL_FIRST_BLOCK_PTR pool" by simp
    then show "mem (EmbAllocInitializeInternal h pool allocated_size st) (pool + i) = ?m3 (pool + i)"
      unfolding mem_EmbAllocInitializeInternal by (rule init_mem_frame)
  qed
  ultimately show ?thesis
    by (simp add: EMB_ALLOC_PTR_IS_MEMPOOL_def)
qed

lemma is_mempool_SetError [simp]:
  "EMB_ALLOC_PTR_IS_MEMPOOL (EmbAllocSetErrorInternal s e msg loc) = EMB_ALLOC_PTR_IS_MEMPOOL s"
  by (simp add: EMB_ALLOC_PTR_IS_MEMPOOL_def EmbAllocSetErrorInternal_def Let_def)

lemma SetError_fields [simp]:
  "last_error (aux_data (EmbAllocSetErrorInternal s e msg loc)) = e"
  "last_error_message (aux_data (EmbAllocSetErrorInternal s e msg loc)) = (msg, loc)"
  "mem (EmbAllocSetErrorInternal s e msg loc) = mem s"
  "categories (EmbAllocSetErrorInternal s e msg loc) = categories s"
  "settings (EmbAllocSetErrorInternal s e msg loc) = settings s"
  "mempool (EmbAllocSetErrorInternal s e msg loc) = mempool s"
  "lock_mutex_rc (EmbAllocSetErrorInternal s e msg loc) = lock_mutex_rc s"
  "unlock_mutex_rc (EmbAllocSetErrorInternal s e msg loc) = unlock_mutex_rc s"
  "thread_sync_mutex_initialized (aux_data (EmbAllocSetErrorInternal s e msg loc)) =
     thread_sync_mutex_initialized (aux_data s)"
  "callback_calls (EmbAllocSetErrorInternal s e msg loc) =
     (if error_callback_fn (settings s) \<noteq> 0 then callback_calls s @ [(e, (msg, loc))]
      else callback_calls s)"
  by (simp_all add: EmbAllocSetErrorInternal_def Let_def)

lemma create_result:
  assumes "malloc_result h \<noteq> 0"
    and "1264 + 48 * number_of_blocks st + sum_of_class_capacities st < 2 ^ 64"
  defines "st' \<equiv> st\<lparr>total_size := of_nat (sum_of_class_capacities st)\<rparr>"
  defines "s0 \<equiv> EmbAllocInitializeInternal h (malloc_result h)
                   (EmbAllocGetMemoryRequirementsInternal st') st'"
  shows "fst (EmbAllocCreate h (Some st)) =
           Some (if unat (total_size st) = sum_of_class_capacities st then s0
                 else EmbAllocSetErrorInternal s0 kEmbAllocInconsistentSettings
                        EMB_ALLOC_INCONSISTENT_SETTINGS 0)"
    and "EMB_ALLOC_PTR_IS_MEMPOOL s0"
    and "unat (total_size st') = sum_of_class_capacities st"
proof -
  obtain ok st2 where san: "EmbAllocSanitizeSettingsInternal st = (ok, st2)"
    by (cases "EmbAllocSanitizeSettingsInternal st")
  have cap: "sum_of_class_capacities st < 2 ^ 64" using assms(2) by simp
  have ts: "unat (total_size st2) = sum_of_class_capacities st"
    using sanitized_total_size [OF cap] san by simp
  then have ts': "total_size st2 = of_nat (sum_of_class_capacities st)"
    using cap by (simp add: word_unat_eq_iff unat_of_nat)
  have st2: "st2 = st'"
    using san ts' by (auto simp: EmbAllocSanitizeSettingsInternal_def Let_def st'_def)
  have ok: "ok = (unat (total_size st) = sum_of_class_capacities st)"
    using san ts by (auto simp: EmbAllocSanitizeSettingsInternal_def Let_def word_unat_eq_iff)
  show ts3: "unat (total_size st') = sum_of_class_capacities st"
    using ts st2 by simp
  have nb: "number_of_blocks st' = number_of_blocks st"
    by (simp add: st'_def number_of_blocks_def)
  have "unat (EmbAllocGetMemoryRequirementsInternal st') =
      1264 + 48 * number_of_blocks st' + unat (total_size st')"
    by (rule memory_requirements_ge) (use assms(2) ts3 nb in simp)
  then have big: "32 \<le> unat (EmbAllocGetMemoryRequirementsInternal st')" by simp
  show "EMB_ALLOC_PTR_IS_MEMPOOL s0" unfolding s0_def using big by (rule create_is_mempool)
  show "fst (EmbAllocCreate h (Some st)) =
           Some (if unat (total_size st) = sum_of_class_capacities st then s0
                 else EmbAllocSetErrorInternal s0 kEmbAllocInconsistentSettings
                        EMB_ALLOC_INCONSISTENT_SETTINGS 0)"
    using assms(1) by (simp add: EmbAllocCreate_def san Let_def ok st2 s0_def)
qed




lemma ClearMempoolError_fields [simp]:
  "last_error (aux_data (ClearMempoolErrorInternal s)) = kEmbAllocNoErr"
  "last_error_message (aux_data (ClearMempoolErrorInternal s)) = ([], 0)"
  "mem (ClearMempoolErrorInternal s) = mem s"
  "categories (ClearMempoolErrorInternal s) = categories s"
  "settings (ClearMempoolErrorInternal s) = settings s"
  "mempool (ClearMempoolErrorInternal s) = mempool s"
  "callback_calls (ClearMempoolErrorInternal s) = callback_calls s"
  "lock_mutex_rc (ClearMempoolErrorInternal s) = lock_mutex_rc s"
  "unlock_mutex_rc (ClearMempoolErrorInternal s) = unlock_mutex_rc s"
  "thread_sync_mutex_initialized (aux_data (ClearMempoolErrorInternal s)) =
     thread_sync_mutex_initialized (aux_data s)"
  by (simp_all add: ClearMempoolErrorInternal_def)

lemma is_mempool_Clear [simp]:
  "EMB_ALLOC_PTR_IS_MEMPOOL (ClearMempoolErrorInternal s) = EMB_ALLOC_PTR_IS_MEMPOOL s"
  by (simp add: EMB_ALLOC_PTR_IS_MEMPOOL_def)

text \<open>
  C10: on a valid pool \<^verbatim>\<open>EmbAllocMalloc\<close> with size 0 returns \<^verbatim>\<open>NULL\<close>; afterwards the last
  error is \<^verbatim>\<open>kEmbAllocNoErr\<close> with an empty message, the callback has not been called, and
  the categories (cursors and counters), the memory (block metadata) and the settings
  are as before.
\<close>

theorem C10_malloc_zero:
  assumes "EMB_ALLOC_PTR_IS_MEMPOOL s"
  shows "\<exists>s'. EmbAllocMalloc s 0 = Some (0, s') \<and>
           EmbAllocGetLastErrorCode s' = kEmbAllocNoErr \<and>
           EmbAllocGetLastErrorMessage s' = ([], 0) \<and>
           callback_calls s' = callback_calls s \<and>
           categories s' = categories s \<and>
           mem s' = mem s \<and>
           settings s' = settings s"
  using assms
  by (simp add: EmbAllocMalloc_def EmbAllocGetLastErrorCode_def EmbAllocGetLastErrorMessage_def)

lemma created_eq:
  assumes "1264 + 48 * number_of_blocks st + sum_of_class_capacities st < 2 ^ 64"
    and "unat (total_size st) = sum_of_class_capacities st"
  shows "created st = EmbAllocInitializeInternal example_host 4096
                        (EmbAllocGetMemoryRequirementsInternal st) st"
    and "EMB_ALLOC_PTR_IS_MEMPOOL (created st)"
proof -
  have m: "malloc_result example_host \<noteq> 0" by (simp add: example_host_def)
  have st: "st\<lparr>total_size := of_nat (sum_of_class_capacities st)\<rparr> = st"
    using assms(2) [symmetric] by simp
  show "created st = EmbAllocInitializeInternal example_host 4096
                        (EmbAllocGetMemoryRequirementsInternal st) st"
    using create_result(1) [OF m assms(1)] assms(2)
    by (simp add: created_def st example_host_def)
  then show "EMB_ALLOC_PTR_IS_MEMPOOL (created st)"
    using create_result(2) [OF m assms(1)] by (simp add: st example_host_def)
qed

text \<open>C10 at a freshly created pool of four 32-byte blocks.\<close>

theorem C10_witness:
  "EmbAllocMalloc (created (no_blocks\<lparr>num_32_bytes_blocks := 4, total_size := 128\<rparr>)) 0 =
     Some (0, created (no_blocks\<lparr>num_32_bytes_blocks := 4, total_size := 128\<rparr>))"
proof -
  let ?st = "no_blocks\<lparr>num_32_bytes_blocks := 4, total_size := 128\<rparr>"
  have b: "1264 + 48 * number_of_blocks ?st + sum_of_class_capacities ?st < 2 ^ 64"
    and c: "unat (total_size ?st) = sum_of_class_capacities ?st"
    by (simp_all add: no_blocks_def number_of_blocks_def sum_of_class_capacities_def)
  have mp: "EMB_ALLOC_PTR_IS_MEMPOOL (created ?st)" using b c by (rule created_eq)
  have "ClearMempoolErrorInternal (created ?st) = created ?st"
    unfolding created_eq(1) [OF b c]
    by (simp add: ClearMempoolErrorInternal_def EmbAllocInitializeInternal_def Let_def
      EmbAllocInitializeDataBlocksInternal_def EmbAllocInitializeAuxDataInternal_def
      EmbAllocInitializeBlockCategoriesInternal_def)
  then show ?thesis
    using C10_malloc_zero [OF mp] by (simp add: EmbAllocMalloc_def mp)
qed

lemma store_bytes_id: "bytes_at m a bs \<Longrightarrow> store_bytes m a bs = m"
proof (rule ext)
  fix x assume b: "bytes_at m a bs"
  show "store_bytes m a bs x = m x"
  proof (cases "a \<le> x \<and> x < a + length bs")
    case True
    then have "x - a < length bs" "a + (x - a) = x" by auto
    with b [unfolded bytes_at_iff, rule_format, of "x - a"] have "m x = bs ! (x - a)" by simp
    with True show ?thesis by (simp add: store_bytes_apply)
  next
    case False
    then show ?thesis by (auto simp: store_bytes_apply)
  qed
qed

lemma map_upt8: "map m [a..<a + 8] = [m a, m (a+1), m (a+2), m (a+3), m (a+4), m (a+5), m (a+6), m (a+7)]"
  by (simp add: upt_rec [of a] upt_rec [of "Suc a"] upt_rec [of "Suc (Suc a)"] numeral_eq_Suc)

lemma size_t_bytes_rd: "size_t_bytes (rd_size_t m a) = map m [a..<a + 8]"
  by (simp add: map_upt8 rd_size_t_def size_t_bytes_inverse8)

lemma wr_size_t_id: "rd_size_t m a = v \<Longrightarrow> wr_size_t m a v = m"
proof (rule ext)
  fix x assume "rd_size_t m a = v"
  then have "size_t_bytes v = map m [a..<a + 8]" using size_t_bytes_rd by blast
  then show "wr_size_t m a v x = m x"
    by (auto simp: wr_size_t_apply)
qed

lemma size_t_bytes_not_set: "size_t_bytes (- 1) = replicate 8 0xFF"
proof -
  have "bytes_size_t [0xFF, 0xFF, 0xFF, 0xFF, 0xFF, 0xFF, 0xFF, 0xFF] = - 1"
    by (simp add: bytes_size_t_def)
  then have "size_t_bytes (- 1) =
      size_t_bytes (bytes_size_t [0xFF, 0xFF, 0xFF, 0xFF, 0xFF, 0xFF, 0xFF, 0xFF])"
    by simp
  then show ?thesis by (simp only: size_t_bytes_inverse8 replicate8)
qed

lemma rd_not_set_iff: "(rd_size_t m a = - 1) = (\<forall>i<8. m (a + i) = 0xFF)"
proof
  assume "rd_size_t m a = - 1"
  then have "map m [a..<a + 8] = replicate 8 0xFF"
    using size_t_bytes_rd [of m a] by (simp add: size_t_bytes_not_set)
  then have "\<forall>i<8. (map m [a..<a + 8]) ! i = 0xFF" by simp
  then show "\<forall>i<8. m (a + i) = 0xFF" by simp
next
  assume a: "\<forall>i<8. m (a + i) = 0xFF"
  have "map m [a..<a + 8] = replicate 8 0xFF"
    by (rule nth_equalityI) (simp_all add: a)
  then have "rd_size_t m a = bytes_size_t (size_t_bytes (- 1))"
    unfolding rd_size_t_def size_t_bytes_not_set by (rule arg_cong)
  then show "rd_size_t m a = - 1" by (simp only: bytes_size_t_inverse)
qed

lemma check_buffer_all:
  "(\<forall>i<unat sz. m (buffer + i) = v) \<Longrightarrow> EmbAllocCheckBuffer m buffer sz v"
proof -
  assume a: "\<forall>i<unat sz. m (buffer + i) = v"
  show ?thesis
  proof (cases "buffer = 0 \<or> sz = 0")
    case True
    then show ?thesis by (auto simp: EmbAllocCheckBuffer_def)
  next
    case False
    then have "unat sz \<noteq> 0" by (simp add: unat_eq_zero)
    then have nz: "0 < unat sz" by simp
    moreover have "unat (sz - 1) = unat sz - 1"
      using False by (simp add: unat_minus_one)
    ultimately have "(i \<le> unat (sz - 1)) = (i < unat sz)" for i by arith
    moreover have "m buffer = v" using a [rule_format, of 0] nz by simp
    ultimately show ?thesis
      using a False by (simp add: EmbAllocCheckBuffer_def memcmp_eq_shift)
  qed
qed

lemma free_block_image:
  "free_block m b d = (\<forall>i<48 + unat d. m (b + i) = free_image d i)"
proof
  assume f: "free_block m b d"
  show "\<forall>i<48 + unat d. m (b + i) = free_image d i"
  proof (intro allI impI)
    fix i assume i: "i < 48 + unat d"
    consider "i < 16" | "16 \<le> i" "i < 24" | "24 \<le> i" "i < 32" | "32 \<le> i" "i < 32 + unat d"
      | "32 + unat d \<le> i" by linarith
    then show "m (b + i) = free_image d i"
    proof cases
      case 1
      then show ?thesis using f by (simp add: free_block_def bytes_at_iff free_image_def)
    next
      case 2
      from f have A: "\<forall>j<8. m (b + 16 + j) = 0xFF" by (simp add: free_block_def rd_not_set_iff)
      have "m (b + 16 + (i - 16)) = 0xFF" using A [rule_format, of "i - 16"] 2 by simp
      then show ?thesis using 2 by (simp add: free_image_def)
    next
      case 3
      from f have A: "\<forall>j<8. m (b + 24 + j) = 0xFF" by (simp add: free_block_def rd_not_set_iff)
      have "m (b + 24 + (i - 24)) = 0xFF" using A [rule_format, of "i - 24"] 3 by simp
      then show ?thesis using 3 by (simp add: free_image_def)
    next
      case 4
      from f have A: "\<forall>j<unat d. m (b + 32 + j) = 0xAC" by (simp add: free_block_def)
      have "m (b + 32 + (i - 32)) = 0xAC" using A [rule_format, of "i - 32"] 4 by simp
      then show ?thesis using 4 by (simp add: free_image_def)
    next
      case 5
      from f have A: "\<forall>j<16. m (b + 32 + unat d + j) = kEmbAllocBlockEnd ! j"
        by (simp add: free_block_def bytes_at_iff)
      have "i - (32 + unat d) < 16" using 5 i by simp
      then have "m (b + 32 + unat d + (i - (32 + unat d))) = kEmbAllocBlockEnd ! (i - (32 + unat d))"
        using A [rule_format, of "i - (32 + unat d)"] by simp
      then show ?thesis using 5 by (simp add: free_image_def)
    qed
  qed
next
  assume a: "\<forall>i<48 + unat d. m (b + i) = free_image d i"
  have 1: "bytes_at m b kEmbAllocBlockStart"
    using a by (simp add: bytes_at_iff free_image_def)
  have 2: "rd_size_t m (b + 16) = - 1"
    unfolding rd_not_set_iff
  proof (intro allI impI)
    fix j :: nat assume "j < 8"
    then show "m (b + 16 + j) = 0xFF" using a [rule_format, of "16 + j"]
      by (simp add: free_image_def add.assoc)
  qed
  have 3: "rd_size_t m (b + 24) = - 1"
    unfolding rd_not_set_iff
  proof (intro allI impI)
    fix j :: nat assume "j < 8"
    then show "m (b + 24 + j) = 0xFF" using a [rule_format, of "24 + j"]
      by (simp add: free_image_def add.assoc)
  qed
  have 4: "\<forall>i<unat d. m (b + 32 + i) = 0xAC"
  proof (intro allI impI)
    fix j assume "j < unat d"
    then show "m (b + 32 + j) = 0xAC" using a [rule_format, of "32 + j"]
      by (simp add: free_image_def add.assoc)
  qed
  have 5: "bytes_at m (b + 32 + unat d) kEmbAllocBlockEnd"
    unfolding bytes_at_iff
  proof (intro allI impI)
    fix j assume "j < length kEmbAllocBlockEnd"
    then show "m (b + 32 + unat d + j) = kEmbAllocBlockEnd ! j"
      using a [rule_format, of "32 + unat d + j"]
      by (simp add: free_image_def add.assoc)
  qed
  from 1 2 3 4 5 show "free_block m b d" by (simp add: free_block_def)
qed

subsection \<open>Stride arithmetic\<close>

lemma unat_stride: "unat d + 48 < 2 ^ 64 \<Longrightarrow> unat (EMB_ALLOC_BLOCK_TOTAL_ALIGN_SIZE d) = unat d + 48"
  by (simp add: EMB_ALLOC_BLOCK_TOTAL_ALIGN_SIZE_def unat_word_ariths)

lemma unat_stride_mult:
  assumes "unat d + 48 < 2 ^ 64" and "i * (unat d + 48) < 2 ^ 64"
  shows "unat (of_nat i * EMB_ALLOC_BLOCK_TOTAL_ALIGN_SIZE d) = i * (unat d + 48)"
proof -
  have "i \<le> i * (unat d + 48)" by simp
  with assms(2) have i: "i < 2 ^ 64" by linarith
  have "unat (of_nat i * EMB_ALLOC_BLOCK_TOTAL_ALIGN_SIZE d) =
        (unat (of_nat i :: size_t) * unat (EMB_ALLOC_BLOCK_TOTAL_ALIGN_SIZE d)) mod 2 ^ 64"
    by (simp add: unat_word_ariths)
  also have "unat (of_nat i :: size_t) = i" using i by (simp add: unat_of_nat)
  also have "unat (EMB_ALLOC_BLOCK_TOTAL_ALIGN_SIZE d) = unat d + 48"
    using assms(1) by (rule unat_stride)
  finally show ?thesis using assms(2) by simp
qed

lemma ptr_add_eq: "p + unat n < 2 ^ 64 \<Longrightarrow> ptr_add p n = p + unat n"
  by (simp add: ptr_add_def)

lemma ptr_add_0 [simp]: "p < 2 ^ 64 \<Longrightarrow> ptr_add p 0 = p"
  by (simp add: ptr_add_def)

lemma block_addr:
  assumes "unat d + 48 < 2 ^ 64" and "b + i * (unat d + 48) < 2 ^ 64"
  shows "ptr_add b (of_nat i * EMB_ALLOC_BLOCK_TOTAL_ALIGN_SIZE d) = b + i * (unat d + 48)"
proof -
  have "i * (unat d + 48) < 2 ^ 64" using assms(2) by simp
  then have "unat (of_nat i * EMB_ALLOC_BLOCK_TOTAL_ALIGN_SIZE d) = i * (unat d + 48)"
    using assms(1) by (simp add: unat_stride_mult)
  then show ?thesis using assms(2) by (simp add: ptr_add_eq)
qed

lemma next_block_addr:
  assumes "b + (unat d + 48) < 2 ^ 64"
  shows "ptr_add b (EMB_ALLOC_BLOCK_TOTAL_ALIGN_SIZE d) = b + (unat d + 48)"
proof -
  have "unat d + 48 < 2 ^ 64" using assms by simp
  then have "unat (EMB_ALLOC_BLOCK_TOTAL_ALIGN_SIZE d) = unat d + 48" by (rule unat_stride)
  then show ?thesis using assms by (simp add: ptr_add_eq)
qed

subsection \<open>The statements\<close>

lemma set_error_state [simp]:
  "mem (EmbAllocSetErrorInternal s e msg loc) = mem s"
  "categories (EmbAllocSetErrorInternal s e msg loc) = categories s"
  "settings (EmbAllocSetErrorInternal s e msg loc) = settings s"
  "mempool (EmbAllocSetErrorInternal s e msg loc) = mempool s"
  by (simp_all add: EmbAllocSetErrorInternal_def Let_def)

lemma check_marker_state [simp]:
  "mem (check_marker mk a s) = mem s"
  "categories (check_marker mk a s) = categories s"
  "settings (check_marker mk a s) = settings s"
  "mempool (check_marker mk a s) = mempool s"
  by (simp_all add: check_marker_def)

lemma check_marker_ok: "bytes_at (mem s) a mk \<Longrightarrow> check_marker mk a s = s"
  by (simp add: check_marker_def)

lemma check_not_set_state [simp]:
  "mem (check_not_set a s) = mem s"
  "categories (check_not_set a s) = categories s"
  "settings (check_not_set a s) = settings s"
  "mempool (check_not_set a s) = mempool s"
  by (simp_all add: check_not_set_def)

lemma check_not_set_ok: "rd_size_t (mem s) a = - 1 \<Longrightarrow> check_not_set a s = s"
  by (simp add: check_not_set_def)

lemma check_payload_state [simp]:
  "categories (check_payload p d s) = categories s"
  "settings (check_payload p d s) = settings s"
  "mempool (check_payload p d s) = mempool s"
  by (simp_all add: check_payload_def)

lemma check_payload_ok:
  "(\<forall>i<unat d. mem s (p + i) = 0xAC) \<Longrightarrow> check_payload p d s = s"
  by (simp add: check_payload_def check_buffer_all)

lemma check_payload_frame:
  "x < p \<or> p + unat d \<le> x \<Longrightarrow> mem (check_payload p d s) x = mem s x"
  by (auto simp: check_payload_def memset_def)

lemma check_unused_tail_state [simp]:
  "mem (check_unused_tail p ds bds s) = mem s"
  "categories (check_unused_tail p ds bds s) = categories s"
  "settings (check_unused_tail p ds bds s) = settings s"
  "mempool (check_unused_tail p ds bds s) = mempool s"
  by (simp_all add: check_unused_tail_def)

lemma repair_marker_state [simp]:
  "categories (repair_marker mk a s) = categories s"
  "settings (repair_marker mk a s) = settings s"
  "mempool (repair_marker mk a s) = mempool s"
  by (simp_all add: repair_marker_def)

lemma repair_marker_ok: "bytes_at (mem s) a mk \<Longrightarrow> repair_marker mk a s = s"
  by (simp add: repair_marker_def)

lemma repair_marker_mem: "mem (repair_marker mk a s) = store_bytes (mem s) a mk"
  by (simp add: repair_marker_def store_bytes_id)

lemma write_block_controls_frame:
  "cur + 32 + unat d < 2 ^ 64 \<Longrightarrow> x < cur \<or> cur + 48 + unat d \<le> x \<Longrightarrow>
   write_block_controls f l cur d m x = m x"
  by (auto simp: write_block_controls_def Let_def store_bytes_apply wr_size_t_apply memset_def
      ptr_add_eq)

lemma write_block_controls_id:
  "cur + 32 + unat d < 2 ^ 64 \<Longrightarrow> free_block m cur d \<Longrightarrow>
   write_block_controls True True cur d m = m"
  by (simp add: write_block_controls_def free_block_def store_bytes_id wr_size_t_id ptr_add_eq)

lemma merge_free_block_state [simp]:
  "categories (merge_free_block b k ks ke d i s) = categories s"
  "settings (merge_free_block b k ks ke d i s) = settings s"
  "mempool (merge_free_block b k ks ke d i s) = mempool s"
  by (simp_all add: merge_free_block_def Let_def)

lemma merge_free_block_frame:
  assumes "unat d + 48 < 2 ^ 64" and "b + i * (unat d + 48) + 32 + unat d < 2 ^ 64"
    and "x < b + i * (unat d + 48) \<or> b + i * (unat d + 48) + 48 + unat d \<le> x"
  shows "mem (merge_free_block b k ks ke d i s) x = mem s x"
proof -
  have a: "ptr_add b (of_nat i * EMB_ALLOC_BLOCK_TOTAL_ALIGN_SIZE d) = b + i * (unat d + 48)"
    using assms(1,2) by (intro block_addr) simp_all
  show ?thesis
    using assms(2,3)
    by (auto simp: merge_free_block_def Let_def a write_block_controls_frame check_payload_frame)
qed

lemma merge_free_block_id:
  assumes "free_block (mem s) b d" and "b + 32 + unat d < 2 ^ 64" and "k = 1"
  shows "merge_free_block b k True True d 0 s = s"
proof -
  note f = assms(1) [unfolded free_block_def]
  have b: "b < 2 ^ 64" using assms(2) by simp
  from f b show ?thesis
    using assms
    by (simp add: merge_free_block_def Let_def check_marker_ok check_not_set_ok
        check_payload_ok write_block_controls_id ptr_add_eq)
qed

lemma merge_one_free_block:
  assumes "free_block (mem s) b (block_data_size (categories s ! ci))"
    and "b + 32 + unat (block_data_size (categories s ! ci)) < 2 ^ 64"
  shows "EmbAllocMergeFreeBlocksInternal s ci b 1 True True = s"
  using assms merge_free_block_id [of s b "block_data_size (categories s ! ci)" 1]
  by (simp add: EmbAllocMergeFreeBlocksInternal_def)

lemma merge_blocks_state [simp]:
  "categories (fold (merge_free_block b k ks ke d) js s) = categories s"
  "settings (fold (merge_free_block b k ks ke d) js s) = settings s"
  "mempool (fold (merge_free_block b k ks ke d) js s) = mempool s"
  by (induction js arbitrary: s) simp_all

lemma EmbAllocMergeFreeBlocksInternal_state [simp]:
  "categories (EmbAllocMergeFreeBlocksInternal s ci b k ks ke) = categories s"
  "settings (EmbAllocMergeFreeBlocksInternal s ci b k ks ke) = settings s"
  "mempool (EmbAllocMergeFreeBlocksInternal s ci b k ks ke) = mempool s"
  by (simp_all add: EmbAllocMergeFreeBlocksInternal_def)

lemma mark_allocated_state [simp]:
  "categories (mark_allocated b k n s) = categories s"
  "settings (mark_allocated b k n s) = settings s"
  "mempool (mark_allocated b k n s) = mempool s"
  by (simp_all add: mark_allocated_def)

lemma set_category_state [simp]:
  "mem (set_category s i c) = mem s"
  "categories (set_category s i c) = (categories s)[i := c]"
  "settings (set_category s i c) = settings s"
  "mempool (set_category s i c) = mempool s"
  by (simp_all add: set_category_def)

lemma block_offset_less:
  fixes S :: nat
  assumes "i < k" and "j < S"
  shows "i * S + j < k * S"
proof -
  have "i * S + j < Suc i * S" using assms(2) by simp
  also have "Suc i * S \<le> k * S" using assms(1) by (intro mult_le_mono1) simp
  finally show ?thesis .
qed

lemma block_index_le:
  fixes S :: nat
  assumes "i \<le> k"
  shows "i * S \<le> k * S"
  using assms by (rule mult_le_mono1)

lemma restore_freed_block_apply:
  assumes "unat d + 48 < 2 ^ 64" and "b + i * (unat d + 48) + 32 + unat d < 2 ^ 64"
  shows "restore_freed_block b d i m x =
     (if b + i * (unat d + 48) \<le> x \<and> x < b + i * (unat d + 48) + 32
      then free_image d (x - (b + i * (unat d + 48)))
      else if b + i * (unat d + 48) + 32 + unat d \<le> x \<and>
              x < b + i * (unat d + 48) + 48 + unat d
      then free_image d (x - (b + i * (unat d + 48)))
      else m x)"
proof -
  let ?fb = "b + i * (unat d + 48)"
  have a: "ptr_add b (of_nat i * EMB_ALLOC_BLOCK_TOTAL_ALIGN_SIZE d) = ?fb"
    using assms by (intro block_addr) simp_all
  have r: "restore_freed_block b d i m =
      wr_size_t (wr_size_t (store_bytes (store_bytes m ?fb kEmbAllocBlockStart)
         (?fb + 32 + unat d) kEmbAllocBlockEnd) (?fb + 16) (- 1)) (?fb + 24) (- 1)"
    using assms(2) by (simp add: restore_freed_block_def Let_def a ptr_add_eq)
  show ?thesis
    unfolding r
    by (auto simp: wr_size_t_apply store_bytes_apply size_t_bytes_not_set free_image_def
        add.assoc)
qed

lemma fold_upt_Suc: "fold f [0..<Suc k] m = f k (fold f [0..<k] m)"
  by simp

lemma restore_fold_outside:
  assumes "unat d + 48 < 2 ^ 64" and "b + k * (unat d + 48) \<le> 2 ^ 64"
    and "x < b \<or> b + k * (unat d + 48) \<le> x"
  shows "fold (restore_freed_block b d) [0..<k] m x = m x"
  using assms(2,3)
proof (induction k)
  case 0
  show ?case by simp
next
  case (Suc k)
  have lt: "b + k * (unat d + 48) \<le> 2 ^ 64" using Suc.prems(1) by simp
  have u: "b + k * (unat d + 48) + 32 + unat d < 2 ^ 64" using Suc.prems(1) by simp
  have o: "x < b \<or> b + k * (unat d + 48) \<le> x" using Suc.prems(2) by auto
  have "restore_freed_block b d k (fold (restore_freed_block b d) [0..<k] m) x =
        fold (restore_freed_block b d) [0..<k] m x"
    using Suc.prems(2) by (auto simp: restore_freed_block_apply [OF assms(1) u])
  then show ?case using Suc.IH [OF lt o] by (simp only: fold_upt_Suc)
qed

lemma restore_fold_inside:
  assumes "unat d + 48 < 2 ^ 64" and "b + k * (unat d + 48) \<le> 2 ^ 64"
    and "i < k" and "j < unat d + 48"
  shows "fold (restore_freed_block b d) [0..<k] m (b + i * (unat d + 48) + j) =
     (if j < 32 \<or> 32 + unat d \<le> j then free_image d j else m (b + i * (unat d + 48) + j))"
  using assms(2,3)
proof (induction k)
  case 0
  then show ?case by simp
next
  case (Suc k)
  let ?S = "unat d + 48"
  have lt: "b + k * ?S \<le> 2 ^ 64" using Suc.prems(1) by simp
  have u: "b + k * ?S + 32 + unat d < 2 ^ 64" using Suc.prems(1) by simp
  show ?case
  proof (cases "i = k")
    case True
    have out: "fold (restore_freed_block b d) [0..<k] m (b + k * ?S + j) = m (b + k * ?S + j)"
      by (rule restore_fold_outside [OF assms(1) lt]) simp
    show ?thesis
      using assms(4) out True
      by (simp only: fold_upt_Suc restore_freed_block_apply [OF assms(1) u]) auto
  next
    case False
    with Suc.prems(2) have ik: "i < k" by simp
    have "i * ?S + j < k * ?S" using ik assms(4) by (rule block_offset_less)
    then have "b + i * ?S + j < b + k * ?S" by simp
    then have "restore_freed_block b d k (fold (restore_freed_block b d) [0..<k] m)
                 (b + i * ?S + j) =
               fold (restore_freed_block b d) [0..<k] m (b + i * ?S + j)"
      by (simp add: restore_freed_block_apply [OF assms(1) u])
    then show ?thesis using Suc.IH [OF lt ik] by (simp only: fold_upt_Suc)
  qed
qed

lemma unat_run_data_size:
  assumes "unat d + 48 < 2 ^ 64" and "unat kw * (unat d + 48) < 2 ^ 64" and "kw \<noteq> 0"
  shows "unat (run_data_size d kw) = unat d + (unat kw - 1) * (unat d + 48)"
proof -
  let ?S = "unat d + 48"
  have k1: "unat (kw - 1) = unat kw - 1" using assms(3) by (simp add: unat_minus_one)
  have nz: "0 < unat kw" using assms(3) by (simp add: unat_gt_0)
  have le: "(unat kw - 1) * ?S + ?S = unat kw * ?S"
    using nz by (cases "unat kw") simp_all
  then have lt: "(unat kw - 1) * ?S < 2 ^ 64" "unat d + (unat kw - 1) * ?S < 2 ^ 64"
    using assms(2) by linarith+
  have "(of_nat (unat kw - 1) :: size_t) = kw - 1"
    unfolding k1 [symmetric] by simp
  then have "unat ((kw - 1) * EMB_ALLOC_BLOCK_TOTAL_ALIGN_SIZE d) = (unat kw - 1) * ?S"
    using unat_stride_mult [OF assms(1), of "unat kw - 1"] lt(1) by simp
  then have "unat (run_data_size d kw) = (unat d + (unat kw - 1) * ?S) mod 2 ^ 64"
    by (simp add: run_data_size_def unat_word_ariths)
  then show ?thesis using lt(2) by simp
qed

subsection \<open>The blocks of a new pool\<close>

lemma init_data_block_apply:
  assumes "unat (of_nat j * EMB_ALLOC_BLOCK_TOTAL_ALIGN_SIZE (block_data_size c)) =
           j * (unat (block_data_size c) + 48)"
  shows "init_data_block c j m x =
     (if start_address c + j * (unat (block_data_size c) + 48) \<le> x \<and>
         x < start_address c + j * (unat (block_data_size c) + 48) + 32
      then free_image (block_data_size c)
             (x - (start_address c + j * (unat (block_data_size c) + 48)))
      else if start_address c + j * (unat (block_data_size c) + 48) + 32 +
                unat (block_data_size c) \<le> x \<and>
              x < start_address c + j * (unat (block_data_size c) + 48) + 48 +
                unat (block_data_size c)
      then free_image (block_data_size c)
             (x - (start_address c + j * (unat (block_data_size c) + 48)))
      else m x)"
proof -
  let ?d = "block_data_size c"
  let ?fb = "start_address c + j * (unat ?d + 48)"
  have r: "init_data_block c j m =
      wr_size_t (wr_size_t (store_bytes (store_bytes m ?fb kEmbAllocBlockStart)
         (?fb + 32 + unat ?d) kEmbAllocBlockEnd) (?fb + 16) (- 1)) (?fb + 24) (- 1)"
    by (simp add: init_data_block_def Let_def assms)
  show ?thesis
    unfolding r
    by (auto simp: wr_size_t_apply store_bytes_apply size_t_bytes_not_set free_image_def
        add.assoc)
qed

lemma init_fold_outside:
  assumes "unat (block_data_size c) + 48 < 2 ^ 64"
    and "k * (unat (block_data_size c) + 48) < 2 ^ 64"
    and "x < start_address c \<or> start_address c + k * (unat (block_data_size c) + 48) \<le> x"
  shows "fold (init_data_block c) [0..<k] m x = m x"
  using assms(2,3)
proof (induction k)
  case 0
  show ?case by simp
next
  case (Suc k)
  let ?S = "unat (block_data_size c) + 48"
  have lt: "k * ?S < 2 ^ 64" using Suc.prems(1) by simp
  have u: "unat (of_nat k * EMB_ALLOC_BLOCK_TOTAL_ALIGN_SIZE (block_data_size c)) = k * ?S"
    using assms(1) lt by (rule unat_stride_mult)
  have o: "x < start_address c \<or> start_address c + k * ?S \<le> x" using Suc.prems(2) by auto
  have "init_data_block c k (fold (init_data_block c) [0..<k] m) x =
        fold (init_data_block c) [0..<k] m x"
    using Suc.prems(2) by (auto simp: init_data_block_apply [OF u])
  then show ?case using Suc.IH [OF lt o] by (simp only: fold_upt_Suc)
qed

lemma init_fold_inside:
  assumes "unat (block_data_size c) + 48 < 2 ^ 64"
    and "k * (unat (block_data_size c) + 48) < 2 ^ 64"
    and "i < k" and "j < unat (block_data_size c) + 48"
  shows "fold (init_data_block c) [0..<k] m
           (start_address c + i * (unat (block_data_size c) + 48) + j) =
     (if j < 32 \<or> 32 + unat (block_data_size c) \<le> j then free_image (block_data_size c) j
      else m (start_address c + i * (unat (block_data_size c) + 48) + j))"
  using assms(2,3)
proof (induction k)
  case 0
  then show ?case by simp
next
  case (Suc k)
  let ?S = "unat (block_data_size c) + 48"
  let ?b = "start_address c"
  have lt: "k * ?S < 2 ^ 64" using Suc.prems(1) by simp
  have u: "unat (of_nat k * EMB_ALLOC_BLOCK_TOTAL_ALIGN_SIZE (block_data_size c)) = k * ?S"
    using assms(1) lt by (rule unat_stride_mult)
  show ?case
  proof (cases "i = k")
    case True
    have out: "fold (init_data_block c) [0..<k] m (?b + k * ?S + j) = m (?b + k * ?S + j)"
      by (rule init_fold_outside [OF assms(1) lt]) simp
    show ?thesis
      using assms(4) out True
      by (simp only: fold_upt_Suc init_data_block_apply [OF u]) auto
  next
    case False
    with Suc.prems(2) have ik: "i < k" by simp
    have "i * ?S + j < k * ?S" using ik assms(4) by (rule block_offset_less)
    then have "?b + i * ?S + j < ?b + k * ?S" by simp
    then have "init_data_block c k (fold (init_data_block c) [0..<k] m) (?b + i * ?S + j) =
               fold (init_data_block c) [0..<k] m (?b + i * ?S + j)"
      by (simp add: init_data_block_apply [OF u])
    then show ?thesis using Suc.IH [OF lt ik] by (simp only: fold_upt_Suc)
  qed
qed

text \<open>A block of a category is free after the loop when its payload was poison before.\<close>

lemma init_fold_free_block:
  assumes "unat (block_data_size c) + 48 < 2 ^ 64"
    and "k * (unat (block_data_size c) + 48) < 2 ^ 64"
    and "i < k"
    and "\<forall>j<unat (block_data_size c).
           m (start_address c + i * (unat (block_data_size c) + 48) + 32 + j) = 0xAC"
  shows "free_block (fold (init_data_block c) [0..<k] m)
           (start_address c + i * (unat (block_data_size c) + 48)) (block_data_size c)"
  unfolding free_block_image
proof (intro allI impI)
  fix j assume j: "j < 48 + unat (block_data_size c)"
  let ?S = "unat (block_data_size c) + 48"
  have j': "j < ?S" using j by simp
  show "fold (init_data_block c) [0..<k] m (start_address c + i * ?S + j) =
        free_image (block_data_size c) j"
  proof (cases "j < 32 \<or> 32 + unat (block_data_size c) \<le> j")
    case True
    then show ?thesis by (simp only: init_fold_inside [OF assms(1,2,3) j'] if_True)
  next
    case False
    then have "j - 32 < unat (block_data_size c)" "32 + (j - 32) = j" by auto
    then have "m (start_address c + i * ?S + 32 + (j - 32)) = 0xAC"
      using assms(4) by blast
    then have "m (start_address c + i * ?S + j) = 0xAC"
      using \<open>32 + (j - 32) = j\<close> by (simp add: add.assoc)
    then show ?thesis
      using False by (simp add: init_fold_inside [OF assms(1,2,3) j'] free_image_def)
  qed
qed

lemma free_block_cong:
  assumes "\<And>i. i < 48 + unat d \<Longrightarrow> m (b + i) = m' (b + i)"
  shows "free_block m b d = free_block m' b d"
  by (simp add: free_block_image assms)

lemma five_blocks_bounds:
  "1264 + 48 * number_of_blocks five_blocks + sum_of_class_capacities five_blocks < 2 ^ 64"
  "unat (total_size five_blocks) = sum_of_class_capacities five_blocks"
  by (simp_all add: five_blocks_def no_blocks_def number_of_blocks_def sum_of_class_capacities_def)

lemma fresh_pool_eq:
  "fresh_pool = EmbAllocInitializeInternal example_host 4096 1664 five_blocks"
proof -
  have "EmbAllocGetMemoryRequirementsInternal five_blocks = 1664"
    by (simp add: EmbAllocGetMemoryRequirementsInternal_def five_blocks_def no_blocks_def)
  then show ?thesis
    using created_eq(1) [OF five_blocks_bounds] by (simp add: fresh_pool_def)
qed

lemma fresh_pool_is_mempool: "EMB_ALLOC_PTR_IS_MEMPOOL fresh_pool"
  unfolding fresh_pool_def using five_blocks_bounds by (rule created_eq(2))

lemma upt_8: "[0..<8] = [0, 1, 2, 3, 4, 5, 6, 7]"
  by (simp add: upt_rec)

lemma fresh_categories:
  "categories fresh_pool =
     [first_category, empty_category 64, empty_category 128, empty_category 256,
      empty_category 512, empty_category 1024, empty_category 2048, empty_category 4096]"
  unfolding fresh_pool_eq
  by (simp add: EmbAllocInitializeInternal_def Let_def
      EmbAllocInitializeDataBlocksInternal_def EmbAllocInitializeAuxDataInternal_def
      EmbAllocInitializeBlockCategoriesInternal_def ClearMempoolErrorInternal_def
      upt_8 EmbAllocGetCategorySettingsInternal_def five_blocks_def no_blocks_def
      EMB_ALLOC_BLOCK_TOTAL_ALIGN_SIZE_def first_category_def empty_category_def)

lemma fresh_fields:
  "mempool fresh_pool = 4096"
  "settings fresh_pool = five_blocks"
  "aux_data fresh_pool = \<lparr>thread_sync_mutex_initialized = False,
                            last_error = kEmbAllocNoErr, last_error_message = ([], 0)\<rparr>"
  "callback_calls fresh_pool = []"
  unfolding fresh_pool_eq
  by (simp_all add: EmbAllocInitializeInternal_def Let_def
      EmbAllocInitializeDataBlocksInternal_def EmbAllocInitializeAuxDataInternal_def
      EmbAllocInitializeBlockCategoriesInternal_def ClearMempoolErrorInternal_def
      five_blocks_def no_blocks_def example_host_def)

lemma fresh_mem:
  "mem fresh_pool =
     fold (init_data_block first_category) [0..<5]
       (store_bytes
          (store_bytes (memset (\<lambda>_. 0) 4096 0xAC 1664) 4096 kEmbAllocMempoolStart)
          5744 kEmbAllocMempoolEnd)"
proof -
  have c: "init_block_categories five_blocks 5344 [0..<8] = categories fresh_pool"
    unfolding fresh_pool_eq
    by (simp add: EmbAllocInitializeInternal_def Let_def
      EmbAllocInitializeDataBlocksInternal_def EmbAllocInitializeAuxDataInternal_def
      EmbAllocInitializeBlockCategoriesInternal_def ClearMempoolErrorInternal_def)
  have u: "unat (total_blocks first_category) = 5" "\<And>d. unat (total_blocks (empty_category d)) = 0"
    by (simp_all add: first_category_def empty_category_def)
  have c': "init_block_categories five_blocks (4096 + 16 + 224 + 448 + 560) [0..<8] =
     [first_category, empty_category 64, empty_category 128, empty_category 256,
      empty_category 512, empty_category 1024, empty_category 2048, empty_category 4096]"
    using c fresh_categories by simp
  show ?thesis
    unfolding fresh_pool_eq mem_EmbAllocInitializeInternal c'
    by (simp add: u example_host_def)
qed

lemma fresh_block_free:
  assumes "i < 5"
  shows "free_block (mem fresh_pool) (5344 + i * 80) 32"
proof -
  have "free_block (fold (init_data_block first_category) [0..<5]
       (store_bytes
          (store_bytes (memset (\<lambda>_. 0) 4096 0xAC 1664) 4096 kEmbAllocMempoolStart)
          5744 kEmbAllocMempoolEnd))
     (start_address first_category + i * (unat (block_data_size first_category) + 48))
     (block_data_size first_category)"
  proof (rule init_fold_free_block)
    show "unat (block_data_size first_category) + 48 < 2 ^ 64"
      by (simp add: first_category_def)
    show "5 * (unat (block_data_size first_category) + 48) < 2 ^ 64"
      by (simp add: first_category_def)
    show "i < 5" by (rule assms)
    have "i * 80 \<le> 4 * 80" using assms by (intro mult_le_mono1) simp
    then show "\<forall>j<unat (block_data_size first_category).
       store_bytes (store_bytes (memset (\<lambda>_. 0) 4096 0xAC 1664) 4096 kEmbAllocMempoolStart)
         5744 kEmbAllocMempoolEnd
        (start_address first_category + i * (unat (block_data_size first_category) + 48) + 32 + j) =
       0xAC"
      by (simp add: first_category_def store_bytes_apply memset_def)
  qed
  then show ?thesis by (simp add: fresh_mem first_category_def)
qed

lemma clear_fresh: "ClearMempoolErrorInternal fresh_pool = fresh_pool"
  by (simp add: ClearMempoolErrorInternal_def fresh_fields)

lemma lock_fresh: "lock_mutex fresh_pool = fresh_pool"
  by (simp add: lock_mutex_def fresh_fields)

lemma fresh_block_counters:
  assumes "i < 5"
  shows "rd_size_t (mem fresh_pool) (5344 + i * 80 + 16) = - 1"
    and "rd_size_t (mem fresh_pool) (5344 + i * 80 + 24) = - 1"
    and "bytes_at (mem fresh_pool) (5344 + i * 80) kEmbAllocBlockStart"
    and "bytes_at (mem fresh_pool) (5344 + i * 80 + 64) kEmbAllocBlockEnd"
  using fresh_block_free [OF assms] by (simp_all add: free_block_def)

lemma malloc_one_block_free:
  assumes "categories s ! ci = c" and "occupied_blocks c < total_blocks c"
    and "first_free_address c \<noteq> 0" and "last_free_address c \<noteq> 0"
    and "free_block (mem s) (first_free_address c) (block_data_size c)"
    and "first_free_address c + 32 + unat (block_data_size c) < 2 ^ 64"
  shows "EmbAllocMallocOneBlockInternal s ci sz =
     (if occupied_blocks c + 1 < total_blocks c then
        (case advance_first_free (mem (mark_allocated (first_free_address c) 1 sz s))
                (block_data_size c) (last_free_address c) (first_free_address c)
                (first_free_address c) of
           None \<Rightarrow> None
         | Some ffa \<Rightarrow>
             Some (first_free_address c + 32,
                   set_category (mark_allocated (first_free_address c) 1 sz s) ci
                     (after_advance (first_free_address c) ffa
                        (c\<lparr>occupied_blocks := occupied_blocks c + 1\<rparr>))))
      else Some (first_free_address c + 32,
                 set_category (mark_allocated (first_free_address c) 1 sz s) ci
                   (saturate (c\<lparr>occupied_blocks := occupied_blocks c + 1\<rparr>))))"
proof -
  have m: "EmbAllocMergeFreeBlocksInternal s ci (first_free_address c) 1 True True = s"
    using assms(5,6) by (intro merge_one_free_block) (simp_all add: assms(1))
  show ?thesis
    using assms(2,3,4)
    by (simp add: EmbAllocMallocOneBlockInternal_def Let_def assms(1) m not_le
        split: option.splits)
qed

lemma lock_mutex_ok:
  "\<not> thread_sync_mutex_initialized (aux_data s) \<or> lock_mutex_rc s = 0 \<Longrightarrow> lock_mutex s = s"
  by (auto simp: lock_mutex_def)

lemma unlock_mutex_ok:
  "\<not> thread_sync_mutex_initialized (aux_data s) \<or> unlock_mutex_rc s = 0 \<Longrightarrow> unlock_mutex s = s"
  by (auto simp: unlock_mutex_def)

text \<open>Free of a live run whose sentinels are intact: no error, the run is restored.\<close>

lemma free_block_internal_eq:
  assumes "\<not> full_overflow_checks (settings s) \<or>
           EmbAllocCheckBuffer (mem s) (ptr_add (b + 32) (rd_size_t (mem s) (b + 24)))
             (run_data_size (block_data_size (categories s ! ci)) (rd_size_t (mem s) (b + 16)) -
                rd_size_t (mem s) (b + 24)) 0xAC"
  shows "EmbAllocFreeBlockInternal s ci (b + 32) =
     set_category
       (s\<lparr>mem := fold (restore_freed_block b (block_data_size (categories s ! ci)))
                  [0..<unat (rd_size_t (mem s) (b + 16))]
                  (memset (mem s) (b + 32) 0xAC
                     (unat (run_data_size (block_data_size (categories s ! ci))
                              (rd_size_t (mem s) (b + 16)))))\<rparr>)
       ci
       (relax_cursors b
          ((categories s ! ci)\<lparr>occupied_blocks :=
              occupied_blocks (categories s ! ci) - rd_size_t (mem s) (b + 16)\<rparr>))"
  using assms
  by (auto simp: EmbAllocFreeBlockInternal_def Let_def check_unused_tail_def)

lemma free_eval:
  assumes mp: "EMB_ALLOC_PTR_IS_MEMPOOL s"
    and mutex: "\<not> thread_sync_mutex_initialized (aux_data s) \<or>
                (lock_mutex_rc s = 0 \<and> unlock_mutex_rc s = 0)"
    and head: "bytes_at (mem s) b kEmbAllocBlockStart"
    and k: "rd_size_t (mem s) (b + 16) \<noteq> - 1"
    and n: "rd_size_t (mem s) (b + 24) \<noteq> - 1"
    and fc: "find_category (categories s) b = Some ci"
    and tail: "bytes_at (mem s)
                 (ptr_add (b + 32) (run_data_size (block_data_size (categories s ! ci))
                                      (rd_size_t (mem s) (b + 16))))
                 kEmbAllocBlockEnd"
    and chk: "\<not> full_overflow_checks (settings s) \<or>
           EmbAllocCheckBuffer (mem s) (ptr_add (b + 32) (rd_size_t (mem s) (b + 24)))
             (run_data_size (block_data_size (categories s ! ci)) (rd_size_t (mem s) (b + 16)) -
                rd_size_t (mem s) (b + 24)) 0xAC"
  shows "EmbAllocFree s (b + 32) =
     set_category
       ((ClearMempoolErrorInternal s)
          \<lparr>mem := fold (restore_freed_block b (block_data_size (categories s ! ci)))
                  [0..<unat (rd_size_t (mem s) (b + 16))]
                  (memset (mem s) (b + 32) 0xAC
                     (unat (run_data_size (block_data_size (categories s ! ci))
                              (rd_size_t (mem s) (b + 16)))))\<rparr>)
       ci
       (relax_cursors b
          ((categories s ! ci)\<lparr>occupied_blocks :=
              occupied_blocks (categories s ! ci) - rd_size_t (mem s) (b + 16)\<rparr>))"
proof -
  let ?s1 = "ClearMempoolErrorInternal s"
  have l: "lock_mutex ?s1 = ?s1" using mutex by (intro lock_mutex_ok) auto
  have blk: "EMB_ALLOC_PTR_IS_BLOCK (mem ?s1) (b + 32)"
    using head by (simp add: EMB_ALLOC_PTR_IS_BLOCK_def)
  have r: "repair_marker kEmbAllocBlockStart b ?s1 = ?s1"
    using head by (simp add: repair_marker_ok)
  have r2: "repair_marker kEmbAllocBlockEnd
              (ptr_add (b + 32) (run_data_size (block_data_size (categories s ! ci))
                                   (rd_size_t (mem s) (b + 16)))) ?s1 = ?s1"
    using tail by (simp add: repair_marker_ok)
  have g: "EmbAllocGetCategoryForPtr ?s1 (b + 32) = (Some ci, ?s1)"
    using k n fc by (simp add: EmbAllocGetCategoryForPtr_def Let_def r r2)
  have f: "EmbAllocFreeBlockInternal ?s1 ci (b + 32) =
     set_category
       (?s1\<lparr>mem := fold (restore_freed_block b (block_data_size (categories s ! ci)))
                  [0..<unat (rd_size_t (mem s) (b + 16))]
                  (memset (mem s) (b + 32) 0xAC
                     (unat (run_data_size (block_data_size (categories s ! ci))
                              (rd_size_t (mem s) (b + 16)))))\<rparr>)
       ci
       (relax_cursors b
          ((categories s ! ci)\<lparr>occupied_blocks :=
              occupied_blocks (categories s ! ci) - rd_size_t (mem s) (b + 16)\<rparr>))"
    using free_block_internal_eq [of ?s1 b ci] chk by simp
  have u: "unlock_mutex (EmbAllocFreeBlockInternal ?s1 ci (b + 32)) =
           EmbAllocFreeBlockInternal ?s1 ci (b + 32)"
    unfolding f using mutex by (intro unlock_mutex_ok) (auto simp: set_category_def)
  have "EmbAllocFree s (b + 32) = EmbAllocFreeBlockInternal ?s1 ci (b + 32)"
    using mp blk by (simp add: EmbAllocFree_def Let_def l EmbAllocFreeInternal_def g u)
  then show ?thesis by (simp only: f)
qed

text \<open>The memory a free leaves: the blocks of the run are free, the rest is untouched.\<close>

lemma freed_run_outside:
  assumes "unat d + 48 < 2 ^ 64" and "b + unat k * (unat d + 48) < 2 ^ 64" and "k \<noteq> 0"
    and "x < b \<or> b + unat k * (unat d + 48) \<le> x"
  shows "fold (restore_freed_block b d) [0..<unat k]
           (memset m (b + 32) 0xAC (unat (run_data_size d k))) x = m x"
proof -
  let ?S = "unat d + 48"
  have kS: "unat k * ?S < 2 ^ 64" using assms(2) by simp
  have le: "b + unat k * ?S \<le> 2 ^ 64" using assms(2) by simp
  have B: "unat (run_data_size d k) = unat d + (unat k - 1) * ?S"
    using assms(1) kS assms(3) by (rule unat_run_data_size)
  have nz: "0 < unat k" using assms(3) by (simp add: unat_gt_0)
  have "(unat k - 1) * ?S + ?S = unat k * ?S" using nz by (cases "unat k") simp_all
  then have e: "b + 32 + unat (run_data_size d k) \<le> b + unat k * ?S" using B by simp
  have "fold (restore_freed_block b d) [0..<unat k]
           (memset m (b + 32) 0xAC (unat (run_data_size d k))) x =
        memset m (b + 32) 0xAC (unat (run_data_size d k)) x"
    using assms(1) le assms(4) by (rule restore_fold_outside)
  also have "\<dots> = m x" using assms(4) e by (auto simp: memset_def)
  finally show ?thesis .
qed

lemma freed_run_blocks:
  assumes "unat d + 48 < 2 ^ 64" and "b + unat k * (unat d + 48) < 2 ^ 64" and "k \<noteq> 0"
    and "i < unat k"
  shows "free_block (fold (restore_freed_block b d) [0..<unat k]
           (memset m (b + 32) 0xAC (unat (run_data_size d k)))) (b + i * (unat d + 48)) d"
  unfolding free_block_image
proof (intro allI impI)
  fix j assume j: "j < 48 + unat d"
  let ?S = "unat d + 48"
  let ?M = "memset m (b + 32) 0xAC (unat (run_data_size d k))"
  have j': "j < ?S" using j by simp
  have kS: "unat k * ?S < 2 ^ 64" using assms(2) by simp
  have le: "b + unat k * ?S \<le> 2 ^ 64" using assms(2) by simp
  have B: "unat (run_data_size d k) = unat d + (unat k - 1) * ?S"
    using assms(1) kS assms(3) by (rule unat_run_data_size)
  have in': "fold (restore_freed_block b d) [0..<unat k] ?M (b + i * ?S + j) =
     (if j < 32 \<or> 32 + unat d \<le> j then free_image d j else ?M (b + i * ?S + j))"
    using assms(1) le assms(4) j' by (rule restore_fold_inside)
  show "fold (restore_freed_block b d) [0..<unat k] ?M (b + i * ?S + j) = free_image d j"
  proof (cases "j < 32 \<or> 32 + unat d \<le> j")
    case True
    then show ?thesis using in' by simp
  next
    case False
    then have jr: "32 \<le> j" "j < 32 + unat d" by auto
    have "i \<le> unat k - 1" using assms(4) by simp
    then have "i * ?S \<le> (unat k - 1) * ?S" by (rule mult_le_mono1)
    then have "i * ?S + j < 32 + (unat d + (unat k - 1) * ?S)" using jr by linarith
    then have "?M (b + i * ?S + j) = 0xAC" using jr by (simp add: memset_def B)
    then show ?thesis using in' False jr by (simp add: free_image_def)
  qed
qed

lemma mark_allocated_aux [simp]:
  "aux_data (mark_allocated b k n s) = aux_data s"
  "lock_mutex_rc (mark_allocated b k n s) = lock_mutex_rc s"
  "unlock_mutex_rc (mark_allocated b k n s) = unlock_mutex_rc s"
  "callback_calls (mark_allocated b k n s) = callback_calls s"
  by (simp_all add: mark_allocated_def)

lemma set_category_aux [simp]:
  "aux_data (set_category s i c) = aux_data s"
  "lock_mutex_rc (set_category s i c) = lock_mutex_rc s"
  "unlock_mutex_rc (set_category s i c) = unlock_mutex_rc s"
  "callback_calls (set_category s i c) = callback_calls s"
  by (simp_all add: set_category_def)

text \<open>Malloc of a size the first category holds, on a pool whose first free block is free.\<close>

lemma malloc_first_class:
  assumes mp: "EMB_ALLOC_PTR_IS_MEMPOOL s"
    and mutex: "\<not> thread_sync_mutex_initialized (aux_data s) \<or>
                (lock_mutex_rc s = 0 \<and> unlock_mutex_rc s = 0)"
    and sz: "sz \<noteq> 0" "sz \<le> block_data_size c"
    and c: "categories s ! 0 = c" "occupied_blocks c < total_blocks c"
      "first_free_address c \<noteq> 0" "last_free_address c \<noteq> 0"
    and fb: "free_block (mem s) (first_free_address c) (block_data_size c)"
      "first_free_address c + 32 + unat (block_data_size c) < 2 ^ 64"
  shows "EmbAllocMalloc s sz =
     (if occupied_blocks c + 1 < total_blocks c then
        (case advance_first_free
                (mem (mark_allocated (first_free_address c) 1 sz (ClearMempoolErrorInternal s)))
                (block_data_size c) (last_free_address c) (first_free_address c)
                (first_free_address c) of
           None \<Rightarrow> None
         | Some ffa \<Rightarrow>
             Some (first_free_address c + 32,
                   set_category
                     (mark_allocated (first_free_address c) 1 sz (ClearMempoolErrorInternal s)) 0
                     (after_advance (first_free_address c) ffa
                        (c\<lparr>occupied_blocks := occupied_blocks c + 1\<rparr>))))
      else Some (first_free_address c + 32,
                 set_category
                   (mark_allocated (first_free_address c) 1 sz (ClearMempoolErrorInternal s)) 0
                   (saturate (c\<lparr>occupied_blocks := occupied_blocks c + 1\<rparr>))))"
proof -
  let ?s1 = "ClearMempoolErrorInternal s"
  have l: "lock_mutex ?s1 = ?s1" using mutex by (intro lock_mutex_ok) auto
  have c1: "categories ?s1 ! 0 = c" using c(1) by simp
  have fb1: "free_block (mem ?s1) (first_free_address c) (block_data_size c)" using fb(1) by simp
  note one = malloc_one_block_free [OF c1 c(2,3,4) fb1 fb(2), of sz]
  have can: "EMB_ALLOC_CAN_ALLOC_IN_A_BLOCK (categories s ! 0) sz"
    using sz(2) c(2) by (simp add: EMB_ALLOC_CAN_ALLOC_IN_A_BLOCK_def c(1))
  have u: "unlock_mutex (set_category (mark_allocated b k n ?s1) 0 c') =
           set_category (mark_allocated b k n ?s1) 0 c'" for b k n c'
    using mutex by (intro unlock_mutex_ok) auto
  show ?thesis
    using mp sz(1)
    by (simp add: EmbAllocMalloc_def Let_def l EmbAllocMallocInternal_def can one u
        split: option.splits)
qed

lemma mark_allocated_mem:
  "\<not> init_allocated_memory (settings s) \<Longrightarrow>
   mem (mark_allocated b k n s) = wr_size_t (wr_size_t (mem s) (b + 16) k) (b + 24) n"
  by (simp add: mark_allocated_def)

lemma mark_allocated_outside:
  "\<not> init_allocated_memory (settings s) \<Longrightarrow> x < b + 16 \<or> b + 32 \<le> x \<Longrightarrow>
   mem (mark_allocated b k n s) x = mem s x"
  by (auto simp: mark_allocated_mem wr_size_t_apply)

lemma mark_allocated_counters:
  "\<not> init_allocated_memory (settings s) \<Longrightarrow>
   rd_size_t (mem (mark_allocated b k n s)) (b + 16) = k \<and>
   rd_size_t (mem (mark_allocated b k n s)) (b + 24) = n"
  by (simp add: mark_allocated_mem rd_wr_other)

lemma rd_frame:
  "(\<And>x. a \<le> x \<Longrightarrow> x < a + 8 \<Longrightarrow> m' x = m x) \<Longrightarrow> rd_size_t m' a = rd_size_t m a"
  by (rule rd_size_t_cong) simp

lemma bytes_at_frame:
  "(\<And>x. a \<le> x \<Longrightarrow> x < a + length bs \<Longrightarrow> m' x = m x) \<Longrightarrow>
   bytes_at m' a bs = bytes_at m a bs"
  by (rule bytes_at_cong) simp

lemma free_block_frame:
  "(\<And>x. b \<le> x \<Longrightarrow> x < b + 48 + unat d \<Longrightarrow> m' x = m x) \<Longrightarrow>
   free_block m' b d = free_block m b d"
  by (rule free_block_cong) simp

lemma clear_state [simp]:
  "aux_data (ClearMempoolErrorInternal s) =
     (aux_data s)\<lparr>last_error := kEmbAllocNoErr, last_error_message := ([], 0)\<rparr>"
  by (simp add: ClearMempoolErrorInternal_def)

lemma free_effect:
  assumes mp: "EMB_ALLOC_PTR_IS_MEMPOOL s"
    and mutex: "\<not> thread_sync_mutex_initialized (aux_data s) \<or>
                (lock_mutex_rc s = 0 \<and> unlock_mutex_rc s = 0)"
    and head: "bytes_at (mem s) b kEmbAllocBlockStart"
    and k: "rd_size_t (mem s) (b + 16) = k" "k \<noteq> - 1" "k \<noteq> 0"
    and n: "rd_size_t (mem s) (b + 24) \<noteq> - 1"
    and fc: "find_category (categories s) b = Some ci"
    and d: "block_data_size (categories s ! ci) = d"
    and nowrap: "unat d + 48 < 2 ^ 64" "b + unat k * (unat d + 48) < 2 ^ 64"
    and tail: "bytes_at (mem s) (b + 32 + (unat d + (unat k - 1) * (unat d + 48)))
                 kEmbAllocBlockEnd"
    and chk: "\<not> full_overflow_checks (settings s)"
    and pool: "mempool s + 16 \<le> b"
  shows "EMB_ALLOC_PTR_IS_MEMPOOL (EmbAllocFree s (b + 32))"
    and "\<And>x. x < b \<or> b + unat k * (unat d + 48) \<le> x \<Longrightarrow>
           mem (EmbAllocFree s (b + 32)) x = mem s x"
    and "\<And>i. i < unat k \<Longrightarrow>
           free_block (mem (EmbAllocFree s (b + 32))) (b + i * (unat d + 48)) d"
    and "categories (EmbAllocFree s (b + 32)) =
           (categories s)[ci := relax_cursors b
              ((categories s ! ci)\<lparr>occupied_blocks :=
                  occupied_blocks (categories s ! ci) - k\<rparr>)]"
    and "aux_data (EmbAllocFree s (b + 32)) =
           (aux_data s)\<lparr>last_error := kEmbAllocNoErr, last_error_message := ([], 0)\<rparr>"
    and "settings (EmbAllocFree s (b + 32)) = settings s"
    and "mempool (EmbAllocFree s (b + 32)) = mempool s"
    and "callback_calls (EmbAllocFree s (b + 32)) = callback_calls s"
    and "lock_mutex_rc (EmbAllocFree s (b + 32)) = lock_mutex_rc s"
    and "unlock_mutex_rc (EmbAllocFree s (b + 32)) = unlock_mutex_rc s"
proof -
  have kS: "unat k * (unat d + 48) < 2 ^ 64" using nowrap(2) by simp
  have B: "unat (run_data_size d k) = unat d + (unat k - 1) * (unat d + 48)"
    using nowrap(1) kS k(3) by (rule unat_run_data_size)
  have nz: "0 < unat k" using k(3) by (simp add: unat_gt_0)
  have "(unat k - 1) * (unat d + 48) + (unat d + 48) = unat k * (unat d + 48)"
    using nz by (cases "unat k") simp_all
  then have "b + 32 + unat (run_data_size d k) < 2 ^ 64" using B nowrap(2) by simp
  then have pa: "ptr_add (b + 32) (run_data_size d k) =
      b + 32 + (unat d + (unat k - 1) * (unat d + 48))"
    using B by (simp add: ptr_add_eq)
  have E: "EmbAllocFree s (b + 32) =
     set_category
       ((ClearMempoolErrorInternal s)
          \<lparr>mem := fold (restore_freed_block b d) [0..<unat k]
                  (memset (mem s) (b + 32) 0xAC (unat (run_data_size d k)))\<rparr>)
       ci
       (relax_cursors b
          ((categories s ! ci)\<lparr>occupied_blocks := occupied_blocks (categories s ! ci) - k\<rparr>))"
    using free_eval [of s b ci] mp mutex head k(1,2) n fc tail chk
    by (simp add: d pa)
  show out: "mem (EmbAllocFree s (b + 32)) x = mem s x"
    if "x < b \<or> b + unat k * (unat d + 48) \<le> x" for x
    unfolding E using freed_run_outside [OF nowrap k(3) that, of "mem s"] by simp
  show "free_block (mem (EmbAllocFree s (b + 32))) (b + i * (unat d + 48)) d"
    if "i < unat k" for i
    unfolding E using freed_run_blocks [OF nowrap k(3) that, of "mem s"] by simp
  show "categories (EmbAllocFree s (b + 32)) =
           (categories s)[ci := relax_cursors b
              ((categories s ! ci)\<lparr>occupied_blocks :=
                  occupied_blocks (categories s ! ci) - k\<rparr>)]"
    unfolding E by simp
  show "aux_data (EmbAllocFree s (b + 32)) =
           (aux_data s)\<lparr>last_error := kEmbAllocNoErr, last_error_message := ([], 0)\<rparr>"
    unfolding E by simp
  show "settings (EmbAllocFree s (b + 32)) = settings s" unfolding E by simp
  show mpl: "mempool (EmbAllocFree s (b + 32)) = mempool s" unfolding E by simp
  show "callback_calls (EmbAllocFree s (b + 32)) = callback_calls s" unfolding E by simp
  show "lock_mutex_rc (EmbAllocFree s (b + 32)) = lock_mutex_rc s" unfolding E by simp
  show "unlock_mutex_rc (EmbAllocFree s (b + 32)) = unlock_mutex_rc s" unfolding E by simp
  have "bytes_at (mem (EmbAllocFree s (b + 32))) (mempool s) kEmbAllocMempoolStart =
        bytes_at (mem s) (mempool s) kEmbAllocMempoolStart"
    by (rule bytes_at_frame) (use pool in \<open>simp add: out\<close>)
  then show "EMB_ALLOC_PTR_IS_MEMPOOL (EmbAllocFree s (b + 32))"
    using mp by (simp add: EMB_ALLOC_PTR_IS_MEMPOOL_def mpl)
qed

lemma fresh_settings_flags [simp]:
  "\<not> init_allocated_memory five_blocks" "\<not> full_overflow_checks five_blocks"
  "\<not> threadsafe five_blocks" "error_callback_fn five_blocks = 1"
  by (simp_all add: five_blocks_def no_blocks_def)

lemma stride32 [simp]: "EMB_ALLOC_BLOCK_TOTAL_ALIGN_SIZE 32 = 80"
  by (simp add: EMB_ALLOC_BLOCK_TOTAL_ALIGN_SIZE_def)

lemma ptr_add_numeral [simp]:
  "ptr_add (numeral a) (numeral b) = (numeral a + unat (numeral b :: size_t)) mod 2 ^ 64"
  by (simp add: ptr_add_def)

lemma fresh_malloc:
  assumes "n \<noteq> 0" and "n \<le> 32"
  shows "EmbAllocMalloc fresh_pool n =
     Some (5376, fresh_pool\<lparr>mem := wr_size_t (wr_size_t (mem fresh_pool) 5360 1) 5368 n,
                  categories := (categories fresh_pool)
                     [0 := first_category\<lparr>occupied_blocks := 1, first_free_address := 5424\<rparr>]\<rparr>)"
proof -
  have c0: "categories fresh_pool ! 0 = first_category" by (simp add: fresh_categories)
  have fb: "free_block (mem fresh_pool) 5344 32" using fresh_block_free [of 0] by simp
  have r1: "rd_size_t (mem fresh_pool) 5440 = - 1" using fresh_block_counters(1) [of 1] by simp
  have mt: "\<not> thread_sync_mutex_initialized (aux_data fresh_pool) \<or>
            (lock_mutex_rc fresh_pool = 0 \<and> unlock_mutex_rc fresh_pool = 0)"
    by (simp add: fresh_fields)
  show ?thesis
    apply (subst malloc_first_class [OF fresh_pool_is_mempool mt assms(1) _ c0])
    apply (simp_all add: first_category_def fb assms)
    apply (simp add: advance_first_free.simps [of _ _ _ 5344] mark_allocated_def fresh_fields
        clear_fresh rd_wr_other r1 after_advance_def set_category_def first_category_def)
    done
qed

lemma one_live_fields:
  assumes "n \<noteq> 0" and "n \<le> 32"
  shows "mem (after_malloc fresh_pool n) = wr_size_t (wr_size_t (mem fresh_pool) 5360 1) 5368 n"
    and "categories (after_malloc fresh_pool n) =
           (categories fresh_pool)
             [0 := first_category\<lparr>occupied_blocks := 1, first_free_address := 5424\<rparr>]"
    and "aux_data (after_malloc fresh_pool n) = aux_data fresh_pool"
    and "settings (after_malloc fresh_pool n) = five_blocks"
    and "mempool (after_malloc fresh_pool n) = 4096"
    and "callback_calls (after_malloc fresh_pool n) = []"
    and "EMB_ALLOC_PTR_IS_MEMPOOL (after_malloc fresh_pool n)"
proof -
  note e = fresh_malloc [OF assms]
  show "mem (after_malloc fresh_pool n) = wr_size_t (wr_size_t (mem fresh_pool) 5360 1) 5368 n"
    by (simp add: after_malloc_def e)
  then have "bytes_at (mem (after_malloc fresh_pool n)) 4096 kEmbAllocMempoolStart =
             bytes_at (mem fresh_pool) 4096 kEmbAllocMempoolStart"
    by (simp add: bytes_at_wr_other)
  then show "EMB_ALLOC_PTR_IS_MEMPOOL (after_malloc fresh_pool n)"
    using fresh_pool_is_mempool
    by (simp add: EMB_ALLOC_PTR_IS_MEMPOOL_def after_malloc_def e fresh_fields)
qed (simp_all add: after_malloc_def fresh_malloc [OF assms] fresh_fields)

lemma one_live_mem_outside:
  assumes "n \<noteq> 0" and "n \<le> 32" and "x < 5360 \<or> 5376 \<le> x"
  shows "mem (after_malloc fresh_pool n) x = mem fresh_pool x"
  using assms(3) by (auto simp: one_live_fields(1) [OF assms(1,2)] wr_size_t_apply)

lemma second_malloc:
  "EmbAllocMalloc (after_malloc fresh_pool 32) 32 =
     Some (5456, (after_malloc fresh_pool 32)
        \<lparr>mem := wr_size_t (wr_size_t (mem (after_malloc fresh_pool 32)) 5440 1) 5448 32,
          categories := (categories fresh_pool)
             [0 := first_category\<lparr>occupied_blocks := 2, first_free_address := 5504\<rparr>]\<rparr>)"
proof -
  let ?s = "after_malloc fresh_pool 32"
  note f = one_live_fields [of 32, simplified]
  have c0: "categories ?s ! 0 = first_category\<lparr>occupied_blocks := 1, first_free_address := 5424\<rparr>"
    by (simp add: f fresh_categories)
  have "free_block (mem ?s) (5344 + 1 * 80) 32 = free_block (mem fresh_pool) (5344 + 1 * 80) 32"
    by (rule free_block_frame) (simp add: one_live_mem_outside)
  then have fb: "free_block (mem ?s) 5424 32" using fresh_block_free [of 1] by simp
  have "rd_size_t (mem ?s) 5520 = rd_size_t (mem fresh_pool) 5520"
    by (rule rd_frame) (simp add: one_live_mem_outside)
  then have r2: "rd_size_t (mem ?s) 5520 = - 1" using fresh_block_counters(1) [of 2] by simp
  have r2': "rd_size_t (mem fresh_pool) 5520 = - 1" using fresh_block_counters(1) [of 2] by simp
  have mt: "\<not> thread_sync_mutex_initialized (aux_data ?s) \<or>
            (lock_mutex_rc ?s = 0 \<and> unlock_mutex_rc ?s = 0)"
    by (simp add: f fresh_fields)
  have cl: "ClearMempoolErrorInternal ?s = ?s"
    by (simp add: ClearMempoolErrorInternal_def f fresh_fields)
  have n0: "(32 :: size_t) \<noteq> 0" by simp
  show ?thesis
    apply (subst malloc_first_class [OF f(7) mt n0 _ c0])
    apply (simp_all add: first_category_def fb)
    apply (simp add: advance_first_free.simps [of _ _ _ 5424] mark_allocated_def f
        cl rd_wr_other r2 r2' after_advance_def set_category_def first_category_def)
    done
qed

lemma two_live_fields:
  shows "mem two_live_blocks =
           wr_size_t (wr_size_t (mem (after_malloc fresh_pool 32)) 5440 1) 5448 32"
    and "categories two_live_blocks =
           (categories fresh_pool)
             [0 := first_category\<lparr>occupied_blocks := 2, first_free_address := 5504\<rparr>]"
    and "aux_data two_live_blocks = aux_data fresh_pool"
    and "settings two_live_blocks = five_blocks"
    and "mempool two_live_blocks = 4096"
    and "callback_calls two_live_blocks = []"
    and "EMB_ALLOC_PTR_IS_MEMPOOL two_live_blocks"
proof -
  note e = second_malloc
  note f = one_live_fields [of 32, simplified]
  show m: "mem two_live_blocks =
           wr_size_t (wr_size_t (mem (after_malloc fresh_pool 32)) 5440 1) 5448 32"
    by (simp add: two_live_blocks_def after_malloc_def [of "after_malloc fresh_pool 32"] e)
  have "bytes_at (mem two_live_blocks) 4096 kEmbAllocMempoolStart =
        bytes_at (mem (after_malloc fresh_pool 32)) 4096 kEmbAllocMempoolStart"
    by (simp add: m bytes_at_wr_other)
  then show "EMB_ALLOC_PTR_IS_MEMPOOL two_live_blocks"
    using f(7)
    by (simp add: EMB_ALLOC_PTR_IS_MEMPOOL_def two_live_blocks_def
        after_malloc_def [of "after_malloc fresh_pool 32"] e f)
qed (simp_all add: two_live_blocks_def after_malloc_def [of "after_malloc fresh_pool 32"]
       second_malloc one_live_fields [of 32, simplified])

lemma two_live_mem_outside:
  assumes "x < 5360 \<or> 5376 \<le> x" and "x < 5440 \<or> 5456 \<le> x"
  shows "mem two_live_blocks x = mem fresh_pool x"
  using assms
  by (auto simp: two_live_fields(1) one_live_fields(1) [of 32, simplified] wr_size_t_apply)

lemma two_live_counters:
  "rd_size_t (mem two_live_blocks) 5360 = 1" "rd_size_t (mem two_live_blocks) 5368 = 32"
  "rd_size_t (mem two_live_blocks) 5440 = 1" "rd_size_t (mem two_live_blocks) 5448 = 32"
  by (simp_all add: two_live_fields(1) one_live_fields(1) [of 32, simplified] rd_wr_other)

lemma clean_aux [simp]:
  "\<not> thread_sync_mutex_initialized (aux_data fresh_pool)"
  "last_error (aux_data fresh_pool) = kEmbAllocNoErr"
  "last_error_message (aux_data fresh_pool) = ([], 0)"
  by (simp_all add: fresh_fields)

lemma two_live_find: "find_category (categories two_live_blocks) 5344 = Some 0"
  by (simp add: find_category_def upt_8 two_live_fields fresh_categories first_category_def)

lemma fragmented_facts:
  shows "EMB_ALLOC_PTR_IS_MEMPOOL fragmented_pool"
    and "\<And>x. x < 5344 \<or> 5424 \<le> x \<Longrightarrow> mem fragmented_pool x = mem two_live_blocks x"
    and "free_block (mem fragmented_pool) 5344 32"
    and "categories fragmented_pool =
           (categories fresh_pool)
             [0 := first_category\<lparr>occupied_blocks := 1, first_free_address := 5344\<rparr>]"
    and "aux_data fragmented_pool = aux_data fresh_pool"
    and "settings fragmented_pool = five_blocks"
    and "mempool fragmented_pool = 4096"
    and "callback_calls fragmented_pool = []"
proof -
  have mt: "\<not> thread_sync_mutex_initialized (aux_data two_live_blocks) \<or>
            (lock_mutex_rc two_live_blocks = 0 \<and> unlock_mutex_rc two_live_blocks = 0)"
    by (simp add: two_live_fields)
  have "bytes_at (mem two_live_blocks) (5344 + 0 * 80) kEmbAllocBlockStart =
        bytes_at (mem fresh_pool) (5344 + 0 * 80) kEmbAllocBlockStart"
    by (rule bytes_at_frame) (simp add: two_live_mem_outside)
  then have head: "bytes_at (mem two_live_blocks) 5344 kEmbAllocBlockStart"
    using fresh_block_counters(3) [of 0] by simp
  have "bytes_at (mem two_live_blocks) (5344 + 0 * 80 + 64) kEmbAllocBlockEnd =
        bytes_at (mem fresh_pool) (5344 + 0 * 80 + 64) kEmbAllocBlockEnd"
    by (rule bytes_at_frame) (simp add: two_live_mem_outside)
  then have tail: "bytes_at (mem two_live_blocks) 5408 kEmbAllocBlockEnd"
    using fresh_block_counters(4) [of 0] by simp
  have d: "block_data_size (categories two_live_blocks ! 0) = 32"
    by (simp add: two_live_fields fresh_categories first_category_def)
  note fe = free_effect [of two_live_blocks 5344 1 0 32, OF two_live_fields(7) mt head _ _ _ _
      two_live_find d, simplified, OF two_live_counters(1) _ tail]
  note fe' = fe [unfolded two_live_counters two_live_fields(4,5), simplified]
  show "EMB_ALLOC_PTR_IS_MEMPOOL fragmented_pool"
    unfolding fragmented_pool_def by (rule fe'(1))
  show "mem fragmented_pool x = mem two_live_blocks x" if "x < 5344 \<or> 5424 \<le> x" for x
    unfolding fragmented_pool_def using that by (intro fe'(2)) simp
  show "free_block (mem fragmented_pool) 5344 32"
    unfolding fragmented_pool_def using fe'(3) by simp
  show "categories fragmented_pool =
           (categories fresh_pool)
             [0 := first_category\<lparr>occupied_blocks := 1, first_free_address := 5344\<rparr>]"
    unfolding fragmented_pool_def fe'(4)
    by (simp add: two_live_fields fresh_categories relax_cursors_def Let_def first_category_def)
  show "aux_data fragmented_pool = aux_data fresh_pool"
    unfolding fragmented_pool_def fe'(5) by (simp add: two_live_fields fresh_fields)
  show "settings fragmented_pool = five_blocks"
    unfolding fragmented_pool_def fe'(6) by (simp add: two_live_fields)
  show "mempool fragmented_pool = 4096"
    unfolding fragmented_pool_def fe'(7) by (simp add: two_live_fields)
  show "callback_calls fragmented_pool = []"
    unfolding fragmented_pool_def fe'(8) by (simp add: two_live_fields)
qed

lemma fragmented_counters:
  "rd_size_t (mem fragmented_pool) 5360 = - 1"
  "rd_size_t (mem fragmented_pool) 5440 = 1"
proof -
  show "rd_size_t (mem fragmented_pool) 5360 = - 1"
    using fragmented_facts(3) by (simp add: free_block_def)
  have "rd_size_t (mem fragmented_pool) 5440 = rd_size_t (mem two_live_blocks) 5440"
    by (rule rd_frame) (simp add: fragmented_facts(2))
  then show "rd_size_t (mem fragmented_pool) 5440 = 1" by (simp add: two_live_counters)
qed

lemma fragmented_free_blocks:
  assumes "2 \<le> i" and "i < 5"
  shows "free_block (mem fragmented_pool) (5344 + i * 80) 32"
proof -
  have "2 * 80 \<le> i * 80" using assms(1) by (intro mult_le_mono1)
  then have lo: "5504 \<le> 5344 + i * 80" by simp
  have "free_block (mem fragmented_pool) (5344 + i * 80) 32 =
        free_block (mem two_live_blocks) (5344 + i * 80) 32"
    by (rule free_block_frame) (use lo in \<open>simp add: fragmented_facts(2)\<close>)
  also have "\<dots> = free_block (mem fresh_pool) (5344 + i * 80) 32"
    by (rule free_block_frame) (use lo in \<open>simp add: two_live_mem_outside\<close>)
  finally show ?thesis using fresh_block_free [OF assms(2)] by simp
qed

lemma fragmented_scan:
  "EmbAllocCanAllocInMultipleBlocksInternal fragmented_pool 0 100 =
     Some (False, 0, 2, fragmented_pool)"
  by (simp add: EmbAllocCanAllocInMultipleBlocksInternal_def Let_def fragmented_facts
      fresh_categories first_category_def required_blocks_count_def
      EMB_ALLOC_BLOCK_TOTAL_ALIGN_SIZE_def
      scan_free_run.simps [of _ _ _ _ 5344] scan_free_run.simps [of _ _ _ _ 5424]
      fragmented_counters ptr_add_def word_le_nat_alt word_less_nat_alt)

lemma fragmented_malloc:
  "EmbAllocMalloc fragmented_pool 100 =
     Some (0, EmbAllocSetErrorInternal fragmented_pool kEmbAllocNoMemory
                EMB_ALLOC_NOT_ENOUGH_MEMORY_ERROR 0)"
proof -
  have cl: "ClearMempoolErrorInternal fragmented_pool = fragmented_pool"
    by (simp add: ClearMempoolErrorInternal_def fragmented_facts fresh_fields)
  have lk: "lock_mutex fragmented_pool = fragmented_pool"
    by (simp add: lock_mutex_def fragmented_facts)
  have sc: "scan_categories 7 fragmented_pool 100 8 0 0 =
      Some (Candidates 8 8 0 0 0 fragmented_pool)"
    by (simp add: eval_nat_numeral fragmented_facts fresh_categories empty_category_def)
  have mc: "malloc_candidates fragmented_pool 100 = Some (Candidates 8 8 0 2 0 fragmented_pool)"
    by (simp add: malloc_candidates_def sc try_first_category_def fragmented_scan)
      (simp add: fragmented_facts fresh_categories first_category_def)
  show ?thesis
    by (simp add: EmbAllocMalloc_def fragmented_facts(1) cl lk EmbAllocMallocInternal_def mc
        unlock_mutex_def)
      (simp add: EMB_ALLOC_CAN_ALLOC_IN_A_BLOCK_def fragmented_facts fresh_categories
        first_category_def)
qed

text \<open>
  C1 at the pool of five 32-byte blocks after \<^verbatim>\<open>Malloc (32)\<close>, \<^verbatim>\<open>Malloc (32)\<close> and \<^verbatim>\<open>Free\<close> of
  the first pointer, for a request of 100 bytes (two blocks).  The scan starts at the free
  block 0 and meets the live block 1; the blocks 2, 3 and 4 behind it are free, and yet
  the scan answers false there, because \<open>(last_free_address - block 1) / stride = 3\<close> is
  greater than the two blocks asked for, and \<^verbatim>\<open>EmbAllocMalloc\<close> returns \<^verbatim>\<open>NULL\<close> with
  \<^verbatim>\<open>kEmbAllocNoMemory\<close>.
\<close>

theorem C1_scan_gives_up_before_a_free_run:
  "EmbAllocCanAllocInMultipleBlocksInternal fragmented_pool 0 100 =
     Some (False, 0, 2, fragmented_pool) \<and>
   EmbAllocMalloc fragmented_pool 100 =
     Some (0, EmbAllocSetErrorInternal fragmented_pool kEmbAllocNoMemory
                EMB_ALLOC_NOT_ENOUGH_MEMORY_ERROR 0) \<and>
   first_free_address (categories fragmented_pool ! 0) = 5344 \<and>
   last_free_address (categories fragmented_pool ! 0) = 5664 \<and>
   rd_size_t (mem fragmented_pool) (5344 + 16) = EMB_ALLOC_VALUE_NOT_SET \<and>
   rd_size_t (mem fragmented_pool) (5424 + 16) = 1 \<and>
   rd_size_t (mem fragmented_pool) (5504 + 16) = EMB_ALLOC_VALUE_NOT_SET \<and>
   rd_size_t (mem fragmented_pool) (5584 + 16) = EMB_ALLOC_VALUE_NOT_SET \<and>
   rd_size_t (mem fragmented_pool) (5664 + 16) = EMB_ALLOC_VALUE_NOT_SET"
  using fragmented_scan fragmented_malloc fragmented_counters
    fragmented_free_blocks [of 2] fragmented_free_blocks [of 3] fragmented_free_blocks [of 4]
  by (simp add: fragmented_facts fresh_categories first_category_def free_block_def)

lemma one_live_marks:
  assumes "n \<noteq> 0" and "n \<le> 32"
  shows "bytes_at (mem (after_malloc fresh_pool n)) 5344 kEmbAllocBlockStart"
    and "bytes_at (mem (after_malloc fresh_pool n)) 5408 kEmbAllocBlockEnd"
    and "rd_size_t (mem (after_malloc fresh_pool n)) 5360 = 1"
    and "rd_size_t (mem (after_malloc fresh_pool n)) 5368 = n"
proof -
  have "bytes_at (mem (after_malloc fresh_pool n)) (5344 + 0 * 80) kEmbAllocBlockStart =
        bytes_at (mem fresh_pool) (5344 + 0 * 80) kEmbAllocBlockStart"
    by (rule bytes_at_frame) (simp add: one_live_mem_outside [OF assms])
  then show "bytes_at (mem (after_malloc fresh_pool n)) 5344 kEmbAllocBlockStart"
    using fresh_block_counters(3) [of 0] by simp
  have "bytes_at (mem (after_malloc fresh_pool n)) (5344 + 0 * 80 + 64) kEmbAllocBlockEnd =
        bytes_at (mem fresh_pool) (5344 + 0 * 80 + 64) kEmbAllocBlockEnd"
    by (rule bytes_at_frame) (simp add: one_live_mem_outside [OF assms])
  then show "bytes_at (mem (after_malloc fresh_pool n)) 5408 kEmbAllocBlockEnd"
    using fresh_block_counters(4) [of 0] by simp
  show "rd_size_t (mem (after_malloc fresh_pool n)) 5360 = 1"
    by (simp add: one_live_fields(1) [OF assms] rd_wr_other)
  show "rd_size_t (mem (after_malloc fresh_pool n)) 5368 = n"
    by (simp add: one_live_fields(1) [OF assms])
qed

lemma one_live_find:
  assumes "n \<noteq> 0" and "n \<le> 32"
  shows "find_category (categories (after_malloc fresh_pool n)) 5344 = Some 0"
  by (simp add: find_category_def upt_8 one_live_fields [OF assms] fresh_categories
      first_category_def)

lemma realloc_to_capacity:
  "EmbAllocRealloc (after_malloc fresh_pool 20) 5376 32 =
     Some (5376, (after_malloc fresh_pool 20)
        \<lparr>mem := wr_size_t
                  (wr_size_t (memset (mem (after_malloc fresh_pool 20)) 5408 0xAC 16) 5360 1)
                  5368 32\<rparr>)"
proof -
  let ?s = "after_malloc fresh_pool 20"
  have n: "(20 :: size_t) \<noteq> 0" "(20 :: size_t) \<le> 32" by simp_all
  note f = one_live_fields [OF n]
  note mk = one_live_marks [OF n]
  have cl: "ClearMempoolErrorInternal ?s = ?s"
    by (simp add: ClearMempoolErrorInternal_def f fresh_fields)
  have lk: "lock_mutex ?s = ?s" by (simp add: lock_mutex_def f)
  have blk: "EMB_ALLOC_PTR_IS_BLOCK (mem ?s) 5376"
    using mk(1) by (simp add: EMB_ALLOC_PTR_IS_BLOCK_def)
  have c0: "categories ?s ! 0 = first_category\<lparr>occupied_blocks := 1, first_free_address := 5424\<rparr>"
    by (simp add: f fresh_categories)
  have rds: "run_data_size 32 1 = 32" by (simp add: run_data_size_def)
  have g: "EmbAllocGetCategoryForPtr ?s 5376 = (Some 0, ?s)"
    using mk by (simp add: EmbAllocGetCategoryForPtr_def Let_def repair_marker_ok
        one_live_find [OF n] c0 first_category_def rds)
  have st: "settings ?s = five_blocks" by (rule f)
  have ex: "realloc_extend ?s 0 5376 32 32 0 =
      ?s\<lparr>mem := wr_size_t (wr_size_t (memset (mem ?s) 5408 0xAC 16) 5360 1) 5368 32\<rparr>"
  proof -
    have r: "rd_size_t (memset (mem ?s) 5408 0xAC 16) 5360 = 1"
      using mk(3) by (simp add: rd_memset_other)
    have "set_category (?s\<lparr>mem := wr_size_t (wr_size_t (memset (mem ?s) 5408 0xAC 16)
                5360 1) 5368 32\<rparr>) 0
            (first_category\<lparr>occupied_blocks := 1, first_free_address := 5424\<rparr>) =
          ?s\<lparr>mem := wr_size_t (wr_size_t (memset (mem ?s) 5408 0xAC 16) 5360 1) 5368 32\<rparr>"
      using c0 by (simp add: set_category_def f(2))
    then show ?thesis
      by (simp add: realloc_extend_def Let_def EmbAllocMergeFreeBlocksInternal_def st c0 r
          first_category_def word_le_nat_alt)
  qed
  have rb: "EmbAllocReallocBlockInternal ?s 0 5376 32 =
      Some (5376, ?s\<lparr>mem := wr_size_t (wr_size_t (memset (mem ?s) 5408 0xAC 16) 5360 1)
                              5368 32\<rparr>)"
    using mk(3,4)
    by (simp add: EmbAllocReallocBlockInternal_def Let_def c0 first_category_def rds
        repair_unused_tail_def st required_extra_blocks_def can_realloc_continously_def
        ex word_le_nat_alt word_less_nat_alt)
  have ul: "unlock_mutex (?s\<lparr>mem := m\<rparr>) = ?s\<lparr>mem := m\<rparr>" for m
    by (simp add: unlock_mutex_def f)
  show ?thesis
    using blk
    by (simp add: EmbAllocRealloc_def Let_def f(7) cl lk EmbAllocReallocInternal_def g rb ul)
qed

text \<open>
  C3 at the new pool of five 32-byte blocks after \<^verbatim>\<open>Malloc (20)\<close>: the run has one block and
  the capacity 32, and \<^verbatim>\<open>Realloc\<close> to 32 bytes returns the same pointer with the use count
  1 and the data size 32, but the end sentinel behind the payload, in place before the
  call, is overwritten with the fill value.
\<close>

theorem C3_realloc_to_capacity_destroys_the_tail:
  "EmbAllocMalloc fresh_pool 20 = Some (5376, after_malloc fresh_pool 20) \<and>
   rd_size_t (mem (after_malloc fresh_pool 20)) (5344 + 16) = 1 \<and>
   rd_size_t (mem (after_malloc fresh_pool 20)) (5344 + 24) = 20 \<and>
   run_data_size 32 1 = 32 \<and>
   bytes_at (mem (after_malloc fresh_pool 20)) (5376 + 32) kEmbAllocBlockEnd \<and>
   EmbAllocRealloc (after_malloc fresh_pool 20) 5376 32 =
     Some (5376, after_realloc (after_malloc fresh_pool 20) 5376 32) \<and>
   rd_size_t (mem (after_realloc (after_malloc fresh_pool 20) 5376 32)) (5344 + 16) = 1 \<and>
   rd_size_t (mem (after_realloc (after_malloc fresh_pool 20) 5376 32)) (5344 + 24) = 32 \<and>
   \<not> bytes_at (mem (after_realloc (after_malloc fresh_pool 20) 5376 32)) (5376 + 32)
        kEmbAllocBlockEnd \<and>
   mem (after_realloc (after_malloc fresh_pool 20) 5376 32) (5376 + 32 + 1) = EMB_ALLOC_INIT_VALUE \<and>
   kEmbAllocBlockEnd ! 1 = 0xDC"
proof -
  have n: "(20 :: size_t) \<noteq> 0" "(20 :: size_t) \<le> 32" by simp_all
  note mk = one_live_marks [OF n]
  have a: "EmbAllocMalloc fresh_pool 20 = Some (5376, after_malloc fresh_pool 20)"
    by (simp add: after_malloc_def fresh_malloc [OF n])
  have b: "mem (after_realloc (after_malloc fresh_pool 20) 5376 32) =
      wr_size_t (wr_size_t (memset (mem (after_malloc fresh_pool 20)) 5408 0xAC 16) 5360 1)
        5368 32"
    by (simp add: after_realloc_def realloc_to_capacity)
  have c: "mem (after_realloc (after_malloc fresh_pool 20) 5376 32) 5409 = 0xAC"
    by (simp add: b wr_size_t_apply memset_def)
  have d: "\<not> bytes_at (mem (after_realloc (after_malloc fresh_pool 20) 5376 32)) 5408
        kEmbAllocBlockEnd"
    using c by (simp add: kEmbAllocBlockEnd_def)
  have e: "EmbAllocRealloc (after_malloc fresh_pool 20) 5376 32 =
     Some (5376, after_realloc (after_malloc fresh_pool 20) 5376 32)"
    by (simp add: after_realloc_def realloc_to_capacity)
  show ?thesis
    using a mk c d e by (simp add: b rd_wr_other run_data_size_def kEmbAllocBlockEnd_def)
qed







lemma get_category_unset:
  assumes "EMB_ALLOC_PTR_IS_BLOCK (mem s) ptr"
    and "rd_size_t (mem s) (ptr - 32 + 16) = - 1 \<or> rd_size_t (mem s) (ptr - 32 + 24) = - 1"
  shows "EmbAllocGetCategoryForPtr s ptr =
     (None,
      if rd_size_t (mem s) (ptr - 32 + 16) = - 1
      then EmbAllocSetErrorInternal (s\<lparr>mem := wr_size_t (mem s) (ptr - 32 + 24) (- 1)\<rparr>)
             kEmbAllocOverflow EMB_ALLOC_OVERFLOW_ERROR (ptr - 32 + 16)
      else EmbAllocSetErrorInternal (s\<lparr>mem := wr_size_t (mem s) (ptr - 32 + 16) (- 1)\<rparr>)
             kEmbAllocOverflow EMB_ALLOC_OVERFLOW_ERROR (ptr - 32 + 24))"
proof -
  have r: "repair_marker kEmbAllocBlockStart (ptr - 32) s = s"
    using assms(1) by (simp add: repair_marker_ok EMB_ALLOC_PTR_IS_BLOCK_def)
  show ?thesis
    using assms(2) by (auto simp: EmbAllocGetCategoryForPtr_def Let_def r)
qed

lemma free_of_unset_block:
  assumes mp: "EMB_ALLOC_PTR_IS_MEMPOOL s" and p: "mempool s + 48 \<le> ptr"
    and blk: "EMB_ALLOC_PTR_IS_BLOCK (mem s) ptr"
    and unset: "rd_size_t (mem s) (ptr - 32 + 16) = - 1 \<or> rd_size_t (mem s) (ptr - 32 + 24) = - 1"
    and mutex: "\<not> thread_sync_mutex_initialized (aux_data s) \<or>
                (lock_mutex_rc s = 0 \<and> unlock_mutex_rc s = 0)"
  shows "EmbAllocGetLastErrorCode (EmbAllocFree s ptr) = kEmbAllocPointerParamError"
    and "rd_size_t (mem (EmbAllocFree s ptr)) (ptr - 32 + 16) = - 1"
    and "rd_size_t (mem (EmbAllocFree s ptr)) (ptr - 32 + 24) = - 1"
    and "callback_calls (EmbAllocFree s ptr) =
           callback_calls s @
           (if error_callback_fn (settings s) \<noteq> 0
            then [(kEmbAllocOverflow, (EMB_ALLOC_OVERFLOW_ERROR,
                     if rd_size_t (mem s) (ptr - 32 + 16) = - 1 then ptr - 32 + 16
                     else ptr - 32 + 24)),
                  (kEmbAllocPointerParamError, (EMB_ALLOC_INVALID_POINTER_PARAM_ERROR, 0))]
            else [])"
    and "categories (EmbAllocFree s ptr) = categories s"
proof -
  let ?s1 = "ClearMempoolErrorInternal s"
  let ?m = "if rd_size_t (mem s) (ptr - 32 + 16) = - 1
            then wr_size_t (mem s) (ptr - 32 + 24) (- 1)
            else wr_size_t (mem s) (ptr - 32 + 16) (- 1)"
  let ?loc = "if rd_size_t (mem s) (ptr - 32 + 16) = - 1 then ptr - 32 + 16 else ptr - 32 + 24"
  let ?s3 = "EmbAllocSetErrorInternal
               (EmbAllocSetErrorInternal (?s1\<lparr>mem := ?m\<rparr>)
                  kEmbAllocOverflow EMB_ALLOC_OVERFLOW_ERROR ?loc)
               kEmbAllocPointerParamError EMB_ALLOC_INVALID_POINTER_PARAM_ERROR 0"
  have nz: "ptr \<noteq> 0" using p by simp
  have l: "lock_mutex ?s1 = ?s1" using mutex by (intro lock_mutex_ok) auto
  have g: "EmbAllocGetCategoryForPtr ?s1 ptr =
      (None, EmbAllocSetErrorInternal (?s1\<lparr>mem := ?m\<rparr>)
                kEmbAllocOverflow EMB_ALLOC_OVERFLOW_ERROR ?loc)"
    using get_category_unset [of ?s1 ptr] blk unset by (simp split: if_splits)
  have u: "unlock_mutex ?s3 = ?s3" using mutex by (intro unlock_mutex_ok) auto
  have f: "EmbAllocFree s ptr = ?s3"
    using mp nz blk by (simp add: EmbAllocFree_def Let_def l EmbAllocFreeInternal_def g u)
  have w: "bytes_at (wr_size_t (mem s) a (- 1)) (mempool s) kEmbAllocMempoolStart"
    if "mempool s + 16 \<le> a" for a
    using mp that by (simp add: EMB_ALLOC_PTR_IS_MEMPOOL_def bytes_at_wr_other)
  have a: "mempool s + 16 \<le> ptr - 32 + 24" "mempool s + 16 \<le> ptr - 32 + 16"
    using p by simp_all
  have mp3: "bytes_at ?m (mempool s) kEmbAllocMempoolStart"
  proof (cases "rd_size_t (mem s) (ptr - 32 + 16) = - 1")
    case True
    show ?thesis by (subst if_P [OF True]) (rule w [OF a(1)])
  next
    case False
    show ?thesis by (subst if_not_P [OF False]) (rule w [OF a(2)])
  qed
  show "EmbAllocGetLastErrorCode (EmbAllocFree s ptr) = kEmbAllocPointerParamError"
    unfolding f using mp3 by (simp add: EmbAllocGetLastErrorCode_def EMB_ALLOC_PTR_IS_MEMPOOL_def)
  show "rd_size_t (mem (EmbAllocFree s ptr)) (ptr - 32 + 16) = - 1"
    unfolding f using unset by (simp add: rd_wr_other)
  show "rd_size_t (mem (EmbAllocFree s ptr)) (ptr - 32 + 24) = - 1"
    unfolding f using unset by (auto simp: rd_wr_other)
  show "callback_calls (EmbAllocFree s ptr) =
           callback_calls s @
           (if error_callback_fn (settings s) \<noteq> 0
            then [(kEmbAllocOverflow, (EMB_ALLOC_OVERFLOW_ERROR, ?loc)),
                  (kEmbAllocPointerParamError, (EMB_ALLOC_INVALID_POINTER_PARAM_ERROR, 0))]
            else [])"
    unfolding f by simp
  show "categories (EmbAllocFree s ptr) = categories s"
    unfolding f by simp
qed

text \<open>
  C6, amended: on a valid pool whose mutex does not fail, \<^verbatim>\<open>EmbAllocFree\<close> of a pointer
  into the block area that is preceded by the block start sentinel and whose use count
  or data size is unset reports \<^verbatim>\<open>kEmbAllocOverflow\<close> at the unset counter (the callback is
  called with it) and leaves both counters unset; then, no category being returned for
  the pointer, it reports \<^verbatim>\<open>kEmbAllocPointerParamError\<close>, and that is the error
  \<^verbatim>\<open>EmbAllocGetLastErrorCode\<close> returns afterwards.  The categories are unchanged.
\<close>

theorem C6_free_of_unset_block:
  assumes "EMB_ALLOC_PTR_IS_MEMPOOL s" and "mempool s + 48 \<le> ptr"
    and "EMB_ALLOC_PTR_IS_BLOCK (mem s) ptr"
    and "rd_size_t (mem s) (ptr - 32 + 16) = - 1 \<or> rd_size_t (mem s) (ptr - 32 + 24) = - 1"
    and "\<not> thread_sync_mutex_initialized (aux_data s) \<or>
         (lock_mutex_rc s = 0 \<and> unlock_mutex_rc s = 0)"
  shows "EmbAllocGetLastErrorCode (EmbAllocFree s ptr) = kEmbAllocPointerParamError \<and>
         rd_size_t (mem (EmbAllocFree s ptr)) (ptr - 32 + 16) = EMB_ALLOC_VALUE_NOT_SET \<and>
         rd_size_t (mem (EmbAllocFree s ptr)) (ptr - 32 + 24) = EMB_ALLOC_VALUE_NOT_SET \<and>
         callback_calls (EmbAllocFree s ptr) =
           callback_calls s @
           (if error_callback_fn (settings s) \<noteq> 0
            then [(kEmbAllocOverflow, (EMB_ALLOC_OVERFLOW_ERROR,
                     if rd_size_t (mem s) (ptr - 32 + 16) = - 1 then ptr - 32 + 16
                     else ptr - 32 + 24)),
                  (kEmbAllocPointerParamError, (EMB_ALLOC_INVALID_POINTER_PARAM_ERROR, 0))]
            else []) \<and>
         categories (EmbAllocFree s ptr) = categories s"
  using free_of_unset_block [OF assms] by simp

lemma fresh_is_block:
  assumes "i < 5"
  shows "EMB_ALLOC_PTR_IS_BLOCK (mem fresh_pool) (5376 + i * 80)"
  using fresh_block_counters(3) [OF assms] by (simp add: EMB_ALLOC_PTR_IS_BLOCK_def)

text \<open>C6 at the second block of the new pool of five 32-byte blocks, never allocated.\<close>

theorem C6_witness:
  "EMB_ALLOC_PTR_IS_MEMPOOL fresh_pool \<and> EMB_ALLOC_PTR_IS_BLOCK (mem fresh_pool) 5456 \<and>
   rd_size_t (mem fresh_pool) 5440 = EMB_ALLOC_VALUE_NOT_SET \<and>
   EmbAllocGetLastErrorCode (EmbAllocFree fresh_pool 5456) = kEmbAllocPointerParamError \<and>
   callback_calls (EmbAllocFree fresh_pool 5456) =
     [(kEmbAllocOverflow, (EMB_ALLOC_OVERFLOW_ERROR, 5440)),
      (kEmbAllocPointerParamError, (EMB_ALLOC_INVALID_POINTER_PARAM_ERROR, 0))]"
  using C6_free_of_unset_block [of fresh_pool 5456] fresh_pool_is_mempool
    fresh_is_block [of 1] fresh_block_counters(1) [of 1]
  by (simp add: fresh_fields five_blocks_def no_blocks_def)

text \<open>
  C6, as the claim states it, fails at a pointer already freed: after \<^verbatim>\<open>Malloc (20)\<close> on the
  new pool and \<^verbatim>\<open>Free\<close> of the pointer (which leaves no error), the block start sentinel
  is in place and the use count is unset, and a second \<^verbatim>\<open>Free\<close> of the pointer leaves
  \<^verbatim>\<open>kEmbAllocPointerParamError\<close>, not \<^verbatim>\<open>kEmbAllocOverflow\<close>, as the last error.
\<close>

theorem C6_double_free_counterexample:
  "EmbAllocMalloc fresh_pool 20 = Some (5376, after_malloc fresh_pool 20) \<and>
   EmbAllocGetLastErrorCode (EmbAllocFree (after_malloc fresh_pool 20) 5376) = kEmbAllocNoErr \<and>
   EMB_ALLOC_PTR_IS_BLOCK (mem (EmbAllocFree (after_malloc fresh_pool 20) 5376)) 5376 \<and>
   rd_size_t (mem (EmbAllocFree (after_malloc fresh_pool 20) 5376)) (5344 + 16) =
     EMB_ALLOC_VALUE_NOT_SET \<and>
   EmbAllocGetLastErrorCode
     (EmbAllocFree (EmbAllocFree (after_malloc fresh_pool 20) 5376) 5376) =
     kEmbAllocPointerParamError"
proof -
  let ?s = "after_malloc fresh_pool 20"
  let ?t = "EmbAllocFree ?s 5376"
  have n: "(20 :: size_t) \<noteq> 0" "(20 :: size_t) \<le> 32" by simp_all
  note f = one_live_fields [OF n]
  note mk = one_live_marks [OF n]
  have a: "EmbAllocMalloc fresh_pool 20 = Some (5376, ?s)"
    by (simp add: after_malloc_def fresh_malloc [OF n])
  have mt: "\<not> thread_sync_mutex_initialized (aux_data ?s) \<or>
            (lock_mutex_rc ?s = 0 \<and> unlock_mutex_rc ?s = 0)"
    by (simp add: f)
  have d: "block_data_size (categories ?s ! 0) = 32"
    by (simp add: f fresh_categories first_category_def)
  note fe = free_effect [of ?s 5344 1 0 32, OF f(7) mt mk(1) _ _ _ _
      one_live_find [OF n] d, simplified, OF mk(3) _ mk(2)]
  note fe' = fe [unfolded mk f(4,5), simplified]
  have mp: "EMB_ALLOC_PTR_IS_MEMPOOL ?t" by (rule fe'(1))
  have fb: "free_block (mem ?t) 5344 32" using fe'(3) by simp
  have blk: "EMB_ALLOC_PTR_IS_BLOCK (mem ?t) 5376"
    using fb by (simp add: EMB_ALLOC_PTR_IS_BLOCK_def free_block_def)
  have r: "rd_size_t (mem ?t) 5360 = - 1" using fb by (simp add: free_block_def)
  have e1: "EmbAllocGetLastErrorCode ?t = kEmbAllocNoErr"
    using mp by (simp add: EmbAllocGetLastErrorCode_def fe'(5))
  have mt': "\<not> thread_sync_mutex_initialized (aux_data ?t) \<or>
            (lock_mutex_rc ?t = 0 \<and> unlock_mutex_rc ?t = 0)"
    by (simp add: fe'(5) f)
  have e2: "EmbAllocGetLastErrorCode (EmbAllocFree ?t 5376) = kEmbAllocPointerParamError"
    by (rule free_of_unset_block(1) [OF mp _ blk _ mt']) (simp_all add: fe'(7) r)
  show ?thesis using a e1 blk r e2 by simp
qed


end
